theory Spec2Isabelle
  imports Main
begin

section \<open>Cluster notifier (package cluster, NewNotifier)\<close>

text \<open>
  \<^verbatim>\<open>NotifierPolicy\<close> with its three constants, in the order of the \<^verbatim>\<open>iota\<close> block.
\<close>

datatype NotifierPolicy = NotifyAll | NotifyAlive | NotifyTryAll

text \<open>
  The errors \<^verbatim>\<open>NewNotifier\<close> and the notifier it builds can return. The type \<open>'e\<close> is
  the error type of the collaborators (the dialer, the hook, the database); the
  constructors are the wrappers of the source:
  \<^verbatim>\<open>fmt.Errorf("peer node %s is down", address)\<close>,
  \<^verbatim>\<open>errors.Wrapf(err, "failed to connect to peer %s", address)\<close>,
  \<^verbatim>\<open>errors.Wrapf(err, "failed to notify peer %s", address)\<close>,
  \<^verbatim>\<open>errors.Wrap(err, "failed to fetch node address")\<close>, and an error of the
  database transaction returned as it is.
\<close>

datatype 'e notify_error =
    PeerDown string
  | FailedConnect string 'e
  | FailedNotify string 'e
  | FailedFetchAddress 'e
  | TxError 'e

text \<open>
  The peer selection loop of \<^verbatim>\<open>NewNotifier\<close>. A node is its address paired with the
  result of \<^verbatim>\<open>node.IsOffline(offlineThreshold)\<close> (the heartbeat test lives in package db,
  outside this model); \<open>HasConnectivity\<close> is the live probe. The accumulator is the
  slice \<^verbatim>\<open>peers\<close>.
\<close>

fun select_peers ::
  "NotifierPolicy \<Rightarrow> string \<Rightarrow> (string \<Rightarrow> bool) \<Rightarrow> (string \<times> bool) list \<Rightarrow> string list
    \<Rightarrow> 'e notify_error + string list" where
  "select_peers policy address HasConnectivity [] peers = Inr peers"
| "select_peers policy address HasConnectivity ((nodeAddress, isOffline) # nodes) peers =
     (if nodeAddress = address \<or> nodeAddress = ''0.0.0.0''
      then select_peers policy address HasConnectivity nodes peers
      else if isOffline \<and> \<not> HasConnectivity nodeAddress
      then (case policy of
              NotifyAll \<Rightarrow> Inl (PeerDown nodeAddress)
            | NotifyAlive \<Rightarrow> select_peers policy address HasConnectivity nodes peers
            | NotifyTryAll \<Rightarrow>
                select_peers policy address HasConnectivity nodes (peers @ [nodeAddress]))
      else select_peers policy address HasConnectivity nodes (peers @ [nodeAddress]))"

text \<open>
  The body of one goroutine of the notifier: the value it leaves in \<^verbatim>\<open>errs[i]\<close>.
  \<open>Connect\<close> is \<^verbatim>\<open>cluster.Connect\<close> and \<open>hook\<close> the caller's function.
\<close>

definition notify_peer ::
  "(string \<Rightarrow> 'e + 'c) \<Rightarrow> ('c \<Rightarrow> 'e option) \<Rightarrow> string \<Rightarrow> 'e notify_error option" where
  "notify_peer Connect hook address =
     (case Connect address of
        Inl err \<Rightarrow> Some (FailedConnect address err)
      | Inr client \<Rightarrow>
          (case hook client of
             Some err \<Rightarrow> Some (FailedNotify address err)
           | None \<Rightarrow> None))"

text \<open>
  The loop over \<^verbatim>\<open>errs\<close> after \<^verbatim>\<open>wg.Wait()\<close>. The second component of each pair is
  \<^verbatim>\<open>errs[i]\<close>, the first \<^verbatim>\<open>peers[i]\<close>; the last argument collects the peers named by
  \<^verbatim>\<open>logger.Warnf("Could not notify node %s", peers[i])\<close>. \<open>IsConnectionError\<close> is
  \<^verbatim>\<open>shared.IsConnectionError\<close>.
\<close>

fun scan_errs ::
  "('e notify_error \<Rightarrow> bool) \<Rightarrow> NotifierPolicy \<Rightarrow> (string \<times> 'e notify_error option) list
    \<Rightarrow> string list \<Rightarrow> string list \<times> 'e notify_error option" where
  "scan_errs IsConnectionError policy [] warned = (warned, None)"
| "scan_errs IsConnectionError policy ((peer, None) # rest) warned =
     scan_errs IsConnectionError policy rest warned"
| "scan_errs IsConnectionError policy ((peer, Some err) # rest) warned =
     (if IsConnectionError err \<and> policy = NotifyAlive
      then scan_errs IsConnectionError policy rest (warned @ [peer])
      else (warned, Some err))"

text \<open>
  The notifier closure: every peer is contacted (the goroutines write to distinct
  slots of \<^verbatim>\<open>errs\<close>, so the slice after \<^verbatim>\<open>wg.Wait()\<close> is the map below), then the slots
  are scanned in order. The result is the warnings logged and the error returned.
\<close>

definition notifier ::
  "('e notify_error \<Rightarrow> bool) \<Rightarrow> NotifierPolicy \<Rightarrow> string list \<Rightarrow> (string \<Rightarrow> 'e + 'c)
    \<Rightarrow> ('c \<Rightarrow> 'e option) \<Rightarrow> string list \<times> 'e notify_error option" where
  "notifier IsConnectionError policy peers Connect hook =
     scan_errs IsConnectionError policy
       (zip peers (map (notify_peer Connect hook) peers)) []"

text \<open>
  \<^verbatim>\<open>NewNotifier\<close>: \<open>clusterAddress\<close> is the result of \<^verbatim>\<open>node.ClusterAddress\<close>, \<open>tx\<close> the
  result of the transaction reading the member list. An unclustered daemon gets the
  null notifier, which is the notifier over no peers.
\<close>

definition NewNotifier ::
  "('e + string) \<Rightarrow> ('e + (string \<times> bool) list) \<Rightarrow> (string \<Rightarrow> bool) \<Rightarrow> NotifierPolicy
    \<Rightarrow> 'e notify_error + string list" where
  "NewNotifier clusterAddress tx HasConnectivity policy =
     (case clusterAddress of
        Inl err \<Rightarrow> Inl (FailedFetchAddress err)
      | Inr address \<Rightarrow>
          if address = [] then Inr []
          else (case tx of
                  Inl err \<Rightarrow> Inl (TxError err)
                | Inr nodes \<Rightarrow> select_peers policy address HasConnectivity nodes []))"

section \<open>Local database: raft nodes (package db, raft.go)\<close>

text \<open>
  Errors of package db that the modelled functions return: the two sentinel errors, and
  one constructor for each \<^verbatim>\<open>fmt.Errorf\<close> of the modelled code, named after its message.
\<close>

datatype db_error =
    ErrNoSuchObject
  | ErrAlreadyDefined
  | CouldNotSetRaftNodeID
  | UnsupportedNetworkType int
  | MoreThanOneNetworkExists
  | NetworkIsNotInPendingState
  | MoreThanOneNetworkHasName
  | NetworkNotDefinedOnNodes "string list"
  | DuplicateConfigRow string int
  | NetworkNotFound
  | SqlError string

text \<open>\<^verbatim>\<open>RaftRole\<close>: the three roles of a dqlite node.\<close>

datatype RaftRole = RaftVoter | RaftStandBy | RaftSpare

text \<open>A row of \<^verbatim>\<open>raft_nodes\<close>, which is what \<^verbatim>\<open>RaftNode\<close> holds.\<close>

record RaftNode =
  raft_ID :: int
  raft_Address :: string
  raft_Role :: RaftRole
  raft_Name :: string

text \<open>
  Modelled from the spec: \<^verbatim>\<open>query.UpsertObject\<close> is not among the sources. It is the
  upsert of the spec's \<^verbatim>\<open>create_first_raft_node\<close> on the table
  \<^verbatim>\<open>raft_nodes(id, address UNIQUE, role, name)\<close>: it stores the new row in place of every
  row that clashes with it on the key \<^verbatim>\<open>id\<close> or on the unique \<^verbatim>\<open>address\<close>, and returns the id
  of the row stored. A row written without an id takes the next id after the largest
  one; a row written without a role is a voter (the founder is a voter).
\<close>

definition next_id :: "int list \<Rightarrow> int" where
  "next_id ids = fold max ids 0 + 1"

definition UpsertObject_raft_nodes ::
  "RaftNode list \<Rightarrow> int option \<Rightarrow> string \<Rightarrow> string \<Rightarrow> db_error + (int \<times> RaftNode list)" where
  "UpsertObject_raft_nodes rows rowid address name =
     (let newid = (case rowid of Some i \<Rightarrow> i | None \<Rightarrow> next_id (map raft_ID rows));
          kept = filter (\<lambda>r. raft_ID r \<noteq> newid \<and> raft_Address r \<noteq> address) rows
      in Inr (newid, kept @ [\<lparr>raft_ID = newid, raft_Address = address,
                               raft_Role = RaftVoter, raft_Name = name\<rparr>]))"

text \<open>
  \<^verbatim>\<open>CreateFirstRaftNode\<close>. The upsert is a parameter (\<open>upsert\<close> stands for
  \<^verbatim>\<open>query.UpsertObject(n.tx, "raft_nodes", ...)\<close>), called with the columns
  \<^verbatim>\<open>id, address, name\<close> and the values \<^verbatim>\<open>int64(1), address, name\<close>. The result is the
  error returned, or the table after the call.
\<close>

definition CreateFirstRaftNode ::
  "('t \<Rightarrow> int option \<Rightarrow> string \<Rightarrow> string \<Rightarrow> db_error + (int \<times> 't)) \<Rightarrow> 't \<Rightarrow> string \<Rightarrow> string
    \<Rightarrow> db_error + 't" where
  "CreateFirstRaftNode upsert tx address name =
     (case upsert tx (Some 1) address name of
        Inl err \<Rightarrow> Inl err
      | Inr (rowid, tx') \<Rightarrow> if rowid \<noteq> 1 then Inl CouldNotSetRaftNodeID else Inr tx')"

text \<open>\<^verbatim>\<open>CreateRaftNode\<close>: the same upsert without the id column.\<close>

definition CreateRaftNode ::
  "('t \<Rightarrow> int option \<Rightarrow> string \<Rightarrow> string \<Rightarrow> db_error + (int \<times> 't)) \<Rightarrow> 't \<Rightarrow> string \<Rightarrow> string
    \<Rightarrow> db_error + (int \<times> 't)" where
  "CreateRaftNode upsert tx address name = upsert tx None address name"

section \<open>Cluster database: networks (package db, networks.go)\<close>

text \<open>\<^verbatim>\<open>NetworkState\<close>, in the order of its \<^verbatim>\<open>iota\<close> block.\<close>

datatype NetworkState = networkPending | networkCreated | networkErrored

text \<open>
  \<^verbatim>\<open>NetworkType\<close> is an \<^verbatim>\<open>int\<close> with the one named value \<^verbatim>\<open>NetworkTypeBridge\<close>; a caller can
  pass any integer.
\<close>

type_synonym NetworkType = int

definition NetworkTypeBridge :: NetworkType where
  "NetworkTypeBridge = 0"

text \<open>
  A Go \<^verbatim>\<open>map[string]string\<close> is an association list with distinct keys; where the source
  ranges over a map, the order of the list stands for the order of the iteration.
\<close>

type_synonym config = "(string \<times> string) list"

definition NodeSpecificNetworkConfig :: "string list" where
  "NodeSpecificNetworkConfig = [''bridge.external_interfaces'']"

text \<open>\<^verbatim>\<open>shared.StringInSlice\<close>: whether the key is an element of the slice.\<close>

definition StringInSlice :: "string \<Rightarrow> string list \<Rightarrow> bool" where
  "StringInSlice key list = (key \<in> set list)"

text \<open>
  The tables the modelled functions read and write, as lists of rows in the order of
  insertion: \<^verbatim>\<open>networks(id, name, description, state)\<close>,
  \<^verbatim>\<open>networks_nodes(network_id, node_id)\<close>,
  \<^verbatim>\<open>networks_config(network_id, node_id, key, value)\<close> with \<^verbatim>\<open>node_id\<close> NULL on a global
  key, and \<^verbatim>\<open>nodes\<close>, of which the model keeps what \<^verbatim>\<open>db.NodeInfo\<close> gives the modelled
  code: id, name, address, description, roles and the result of \<^verbatim>\<open>IsOffline\<close>. \<open>nodeID\<close> is \<^verbatim>\<open>c.nodeID\<close>, the id
  of the local member.

  The schema of the cluster database is not among the sources. The model takes two
  things from it. The key of \<^verbatim>\<open>networks\<close> is given out by the database and not used again
  after a delete (\<^verbatim>\<open>INTEGER PRIMARY KEY AUTOINCREMENT\<close>): \<open>networks_seq\<close> is the largest id
  given out so far. The rows of \<^verbatim>\<open>networks_nodes\<close> and \<^verbatim>\<open>networks_config\<close> go with the row of
  their network (\<^verbatim>\<open>ON DELETE CASCADE\<close>).
\<close>

record networks_row =
  nw_id :: int
  nw_name :: string
  nw_description :: string
  nw_state :: NetworkState

record networks_config_row =
  nc_network_id :: int
  nc_node_id :: "int option"
  nc_key :: string
  nc_value :: string

record NodeInfo =
  node_ID :: int
  node_Name :: string
  node_Address :: string
  node_Description :: string
  node_Roles :: "string list"
  node_IsOffline :: bool

record cluster_db =
  networks :: "networks_row list"
  networks_nodes :: "(int \<times> int) list"
  networks_config :: "networks_config_row list"
  nodes :: "NodeInfo list"
  nodeID :: int
  networks_seq :: int

text \<open>
  The id of the next row inserted into \<^verbatim>\<open>networks\<close>: one more than the largest id given out
  and the largest id in the table.
\<close>

definition next_network_id :: "cluster_db \<Rightarrow> int" where
  "next_network_id tx = max (networks_seq tx) (fold max (map nw_id (networks tx)) 0) + 1"

text \<open>
  A function that runs inside a transaction returns the error it returns in the source
  and the state of the transaction at that point. \<^verbatim>\<open>Transaction\<close> commits when the
  function returns no error and rolls back otherwise. The SQL statements themselves are
  taken to succeed: the errors modelled are those the source makes from a result.
\<close>

definition Transaction ::
  "cluster_db \<Rightarrow> (cluster_db \<Rightarrow> 'e option \<times> cluster_db) \<Rightarrow> 'e option \<times> cluster_db" where
  "Transaction db f =
     (case f db of
        (Some err, tx) \<Rightarrow> (Some err, db)
      | (None, tx) \<Rightarrow> (None, tx))"

text \<open>
  Modelled from the spec: \<^verbatim>\<open>GetNodes\<close> and \<^verbatim>\<open>GetNodeByName\<close> are not among the sources.
  They are the spec's \<^verbatim>\<open>list_members()\<close> and \<^verbatim>\<open>get_member_by(name)\<close>: all the rows of
  \<^verbatim>\<open>nodes\<close>, and the row with the given name or \<^verbatim>\<open>ErrNoSuchObject\<close>.
\<close>

definition GetNodes :: "cluster_db \<Rightarrow> NodeInfo list" where
  "GetNodes tx = nodes tx"

definition GetNodeByName :: "cluster_db \<Rightarrow> string \<Rightarrow> db_error + NodeInfo" where
  "GetNodeByName tx name =
     (case filter (\<lambda>n. node_Name n = name) (nodes tx) of
        [] \<Rightarrow> Inl ErrNoSuchObject
      | n # _ \<Rightarrow> Inr n)"

text \<open>\<^verbatim>\<open>GetNetworkID\<close>.\<close>

definition GetNetworkID :: "cluster_db \<Rightarrow> string \<Rightarrow> db_error + int" where
  "GetNetworkID tx name =
     (case map nw_id (filter (\<lambda>r. nw_name r = name) (networks tx)) of
        [] \<Rightarrow> Inl ErrNoSuchObject
      | [i] \<Rightarrow> Inr i
      | _ \<Rightarrow> Inl MoreThanOneNetworkHasName)"

text \<open>
  \<^verbatim>\<open>networkConfigAdd\<close>: one row for each key with a non-empty value; the row of a key
  that is not node-specific has a NULL \<^verbatim>\<open>node_id\<close>.
\<close>

fun networkConfigAdd :: "cluster_db \<Rightarrow> int \<Rightarrow> int \<Rightarrow> config \<Rightarrow> cluster_db" where
  "networkConfigAdd tx networkID nodeID' [] = tx"
| "networkConfigAdd tx networkID nodeID' ((k, v) # conf) =
     (if v = [] then networkConfigAdd tx networkID nodeID' conf
      else networkConfigAdd
             (tx\<lparr>networks_config := networks_config tx @
                  [\<lparr>nc_network_id = networkID,
                    nc_node_id = (if \<not> StringInSlice k NodeSpecificNetworkConfig then None
                                  else Some nodeID'),
                    nc_key = k, nc_value = v\<rparr>]\<rparr>)
             networkID nodeID' conf)"

text \<open>\<^verbatim>\<open>CreateNetworkConfig\<close>.\<close>

definition CreateNetworkConfig :: "cluster_db \<Rightarrow> int \<Rightarrow> int \<Rightarrow> config \<Rightarrow> cluster_db" where
  "CreateNetworkConfig tx networkID nodeID' conf = networkConfigAdd tx networkID nodeID' conf"

text \<open>
  \<^verbatim>\<open>networkState\<close>: the update reaches every row with the name, and the function returns
  \<^verbatim>\<open>ErrNoSuchObject\<close> unless exactly one row was affected. \<^verbatim>\<open>NetworkCreated\<close> and
  \<^verbatim>\<open>NetworkErrored\<close> call it.
\<close>

definition networkState ::
  "cluster_db \<Rightarrow> string \<Rightarrow> NetworkState \<Rightarrow> db_error option \<times> cluster_db" where
  "networkState tx name state =
     (let n = length (filter (\<lambda>r. nw_name r = name) (networks tx));
          tx' = tx\<lparr>networks :=
                  map (\<lambda>r. if nw_name r = name then r\<lparr>nw_state := state\<rparr> else r) (networks tx)\<rparr>
      in if n \<noteq> 1 then (Some ErrNoSuchObject, tx') else (None, tx'))"

definition NetworkCreated :: "cluster_db \<Rightarrow> string \<Rightarrow> db_error option \<times> cluster_db" where
  "NetworkCreated tx name = networkState tx name networkCreated"

definition NetworkErrored :: "cluster_db \<Rightarrow> string \<Rightarrow> db_error option \<times> cluster_db" where
  "NetworkErrored tx name = networkState tx name networkErrored"

text \<open>
  \<^verbatim>\<open>CreatePendingNetwork\<close>. The select leaves in \<^verbatim>\<open>network\<close> the last row with the name (the
  zero value when there is none) and sets \<^verbatim>\<open>errConsistency\<close> when there is more than one.
  Modelled from the spec: the upsert into \<^verbatim>\<open>networks\<close> (\<^verbatim>\<open>query.UpsertObject\<close> is not among
  the sources) stores a row with the next id in place of the rows with the same name,
  and the new row is in the state pending, as the function's name and the spec's
  \<^verbatim>\<open>state \<in> {pending, created, errored}\<close> have it.
\<close>

definition CreatePendingNetwork ::
  "cluster_db \<Rightarrow> string \<Rightarrow> string \<Rightarrow> NetworkType \<Rightarrow> config \<Rightarrow> db_error option \<times> cluster_db" where
  "CreatePendingNetwork tx node name netType conf =
     (if netType \<noteq> NetworkTypeBridge then (Some (UnsupportedNetworkType netType), tx)
      else
        let rows = filter (\<lambda>r. nw_name r = name) (networks tx);
            network_id = (if rows = [] then 0 else nw_id (last rows));
            network_state = (if rows = [] then networkPending else nw_state (last rows))
        in if length rows > 1 then (Some MoreThanOneNetworkExists, tx)
           else if network_id \<noteq> 0 \<and> network_state \<noteq> networkPending
           then (Some NetworkIsNotInPendingState, tx)
           else
             let newID = next_network_id tx;
                 tx1 = (if network_id = 0
                        then tx\<lparr>networks := filter (\<lambda>r. nw_name r \<noteq> name) (networks tx) @
                                   [\<lparr>nw_id = newID, nw_name = name, nw_description = [],
                                     nw_state = networkPending\<rparr>],
                                 networks_seq := newID\<rparr>
                        else tx);
                 networkID = (if network_id = 0 then newID else network_id)
             in case GetNodeByName tx1 node of
                  Inl err \<Rightarrow> (Some err, tx1)
                | Inr nodeInfo \<Rightarrow>
                    if length (filter (\<lambda>(n, m). n = networkID \<and> m = node_ID nodeInfo)
                                 (networks_nodes tx1)) \<noteq> 0
                    then (Some ErrAlreadyDefined, tx1)
                    else
                      let tx2 = tx1\<lparr>networks_nodes :=
                                     networks_nodes tx1 @ [(networkID, node_ID nodeInfo)]\<rparr>
                      in (None, CreateNetworkConfig tx2 networkID (node_ID nodeInfo) conf))"

text \<open>
  \<^verbatim>\<open>api.Network\<close>: the fields the modelled code reads or writes. The status values are the
  strings of package api.
\<close>

record Network =
  net_Name :: string
  net_Description :: string
  net_Type :: string
  net_Managed :: bool
  net_Status :: string
  net_Config :: config
  net_Locations :: "string list"

definition NetworkStatusPending :: string where "NetworkStatusPending = ''Pending''"
definition NetworkStatusCreated :: string where "NetworkStatusCreated = ''Created''"
definition NetworkStatusErrored :: string where "NetworkStatusErrored = ''Errored''"
definition NetworkStatusUnknown :: string where "NetworkStatusUnknown = ''Unknown''"

text \<open>\<^verbatim>\<open>NetworkStateToAPIStatus\<close>; the three states are all the values of the model's type.\<close>

fun NetworkStateToAPIStatus :: "NetworkState \<Rightarrow> string" where
  "NetworkStateToAPIStatus networkPending = NetworkStatusPending"
| "NetworkStateToAPIStatus networkCreated = NetworkStatusCreated"
| "NetworkStateToAPIStatus networkErrored = NetworkStatusErrored"

text \<open>\<^verbatim>\<open>networkFillType\<close>: the type string of a database network type.\<close>

definition networkFillType :: "NetworkType \<Rightarrow> string" where
  "networkFillType netType = (if netType = NetworkTypeBridge then ''bridge'' else [])"

text \<open>
  \<^verbatim>\<open>(c *Cluster) GetCreatedNetworks\<close>: the names of the networks in the state
  \<^verbatim>\<open>networkCreated\<close>.
\<close>

definition GetCreatedNetworks :: "cluster_db \<Rightarrow> db_error + string list" where
  "GetCreatedNetworks db =
     Inr (map nw_name (filter (\<lambda>r. nw_state r = networkCreated) (networks db)))"

text \<open>
  \<^verbatim>\<open>getNetworkConfig\<close>: the rows of the network that are global or belong to the local
  member. With no row at all the network must exist; a key found twice is an error.
\<close>

fun config_of_rows :: "int \<Rightarrow> networks_config_row list \<Rightarrow> config \<Rightarrow> db_error + config" where
  "config_of_rows networkID [] conf = Inr conf"
| "config_of_rows networkID (r # rows) conf =
     (if nc_key r \<in> set (map fst conf) then Inl (DuplicateConfigRow (nc_key r) networkID)
      else config_of_rows networkID rows (conf @ [(nc_key r, nc_value r)]))"

definition getNetworkConfig :: "cluster_db \<Rightarrow> int \<Rightarrow> db_error + config" where
  "getNetworkConfig db networkID =
     (let results = filter (\<lambda>r. nc_network_id r = networkID
                                \<and> (nc_node_id r = Some (nodeID db) \<or> nc_node_id r = None))
                      (networks_config db)
      in if results = [] \<and> filter (\<lambda>r. nw_id r = networkID) (networks db) = []
         then Inl ErrNoSuchObject
         else config_of_rows networkID results [])"

text \<open>
  \<^verbatim>\<open>NetworkNodes\<close>: the members the network is defined on, as pairs of id and name (the
  source keys a map by the id).
\<close>

definition NetworkNodes :: "cluster_db \<Rightarrow> int \<Rightarrow> (int \<times> string) list" where
  "NetworkNodes db networkID =
     concat (map (\<lambda>n. map (\<lambda>_. (node_ID n, node_Name n))
                         (filter (\<lambda>(nw, m). nw = networkID \<and> m = node_ID n) (networks_nodes db)))
                 (nodes db))"

text \<open>
  \<^verbatim>\<open>getPartialNetworkByName\<close>: the first row with the name (\<^verbatim>\<open>LIMIT 1\<close>); with a state
  filter (a \<^verbatim>\<open>stateFilter\<close> above -1) the row must be in the state \<^verbatim>\<open>networkCreated\<close>, which
  is the value the source binds whatever the filter. The network type is the zero value
  of its variable. The result is the id, the state, the type and the partly filled
  network.
\<close>

definition getPartialNetworkByName ::
  "cluster_db \<Rightarrow> string \<Rightarrow> NetworkState option
    \<Rightarrow> db_error + (int \<times> NetworkState \<times> NetworkType \<times> Network)" where
  "getPartialNetworkByName db networkName stateFilter =
     (case filter (\<lambda>r. nw_name r = networkName
                        \<and> (stateFilter \<noteq> None \<longrightarrow> nw_state r = networkCreated))
             (networks db) of
        [] \<Rightarrow> Inl NetworkNotFound
      | r # _ \<Rightarrow>
          Inr (nw_id r, nw_state r, 0,
               \<lparr>net_Name = nw_name r, net_Description = nw_description r, net_Type = [],
                 net_Managed = True, net_Status = [], net_Config = [], net_Locations = []\<rparr>))"

text \<open>\<^verbatim>\<open>networkPopulatePeerInfo\<close>: the network filled, and the members it is defined on.\<close>

definition networkPopulatePeerInfo ::
  "cluster_db \<Rightarrow> int \<Rightarrow> Network \<Rightarrow> NetworkState \<Rightarrow> NetworkType
    \<Rightarrow> db_error + (Network \<times> (int \<times> string) list)" where
  "networkPopulatePeerInfo db networkID network networkState' networkType =
     (case getNetworkConfig db networkID of
        Inl err \<Rightarrow> Inl err
      | Inr conf \<Rightarrow>
          (let members = NetworkNodes db networkID
           in Inr (network\<lparr>net_Status := NetworkStateToAPIStatus networkState',
                             net_Type := networkFillType networkType,
                             net_Config := conf,
                             net_Locations := map snd members\<rparr>, members)))"

text \<open>\<^verbatim>\<open>getNetworkByName\<close> and \<^verbatim>\<open>GetNetworkInAnyState\<close>, which calls it with the filter -1.\<close>

definition getNetworkByName ::
  "cluster_db \<Rightarrow> string \<Rightarrow> NetworkState option
    \<Rightarrow> db_error + (int \<times> Network \<times> (int \<times> string) list)" where
  "getNetworkByName db networkName stateFilter =
     (case getPartialNetworkByName db networkName stateFilter of
        Inl err \<Rightarrow> Inl err
      | Inr (networkID, networkState', networkType, network) \<Rightarrow>
          (case networkPopulatePeerInfo db networkID network networkState' networkType of
             Inl err \<Rightarrow> Inl err
           | Inr (network', members) \<Rightarrow> Inr (networkID, network', members)))"

definition GetNetworkInAnyState ::
  "cluster_db \<Rightarrow> string \<Rightarrow> db_error + (int \<times> Network \<times> (int \<times> string) list)" where
  "GetNetworkInAnyState db networkName = getNetworkByName db networkName None"

text \<open>
  \<^verbatim>\<open>NetworkNodeConfigs\<close>: the names of the members on which the network is defined and
  pending, the members missing from them, and for every member the config rows of its
  node id (the source selects them by \<^verbatim>\<open>node_id\<close> alone).
\<close>

definition NetworkNodeConfigs :: "cluster_db \<Rightarrow> int \<Rightarrow> db_error + (string \<times> config) list" where
  "NetworkNodeConfigs tx networkID =
     (let members = GetNodes tx;
          defined = concat (map (\<lambda>n.
                      concat (map (\<lambda>(nw, m).
                          map (\<lambda>r. node_Name n)
                            (filter (\<lambda>r. nw_id r = nw \<and> nw_id r = networkID
                                          \<and> nw_state r = networkPending) (networks tx)))
                        (filter (\<lambda>(nw, m). m = node_ID n) (networks_nodes tx))))
                      members);
          missing = filter (\<lambda>name. \<not> StringInSlice name defined) (map node_Name members)
      in if length missing > 0 then Inl (NetworkNotDefinedOnNodes missing)
         else Inr (map (\<lambda>n. (node_Name n,
                        map (\<lambda>r. (nc_key r, nc_value r))
                          (filter (\<lambda>r. nc_node_id r = Some (node_ID n)) (networks_config tx))))
                   members))"

text \<open>
  \<^verbatim>\<open>(c *Cluster) CreateNetwork\<close>: a new row in the state \<^verbatim>\<open>networkCreated\<close>, the entry of the
  local member and the config. On an error the result is -1 and the error, with the
  database as it was (the transaction is rolled back). On success the result is 0: the
  closure declares an \<^verbatim>\<open>id\<close> of its own (\<^verbatim>\<open>id, err := result.LastInsertId()\<close>), so the \<^verbatim>\<open>id\<close>
  that is returned keeps its zero value.
\<close>

definition CreateNetwork ::
  "cluster_db \<Rightarrow> string \<Rightarrow> string \<Rightarrow> NetworkType \<Rightarrow> config \<Rightarrow> (db_error + int) \<times> cluster_db" where
  "CreateNetwork db name description netType conf =
     (if netType \<noteq> NetworkTypeBridge then (Inl (UnsupportedNetworkType netType), db)
      else
        let newID = next_network_id db;
            tx1 = db\<lparr>networks := networks db @
                      [\<lparr>nw_id = newID, nw_name = name, nw_description = description,
                        nw_state = networkCreated\<rparr>],
                    networks_seq := newID\<rparr>;
            tx2 = tx1\<lparr>networks_nodes := networks_nodes tx1 @ [(newID, nodeID db)]\<rparr>
        in (Inr 0, networkConfigAdd tx2 newID (nodeID db) conf))"

text \<open>
  \<^verbatim>\<open>DeleteNetwork\<close>: the row of \<^verbatim>\<open>networks\<close> with the id of the network of that name is
  deleted, and with it the rows of \<^verbatim>\<open>networks_nodes\<close> and \<^verbatim>\<open>networks_config\<close> that refer to
  it.
\<close>

definition DeleteNetwork :: "cluster_db \<Rightarrow> string \<Rightarrow> db_error option \<times> cluster_db" where
  "DeleteNetwork db name =
     (case GetNetworkInAnyState db name of
        Inl err \<Rightarrow> (Some err, db)
      | Inr (networkID, network, members) \<Rightarrow>
          (None, db\<lparr>networks := filter (\<lambda>r. nw_id r \<noteq> networkID) (networks db),
                    networks_nodes := filter (\<lambda>(nw, m). nw \<noteq> networkID) (networks_nodes db),
                    networks_config :=
                      filter (\<lambda>r. nc_network_id r \<noteq> networkID) (networks_config db)\<rparr>))"

text \<open>
  \<^verbatim>\<open>NetworkNodeJoin\<close>: the entry of a member in \<^verbatim>\<open>networks_nodes\<close>, stored in place of an
  equal one.
\<close>

definition NetworkNodeJoin :: "cluster_db \<Rightarrow> int \<Rightarrow> int \<Rightarrow> db_error option \<times> cluster_db" where
  "NetworkNodeJoin tx networkID nodeID' =
     (None, tx\<lparr>networks_nodes :=
                filter (\<lambda>e. e \<noteq> (networkID, nodeID')) (networks_nodes tx) @
                  [(networkID, nodeID')]\<rparr>)"

text \<open>
  \<^verbatim>\<open>updateNetworkDescription\<close>, \<^verbatim>\<open>clearNetworkConfig\<close> and \<^verbatim>\<open>(c *Cluster) UpdateNetwork\<close>, which
  looks the network up by name and then runs \<^verbatim>\<open>(c *ClusterTx) UpdateNetwork\<close>: the
  description is replaced, the global config and the config of the local member are
  replaced by the given one.
\<close>

definition updateNetworkDescription :: "cluster_db \<Rightarrow> int \<Rightarrow> string \<Rightarrow> cluster_db" where
  "updateNetworkDescription tx networkID description =
     tx\<lparr>networks := map (\<lambda>r. if nw_id r = networkID then r\<lparr>nw_description := description\<rparr>
                               else r) (networks tx)\<rparr>"

definition clearNetworkConfig :: "cluster_db \<Rightarrow> int \<Rightarrow> int \<Rightarrow> cluster_db" where
  "clearNetworkConfig tx networkID nodeID' =
     tx\<lparr>networks_config :=
          filter (\<lambda>r. \<not> (nc_network_id r = networkID
                          \<and> (nc_node_id r = Some nodeID' \<or> nc_node_id r = None)))
            (networks_config tx)\<rparr>"

definition UpdateNetwork ::
  "cluster_db \<Rightarrow> string \<Rightarrow> string \<Rightarrow> config \<Rightarrow> db_error option \<times> cluster_db" where
  "UpdateNetwork db name description conf =
     (case GetNetworkInAnyState db name of
        Inl err \<Rightarrow> (Some err, db)
      | Inr (networkID, network, members) \<Rightarrow>
          (None, networkConfigAdd
                   (clearNetworkConfig (updateNetworkDescription db networkID description)
                      networkID (nodeID db))
                   networkID (nodeID db) conf))"

text \<open>
  \<^verbatim>\<open>RenameNetwork\<close>: the row with the id of the network of the old name takes the new
  name. The statement fails when another row has the new name: the code takes the
  names of the table to be unique (\<^verbatim>\<open>GetNetworkID\<close> reports a second row of a name as an
  inconsistency), which the schema declares (\<^verbatim>\<open>UNIQUE (name)\<close>).
\<close>

definition RenameNetwork :: "cluster_db \<Rightarrow> string \<Rightarrow> string \<Rightarrow> db_error option \<times> cluster_db" where
  "RenameNetwork db oldName newName =
     (case GetNetworkInAnyState db oldName of
        Inl err \<Rightarrow> (Some err, db)
      | Inr (networkID, network, members) \<Rightarrow>
          if filter (\<lambda>r. nw_name r = newName \<and> nw_id r \<noteq> networkID) (networks db) \<noteq> []
          then (Some (SqlError ''UNIQUE constraint failed: networks.name''), db)
          else (None, db\<lparr>networks := map (\<lambda>r. if nw_id r = networkID
                                                then r\<lparr>nw_name := newName\<rparr> else r)
                                        (networks db)\<rparr>))"

section \<open>Responses (package response)\<close>

text \<open>
  The responses a handler returns, by constructor of package response. \<open>'e\<close> is the
  error carried, \<open>'a\<close> the metadata of a successful response.
\<close>

datatype ('e, 'a) response =
    EmptySyncResponse
  | SyncResponse 'a
  | SyncResponseLocation string
  | SyncResponseRedirect string
  | OperationResponse 'a
  | ManualResponse
  | BadRequest 'e
  | InternalError 'e
  | SmartError 'e
  | PreconditionFailed 'e

section \<open>Networks API (networks.go)\<close>

text \<open>\<^verbatim>\<open>clusterRequest.ClientType\<close>, read from the user agent of the request.\<close>

datatype ClientType = ClientTypeNotifier | ClientTypeJoiner | ClientTypeNormal

text \<open>\<^verbatim>\<open>api.NetworksPost\<close>.\<close>

record NetworksPost =
  nsp_Name :: string
  nsp_Description :: string
  nsp_Type :: string
  nsp_Config :: config

text \<open>
  The errors of the networks handlers: an error of package db, an error of the
  notifier, an error of a collaborator not modelled (carried as its message), and one
  constructor for each \<^verbatim>\<open>fmt.Errorf\<close> of the modelled handlers.
\<close>

datatype net_error =
    NetDb db_error
  | NetNotify "string notify_error"
  | NetExt string
  | NetNoNameProvided
  | NetworkTypeDoesNotSupportNodeSpecificConfig string
  | ConfigKeyMayNotBeUsedAsNodeSpecificKey string
  | NetworkAlreadyDefinedOnNode string
  | NetworkIsInErroredState
  | FailedCreatingPendingNetworkForNode string db_error
  | TheNetworkAlreadyExists
  | ErrorInsertingIntoDatabase string db_error
  | ConfigKeyIsNodeSpecific string
  | TheNetworkIsAlreadyCreated
  | RequestedNetworkTypeDoesNotMatch string string
  | NetworkAlreadyPartiallyCreated
  | NetworkNotPendingOnAnyNode
  | TheNetworkIsCurrentlyInUse

text \<open>
  What the handlers take from outside the sources. Of the network type
  (\<^verbatim>\<open>network.LoadByType\<close>): whether the type loads, \<^verbatim>\<open>ValidateName\<close>,
  \<^verbatim>\<open>Info().NodeSpecificConfig\<close>, \<^verbatim>\<open>DBType()\<close> and \<^verbatim>\<open>FillConfig\<close>. Of the network loaded
  (\<^verbatim>\<open>network.LoadByName\<close>): the load itself, \<^verbatim>\<open>Validate\<close>, \<^verbatim>\<open>LocalStatus\<close>, \<^verbatim>\<open>Create\<close> and \<^verbatim>\<open>Start\<close>
  of the driver. Of the cluster: \<^verbatim>\<open>cluster.Count\<close>, \<^verbatim>\<open>node.ClusterAddress\<close>, the live probe
  \<^verbatim>\<open>HasConnectivity\<close>, \<^verbatim>\<open>shared.IsConnectionError\<close>, \<^verbatim>\<open>cluster.Connect\<close> (the client of a
  peer is named by the peer's address), and on such a client \<^verbatim>\<open>GetServer\<close> (the server
  name) and \<^verbatim>\<open>CreateNetwork\<close>.
\<close>

record net_env =
  ne_LoadByType :: "string \<Rightarrow> string option"
  ne_ValidateName :: "string \<Rightarrow> string option"
  ne_NodeSpecificConfig :: "string \<Rightarrow> bool"
  ne_DBType :: "string \<Rightarrow> NetworkType"
  ne_FillConfig :: "config \<Rightarrow> string + config"
  ne_LoadByName :: "cluster_db \<Rightarrow> string \<Rightarrow> string + Network"
  ne_Validate :: "Network \<Rightarrow> string option"
  ne_LocalStatus :: "Network \<Rightarrow> string"
  ne_Create :: "Network \<Rightarrow> ClientType \<Rightarrow> string option"
  ne_Start :: "Network \<Rightarrow> string option"
  ne_Count :: "string + int"
  ne_ClusterAddress :: "string + string"
  ne_HasConnectivity :: "string \<Rightarrow> bool"
  ne_IsConnectionError :: "string notify_error \<Rightarrow> bool"
  ne_Connect :: "string \<Rightarrow> string + string"
  ne_GetServer :: "string \<Rightarrow> string + string"
  ne_CreateNetwork :: "string \<Rightarrow> NetworksPost \<Rightarrow> string option"

text \<open>
  The request of \<^verbatim>\<open>networksPost\<close>: the decoded body, the \<^verbatim>\<open>target\<close> query parameter,
  \<^verbatim>\<open>isClusterNotification(r)\<close> and the client type.
\<close>

record net_request =
  nr_body :: "string + NetworksPost"
  nr_target :: string
  nr_isClusterNotification :: bool
  nr_clientType :: ClientType

text \<open>\<^verbatim>\<open>networkPartiallyCreated\<close>.\<close>

definition networkPartiallyCreated :: "Network \<Rightarrow> bool" where
  "networkPartiallyCreated netInfo =
     (if net_Status netInfo = NetworkStatusErrored then True
      else (\<exists>key\<in>set (map fst (net_Config netInfo)).
              \<not> StringInSlice key NodeSpecificNetworkConfig))"

text \<open>
  \<^verbatim>\<open>doNetworksCreate\<close>. The driver's work on the local system is outside the model: the
  result is the error returned. When \<^verbatim>\<open>Start\<close> fails the reverter calls the driver's
  \<^verbatim>\<open>Delete\<close>, which undoes \<^verbatim>\<open>Create\<close> on the local system.
\<close>

definition doNetworksCreate :: "net_env \<Rightarrow> Network \<Rightarrow> ClientType \<Rightarrow> string option" where
  "doNetworksCreate env n clientType =
     (case (if clientType \<noteq> ClientTypeJoiner then ne_Validate env n else None) of
        Some err \<Rightarrow> Some err
      | None \<Rightarrow>
          if ne_LocalStatus env n = NetworkStatusCreated then None
          else (case ne_Create env n clientType of
                  Some err \<Rightarrow> Some err
                | None \<Rightarrow>
                    if clientType \<noteq> ClientTypeJoiner
                    then (case ne_Start env n of Some err \<Rightarrow> Some err | None \<Rightarrow> None)
                    else None))"

text \<open>\<^verbatim>\<open>m[key] = value\<close> and \<^verbatim>\<open>delete(m, key)\<close> on a Go map.\<close>

fun map_store :: "string \<Rightarrow> string \<Rightarrow> config \<Rightarrow> config" where
  "map_store key val [] = [(key, val)]"
| "map_store key val ((k, v) # m) =
     (if k = key then (key, val) # m else (k, v) # map_store key val m)"

definition map_delete :: "string \<Rightarrow> config \<Rightarrow> config" where
  "map_delete key m = filter (\<lambda>(k, v). k \<noteq> key) m"

text \<open>
  The hook \<^verbatim>\<open>networksPostCluster\<close> gives to the notifier: the request sent to a peer is the
  network's config without the node-specific keys, with the peer's own node-specific
  config merged in. \<open>client\<close> is the client of the peer.
\<close>

definition create_on_peer ::
  "net_env \<Rightarrow> Network \<Rightarrow> (string \<times> config) list \<Rightarrow> string \<Rightarrow> string option" where
  "create_on_peer env n nodeConfigs client =
     (case ne_GetServer env client of
        Inl err \<Rightarrow> Some err
      | Inr serverName \<Rightarrow>
          (let conf0 = fold map_delete NodeSpecificNetworkConfig (net_Config n);
               own = (case map_of nodeConfigs serverName of None \<Rightarrow> [] | Some c \<Rightarrow> c);
               nodeReq = \<lparr>nsp_Name = net_Name n, nsp_Description = net_Description n,
                          nsp_Type = net_Type n,
                          nsp_Config = fold (\<lambda>(key, val). map_store key val) own conf0\<rparr>
           in ne_CreateNetwork env client nodeReq))"

text \<open>
  The closure of the first transaction of \<^verbatim>\<open>networksPostCluster\<close>. Beside the error and
  the state of the transaction it leaves \<^verbatim>\<open>nodeConfigs\<close> and the request's config, which
  \<^verbatim>\<open>FillConfig\<close> completes in place.
\<close>

definition networksPostCluster_global ::
  "net_env \<Rightarrow> Network option \<Rightarrow> NetworksPost \<Rightarrow> cluster_db
    \<Rightarrow> (net_error option \<times> cluster_db) \<times> (string \<times> config) list \<times> config" where
  "networksPostCluster_global env netInfo req tx =
     (if netInfo \<noteq> None \<and> networkPartiallyCreated (the netInfo)
      then (if length (nsp_Config req) > 0
            then ((Some NetworkAlreadyPartiallyCreated, tx), [], nsp_Config req)
            else ((None, tx), [], nsp_Config req))
      else
     (case GetNetworkID tx (nsp_Name req) of
        Inl err \<Rightarrow> ((Some (NetDb err), tx), [], nsp_Config req)
      | Inr networkID \<Rightarrow>
     (case NetworkNodeConfigs tx networkID of
        Inl err \<Rightarrow> ((Some (NetDb err), tx), [], nsp_Config req)
      | Inr nodeConfigs \<Rightarrow>
     (case ne_FillConfig env (nsp_Config req) of
        Inl err \<Rightarrow> ((Some (NetExt err), tx), nodeConfigs, nsp_Config req)
      | Inr conf \<Rightarrow>
          (case NetworkErrored (CreateNetworkConfig tx networkID 0 conf) (nsp_Name req) of
             (Some err, tx') \<Rightarrow> ((Some (NetDb err), tx'), nodeConfigs, conf)
           | (None, tx') \<Rightarrow> ((None, tx'), nodeConfigs, conf))))))"

text \<open>
  The checks \<^verbatim>\<open>networksPostCluster\<close> makes before its first transaction: no key of the
  request is node-specific, and an existing record is not yet created and has the
  requested type.
\<close>

definition networksPostCluster_checks :: "Network option \<Rightarrow> NetworksPost \<Rightarrow> bool" where
  "networksPostCluster_checks netInfo req =
     (find (\<lambda>key. StringInSlice key NodeSpecificNetworkConfig) (map fst (nsp_Config req)) = None
      \<and> \<not> (netInfo \<noteq> None \<and> net_Status (the netInfo) = NetworkStatusCreated)
      \<and> \<not> (netInfo \<noteq> None \<and> nsp_Type req \<noteq> net_Type (the netInfo)))"

text \<open>
  \<^verbatim>\<open>networksPostCluster\<close>: the error returned and the cluster database it leaves. The
  first key of the request's config that is node-specific ends the function; the
  notifier is built with the policy \<^verbatim>\<open>NotifyAll\<close> on the members read from the database.
\<close>

definition networksPostCluster ::
  "net_env \<Rightarrow> cluster_db \<Rightarrow> Network option \<Rightarrow> NetworksPost \<Rightarrow> ClientType
    \<Rightarrow> net_error option \<times> cluster_db" where
  "networksPostCluster env db netInfo req clientType =
     (case find (\<lambda>key. StringInSlice key NodeSpecificNetworkConfig) (map fst (nsp_Config req)) of
        Some key \<Rightarrow> (Some (ConfigKeyIsNodeSpecific key), db)
      | None \<Rightarrow>
          if netInfo \<noteq> None \<and> net_Status (the netInfo) = NetworkStatusCreated
          then (Some TheNetworkIsAlreadyCreated, db)
          else if netInfo \<noteq> None \<and> nsp_Type req \<noteq> net_Type (the netInfo)
          then (Some (RequestedNetworkTypeDoesNotMatch (nsp_Type req) (net_Type (the netInfo))), db)
          else
     (case Transaction db (\<lambda>tx. fst (networksPostCluster_global env netInfo req tx)) of
        (Some err, db1) \<Rightarrow>
          (if err = NetDb ErrNoSuchObject then (Some NetworkNotPendingOnAnyNode, db1)
           else (Some err, db1))
      | (None, db1) \<Rightarrow>
     (let nodeConfigs = fst (snd (networksPostCluster_global env netInfo req db)) in
      case NewNotifier (ne_ClusterAddress env)
             (Inr (map (\<lambda>n. (node_Address n, node_IsOffline n)) (GetNodes db1)))
             (ne_HasConnectivity env) NotifyAll of
        Inl err \<Rightarrow> (Some (NetNotify err), db1)
      | Inr peers \<Rightarrow>
     (case ne_LoadByName env db1 (nsp_Name req) of
        Inl err \<Rightarrow> (Some (NetExt err), db1)
      | Inr n \<Rightarrow>
     (case doNetworksCreate env n clientType of
        Some err \<Rightarrow> (Some (NetExt err), db1)
      | None \<Rightarrow>
     (case snd (notifier (ne_IsConnectionError env) NotifyAll peers (ne_Connect env)
                  (create_on_peer env n nodeConfigs)) of
        Some err \<Rightarrow> (Some (NetNotify err), db1)
      | None \<Rightarrow>
     (case Transaction db1 (\<lambda>tx. NetworkCreated tx (nsp_Name req)) of
        (Some err, db2) \<Rightarrow> (Some (NetDb err), db2)
      | (None, db2) \<Rightarrow> (None, db2))))))))"

text \<open>
  The loop of \<^verbatim>\<open>networksPost\<close> that defines the network as pending on every member when
  the network type has no node-specific config; \<^verbatim>\<open>ErrAlreadyDefined\<close> is passed over.
\<close>

fun create_pending_each ::
  "cluster_db \<Rightarrow> string \<Rightarrow> NetworkType \<Rightarrow> NodeInfo list \<Rightarrow> net_error option \<times> cluster_db" where
  "create_pending_each tx name netType [] = (None, tx)"
| "create_pending_each tx name netType (member # members) =
     (case CreatePendingNetwork tx (node_Name member) name netType [] of
        (Some err, tx') \<Rightarrow>
          if err \<noteq> ErrAlreadyDefined
          then (Some (FailedCreatingPendingNetworkForNode (node_Name member) err), tx')
          else create_pending_each tx' name netType members
      | (None, tx') \<Rightarrow> create_pending_each tx' name netType members)"

text \<open>
  \<^verbatim>\<open>networksPost\<close>: the response and the cluster database after the request. The
  lifecycle event of the creation outside a cluster is not part of the model. The
  reverter of that path deletes the database record when a later step fails.
\<close>

definition networksPost ::
  "net_env \<Rightarrow> net_request \<Rightarrow> cluster_db \<Rightarrow> (net_error, unit) response \<times> cluster_db" where
  "networksPost env r db =
     (case nr_body r of
        Inl err \<Rightarrow> (BadRequest (NetExt err), db)
      | Inr req0 \<Rightarrow>
          if nsp_Name req0 = [] then (BadRequest NetNoNameProvided, db)
          else
     (let req = (if nsp_Type req0 = [] then req0\<lparr>nsp_Type := ''bridge''\<rparr> else req0);
          resp = SyncResponseLocation (''/1.0/networks/'' @ nsp_Name req);
          clientType = nr_clientType r
      in
      case ne_LoadByType env (nsp_Type req) of
        Some err \<Rightarrow> (BadRequest (NetExt err), db)
      | None \<Rightarrow>
     (case ne_ValidateName env (nsp_Name req) of
        Some err \<Rightarrow> (BadRequest (NetExt err), db)
      | None \<Rightarrow>
          if nr_isClusterNotification r
          then (case ne_LoadByName env db (nsp_Name req) of
                  Inl err \<Rightarrow> (SmartError (NetExt err), db)
                | Inr n \<Rightarrow>
                    (case doNetworksCreate env n clientType of
                       Some err \<Rightarrow> (SmartError (NetExt err), db)
                     | None \<Rightarrow> (resp, db)))
          else if nr_target r \<noteq> []
          then (if \<not> ne_NodeSpecificConfig env (nsp_Type req)
                then (BadRequest (NetworkTypeDoesNotSupportNodeSpecificConfig (nsp_Type req)), db)
                else
                  (case find (\<lambda>key. \<not> StringInSlice key NodeSpecificNetworkConfig)
                          (map fst (nsp_Config req)) of
                     Some key \<Rightarrow> (BadRequest (ConfigKeyMayNotBeUsedAsNodeSpecificKey key), db)
                   | None \<Rightarrow>
                       (case Transaction db (\<lambda>tx. CreatePendingNetwork tx (nr_target r)
                                 (nsp_Name req) (ne_DBType env (nsp_Type req)) (nsp_Config req)) of
                          (Some err, db') \<Rightarrow>
                            if err = ErrAlreadyDefined
                            then (BadRequest (NetworkAlreadyDefinedOnNode (nr_target r)), db')
                            else (SmartError (NetDb err), db')
                        | (None, db') \<Rightarrow> (resp, db'))))
          else
     (case (case GetNetworkInAnyState db (nsp_Name req) of
              Inl err \<Rightarrow> if err \<noteq> NetworkNotFound then Inl err else Inr None
            | Inr (networkID, network, members) \<Rightarrow> Inr (Some network)) of
        Inl err \<Rightarrow> (InternalError (NetDb err), db)
      | Inr netInfo \<Rightarrow>
          if netInfo \<noteq> None \<and> net_Status (the netInfo) = NetworkStatusErrored
          then (BadRequest NetworkIsInErroredState, db)
          else
     (case ne_Count env of
        Inl err \<Rightarrow> (SmartError (NetExt err), db)
      | Inr count \<Rightarrow>
          if count > 1 \<or> (netInfo \<noteq> None \<and> net_Status (the netInfo) \<noteq> NetworkStatusCreated)
          then
            (case (if \<not> ne_NodeSpecificConfig env (nsp_Type req) \<and> clientType \<noteq> ClientTypeJoiner
                   then Transaction db (\<lambda>tx. create_pending_each tx (nsp_Name req)
                                               (ne_DBType env (nsp_Type req)) (GetNodes tx))
                   else (None, db)) of
               (Some err, db1) \<Rightarrow> (SmartError err, db1)
             | (None, db1) \<Rightarrow>
                 (case networksPostCluster env db1 netInfo req clientType of
                    (Some err, db2) \<Rightarrow> (SmartError err, db2)
                  | (None, db2) \<Rightarrow> (resp, db2)))
          else if netInfo \<noteq> None then (BadRequest TheNetworkAlreadyExists, db)
          else
            (case ne_FillConfig env (nsp_Config req) of
               Inl err \<Rightarrow> (SmartError (NetExt err), db)
             | Inr conf \<Rightarrow>
            (case CreateNetwork db (nsp_Name req) (nsp_Description req)
                    (ne_DBType env (nsp_Type req)) conf of
               (Inl err, db1) \<Rightarrow>
                 (SmartError (ErrorInsertingIntoDatabase (nsp_Name req) err), db1)
             | (Inr networkID, db1) \<Rightarrow>
            (case ne_LoadByName env db1 (nsp_Name req) of
               Inl err \<Rightarrow> (SmartError (NetExt err), snd (DeleteNetwork db1 (nsp_Name req)))
             | Inr n \<Rightarrow>
            (case doNetworksCreate env n clientType of
               Some err \<Rightarrow> (SmartError (NetExt err), snd (DeleteNetwork db1 (nsp_Name req)))
             | None \<Rightarrow> (resp, db1))))))))))"

text \<open>
  What \<^verbatim>\<open>networkDelete\<close> takes from outside the sources beside the above: \<^verbatim>\<open>IsUsed\<close> and
  \<^verbatim>\<open>Delete\<close> of the network loaded, \<^verbatim>\<open>cluster.Enabled\<close>, and \<^verbatim>\<open>DeleteNetwork\<close> on the client
  of a peer.
\<close>

record net_delete_env =
  nd_IsUsed :: "Network \<Rightarrow> string + bool"
  nd_Delete :: "Network \<Rightarrow> ClientType \<Rightarrow> string option"
  nd_Enabled :: "string + bool"
  nd_DeleteNetwork :: "string \<Rightarrow> string \<Rightarrow> string option"

text \<open>
  The request of \<^verbatim>\<open>networkDelete\<close>: the name in the URL, \<^verbatim>\<open>isClusterNotification(r)\<close> and
  the client type.
\<close>

record net_delete_request =
  ndr_name :: string
  ndr_isClusterNotification :: bool
  ndr_clientType :: ClientType

text \<open>
  \<^verbatim>\<open>networkDelete\<close>: the response and the cluster database after the request. A pending
  network is only deleted from the database. Otherwise the network must not be in use
  (a notification skips the check), the driver deletes it locally unless it is pending
  there, and the member serving the request notifies every peer (policy \<^verbatim>\<open>NotifyAll\<close>)
  and deletes the database record. The lifecycle event is not part of the model.
\<close>

definition networkDelete ::
  "net_env \<Rightarrow> net_delete_env \<Rightarrow> net_delete_request \<Rightarrow> cluster_db
    \<Rightarrow> (net_error, unit) response \<times> cluster_db" where
  "networkDelete env denv r db =
     (case GetNetworkInAnyState db (ndr_name r) of
        Inl err \<Rightarrow> (SmartError (NetDb err), db)
      | Inr (networkID, dbNetwork, members) \<Rightarrow>
          if net_Status dbNetwork = NetworkStatusPending
          then (case DeleteNetwork db (ndr_name r) of
                  (Some err, db') \<Rightarrow> (SmartError (NetDb err), db')
                | (None, db') \<Rightarrow> (EmptySyncResponse, db'))
          else
     (case ne_LoadByName env db (ndr_name r) of
        Inl err \<Rightarrow> (SmartError (NetExt err), db)
      | Inr n \<Rightarrow>
     (case (if ndr_isClusterNotification r then Inr False else nd_IsUsed denv n) of
        Inl err \<Rightarrow> (SmartError (NetExt err), db)
      | Inr inUse \<Rightarrow>
          if inUse then (BadRequest TheNetworkIsCurrentlyInUse, db)
          else
     (case (if ne_LocalStatus env n \<noteq> NetworkStatusPending
            then nd_Delete denv n (ndr_clientType r) else None) of
        Some err \<Rightarrow> (InternalError (NetExt err), db)
      | None \<Rightarrow>
          if ndr_isClusterNotification r then (EmptySyncResponse, db)
          else
     (case nd_Enabled denv of
        Inl err \<Rightarrow> (SmartError (NetExt err), db)
      | Inr clustered \<Rightarrow>
     (case (if clustered
            then (case NewNotifier (ne_ClusterAddress env)
                         (Inr (map (\<lambda>n. (node_Address n, node_IsOffline n)) (GetNodes db)))
                         (ne_HasConnectivity env) NotifyAll of
                    Inl err \<Rightarrow> Some err
                  | Inr peers \<Rightarrow>
                      snd (notifier (ne_IsConnectionError env) NotifyAll peers (ne_Connect env)
                             (\<lambda>client. nd_DeleteNetwork denv client (net_Name n))))
            else None) of
        Some err \<Rightarrow> (SmartError (NetNotify err), db)
      | None \<Rightarrow>
     (case DeleteNetwork db (net_Name n) of
        (Some err, db') \<Rightarrow> (SmartError (NetDb err), db')
      | (None, db') \<Rightarrow> (EmptySyncResponse, db'))))))))"

text \<open>
  The constraints of the table \<^verbatim>\<open>networks\<close> that the handlers rely on: a name occurs once
  (\<^verbatim>\<open>GetNetworkID\<close> and \<^verbatim>\<open>CreatePendingNetwork\<close> treat a second row of a name as an
  inconsistency), \<^verbatim>\<open>id\<close> is the key of the table, no row has the id 0, which
  \<^verbatim>\<open>CreatePendingNetwork\<close> reads as "no such network" (row ids start at 1), and every id
  in the table has been given out by the database.
\<close>

definition networks_wf :: "cluster_db \<Rightarrow> bool" where
  "networks_wf db =
     (distinct (map nw_name (networks db)) \<and> distinct (map nw_id (networks db))
      \<and> (\<forall>r\<in>set (networks db). 0 < nw_id r \<and> nw_id r \<le> networks_seq db))"

text \<open>
  The calls that write the tables of networks. Two are requests: \<^verbatim>\<open>POST /1.0/networks\<close>
  (\<^verbatim>\<open>networksPost\<close>) and \<^verbatim>\<open>DELETE /1.0/networks/{name}\<close> (\<^verbatim>\<open>networkDelete\<close>). The others are the
  functions of package db that the network drivers and the join of a member call
  (the callers are not among the sources): \<^verbatim>\<open>UpdateNetwork\<close>, \<^verbatim>\<open>RenameNetwork\<close>,
  \<^verbatim>\<open>DeleteNetwork\<close> and \<^verbatim>\<open>NetworkNodeJoin\<close>. The remaining writers of package db
  (\<^verbatim>\<open>CreatePendingNetwork\<close>, \<^verbatim>\<open>CreateNetwork\<close>, \<^verbatim>\<open>CreateNetworkConfig\<close>, \<^verbatim>\<open>NetworkErrored\<close>,
  \<^verbatim>\<open>NetworkCreated\<close>) are called by \<^verbatim>\<open>networksPost\<close> and \<^verbatim>\<open>networksPostCluster\<close> only.
  \<open>handle_call\<close> is the database after the call; a history of calls is handled from left
  to right.
\<close>

datatype networks_call =
    CallNetworksPost net_env net_request
  | CallNetworkDelete net_env net_delete_env net_delete_request
  | CallUpdateNetwork string string config
  | CallRenameNetwork string string
  | CallDeleteNetwork string
  | CallNetworkNodeJoin int int

fun handle_call :: "cluster_db \<Rightarrow> networks_call \<Rightarrow> cluster_db" where
  "handle_call db (CallNetworksPost env r) = snd (networksPost env r db)"
| "handle_call db (CallNetworkDelete env denv r) = snd (networkDelete env denv r db)"
| "handle_call db (CallUpdateNetwork name description conf) =
     snd (UpdateNetwork db name description conf)"
| "handle_call db (CallRenameNetwork oldName newName) = snd (RenameNetwork db oldName newName)"
| "handle_call db (CallDeleteNetwork name) = snd (DeleteNetwork db name)"
| "handle_call db (CallNetworkNodeJoin networkID nodeID') =
     snd (NetworkNodeJoin db networkID nodeID')"

definition handle_calls :: "cluster_db \<Rightarrow> networks_call list \<Rightarrow> cluster_db" where
  "handle_calls db calls = foldl handle_call db calls"

text \<open>
  Modelled from the spec: the handlers and the database functions of storage pools are
  not among the sources. The spec gives storage pools and networks one data model
  (\<^verbatim>\<open>Resource (StoragePool | Network)\<close>, with \<^verbatim>\<open>state\<close> one of pending, created and errored) and
  one rule for both. So the replicated resources are one database of each kind, with
  the tables of the kind, and a call on a resource of a kind is handled on the database
  of that kind as the call on a network is.
\<close>

datatype resource_kind = StoragePoolResource | NetworkResource

type_synonym resources = "resource_kind \<Rightarrow> cluster_db"

definition handle_resource_call ::
  "resources \<Rightarrow> resource_kind \<times> networks_call \<Rightarrow> resources" where
  "handle_resource_call dbs c = dbs(fst c := handle_call (dbs (fst c)) (snd c))"

definition handle_resource_calls ::
  "resources \<Rightarrow> (resource_kind \<times> networks_call) list \<Rightarrow> resources" where
  "handle_resource_calls dbs calls = foldl handle_resource_call dbs calls"

section \<open>Cluster members API (api_cluster.go)\<close>

text \<open>
  The errors of the handlers: an error of package db, an error of a collaborator that
  is not modelled (the gateway, the transport, the JSON decoder, a driver), carried as
  its message, and one constructor for each \<^verbatim>\<open>fmt.Errorf\<close> of the modelled handlers, named
  after its message; a constructor with an error argument is a \<^verbatim>\<open>%w\<close> wrapper.
\<close>

datatype api_error =
    DbError db_error
  | ExtError string
  | RoleCannotBeDropped string
  | RoleCannotBeAdded string
  | LoadingNodeInformation db_error
  | UpdateDescription db_error
  | ServerNotClustered
  | NoOnlineClusterMembers
  | FailedGettingJoinTokenOperations string
  | FailedToCancelOperation string string
  | FailedLoadingConfig string
  | FailedToSyncImages string
  | UnableToPromoteRemainingMember string
  | UnableToGetRaftNodes string
  | FailedToRemoveMemberFromDatabase string
  | FailedToCleanupMember string
  | CertificateMustBePEM
  | PrivateKeyMustBePEM
  | NoNameProvided
  | UnableToFindLeaderAddress
  | MissingStoragePool string
  | MismatchingDriverForStoragePool string
  | MismatchingConfigForStoragePool string "string list"
  | MissingNetwork string
  | MismatchingConfigForNetwork string "string list"

definition ClusterRoleDatabase :: string where
  "ClusterRoleDatabase = ''database''"

text \<open>
  \<^verbatim>\<open>api.ClusterMemberPut\<close> and \<^verbatim>\<open>api.ClusterMember\<close>, which embeds it: the fields the handler
  reads.
\<close>

record ClusterMemberPut =
  put_Description :: string
  put_Roles :: "string list"

record ClusterMember = ClusterMemberPut +
  member_ServerName :: string
  member_Database :: bool

text \<open>
  What \<^verbatim>\<open>clusterNodePut\<close> takes from outside the sources: the result of
  \<^verbatim>\<open>d.gateway.LeaderAddress()\<close>, \<^verbatim>\<open>node.ToAPI\<close>, \<^verbatim>\<open>util.EtagCheck\<close> on the request and the
  member's writable part, the result of decoding the request body, and the two
  database writes \<^verbatim>\<open>tx.SetDescription\<close> and \<^verbatim>\<open>tx.UpdateNodeRoles\<close>.
\<close>

record put_env =
  put_LeaderAddress :: "string + string"
  put_ToAPI :: "NodeInfo \<Rightarrow> string \<Rightarrow> string + ClusterMember"
  put_EtagCheck :: "ClusterMemberPut \<Rightarrow> string option"
  put_body :: "string + ClusterMemberPut"
  put_SetDescription :: "cluster_db \<Rightarrow> int \<Rightarrow> string \<Rightarrow> db_error option \<times> cluster_db"
  put_UpdateNodeRoles :: "cluster_db \<Rightarrow> int \<Rightarrow> string list \<Rightarrow> db_error option \<times> cluster_db"

text \<open>
  The closure of the second transaction of \<^verbatim>\<open>clusterNodePut\<close> ("Update the database").
  \<open>node\<close> is the row read by the first transaction, whose id the roles update uses.
\<close>

definition clusterNodePut_update ::
  "put_env \<Rightarrow> string \<Rightarrow> NodeInfo \<Rightarrow> ClusterMember \<Rightarrow> ClusterMemberPut \<Rightarrow> cluster_db
    \<Rightarrow> api_error option \<times> cluster_db" where
  "clusterNodePut_update env name node member req tx =
     (case GetNodeByName tx name of
        Inl err \<Rightarrow> (Some (LoadingNodeInformation err), tx)
      | Inr nodeInfo \<Rightarrow>
          (case (if put_Description req \<noteq> put_Description member
                 then put_SetDescription env tx (node_ID nodeInfo) (put_Description req)
                 else (None, tx)) of
             (Some err, tx1) \<Rightarrow> (Some (UpdateDescription err), tx1)
           | (None, tx1) \<Rightarrow>
               (case put_UpdateNodeRoles env tx1 (node_ID node) (put_Roles req) of
                  (Some err, tx2) \<Rightarrow> (Some (DbError err), tx2)
                | (None, tx2) \<Rightarrow> (None, tx2))))"

text \<open>
  \<^verbatim>\<open>clusterNodePut\<close>: the response and the cluster database after the request. The
  lifecycle event sent before the empty response is not part of the model.
\<close>

definition clusterNodePut ::
  "put_env \<Rightarrow> cluster_db \<Rightarrow> string \<Rightarrow> (api_error, unit) response \<times> cluster_db" where
  "clusterNodePut env db name =
     (case GetNodeByName db name of
        Inl err \<Rightarrow> (SmartError (DbError err), db)
      | Inr node \<Rightarrow>
     (case put_LeaderAddress env of
        Inl err \<Rightarrow> (InternalError (ExtError err), db)
      | Inr leader \<Rightarrow>
     (case put_ToAPI env node leader of
        Inl err \<Rightarrow> (InternalError (ExtError err), db)
      | Inr member \<Rightarrow>
     (case put_EtagCheck env (ClusterMemberPut.truncate member) of
        Some err \<Rightarrow> (PreconditionFailed (ExtError err), db)
      | None \<Rightarrow>
     (case put_body env of
        Inl err \<Rightarrow> (BadRequest (ExtError err), db)
      | Inr req \<Rightarrow>
          if StringInSlice ClusterRoleDatabase (put_Roles member)
             \<and> \<not> StringInSlice ClusterRoleDatabase (put_Roles req)
          then (BadRequest (RoleCannotBeDropped ClusterRoleDatabase), db)
          else if \<not> StringInSlice ClusterRoleDatabase (put_Roles member)
             \<and> StringInSlice ClusterRoleDatabase (put_Roles req)
          then (BadRequest (RoleCannotBeAdded ClusterRoleDatabase), db)
          else (case Transaction db (clusterNodePut_update env name node member req) of
                  (Some err, db') \<Rightarrow> (SmartError err, db')
                | (None, db') \<Rightarrow> (EmptySyncResponse, db')))))))"

text \<open>\<^verbatim>\<open>clusterNodePatch\<close>: "Right now, Patch does the same as Put."\<close>

definition clusterNodePatch ::
  "put_env \<Rightarrow> cluster_db \<Rightarrow> string \<Rightarrow> (api_error, unit) response \<times> cluster_db" where
  "clusterNodePatch env db name = clusterNodePut env db name"

subsection \<open>Join tokens: \<^verbatim>\<open>clusterNodesPost\<close>\<close>

text \<open>
  An operation as the handler sees it (\<^verbatim>\<open>api.Operation\<close>): its id, its type, its status
  code and its metadata, a \<^verbatim>\<open>map[string]interface{}\<close> whose values are strings or lists of
  strings here.
\<close>

datatype StatusCode = Pending | Running | Cancelling | Cancelled | Success | Failure

datatype OperationType = OperationClusterJoinToken | OperationOther nat

datatype meta_value = MetaString string | MetaList "string list"

record operation =
  op_ID :: string
  op_Type :: OperationType
  op_StatusCode :: StatusCode
  op_Metadata :: "(string \<times> meta_value) list"







text \<open>
  An active join token for a server name: a running operation of the join-token type
  whose recorded \<^verbatim>\<open>serverName\<close> is that name.
\<close>

definition active_join_token :: "string \<Rightarrow> operation \<Rightarrow> bool" where
  "active_join_token serverName op =
     (op_Type op = OperationClusterJoinToken \<and> op_StatusCode op = Running
      \<and> map_of (op_Metadata op) ''serverName'' = Some (MetaString serverName))"

subsection \<open>Member removal: \<^verbatim>\<open>clusterNodeDelete\<close>\<close>

text \<open>
  The calls the handler makes to its collaborators, in the order it makes them; a call
  is recorded when it is attempted, whether it succeeds or not. \<open>Call_DeleteNetwork\<close> and
  \<open>Call_DeleteStoragePool\<close> are \<^verbatim>\<open>client.DeleteNetwork\<close> and \<^verbatim>\<open>client.DeleteStoragePool\<close> on the
  client connected to the given address, \<open>Call_UpdateCluster\<close> is \<^verbatim>\<open>client.UpdateCluster\<close>
  with \<^verbatim>\<open>Enabled = false\<close>, \<open>Call_DeleteClusterMember\<close> the request forwarded to the leader.
\<close>

datatype call =
    Call_Connect string
  | Call_DeleteClusterMember string string bool
  | Call_WaitLeadership
  | Call_changeMemberRole string
  | Call_autoSyncImages
  | Call_Leave string bool
  | Call_DeleteNetwork string string
  | Call_DeleteStoragePool string string
  | Call_Purge string
  | Call_rebalanceMemberRoles
  | Call_clusterPutDisable
  | Call_UpdateCluster string
  | Call_updateCertificateCache
  | Call_Accept string string

text \<open>
  What \<^verbatim>\<open>clusterNodeDelete\<close> takes from outside the sources: the result of
  \<^verbatim>\<open>strconv.Atoi(r.FormValue("force"))\<close> (\<open>None\<close> when it fails), and the results of the
  collaborators it calls. \<open>del_autoSyncImages\<close> is the first call of \<^verbatim>\<open>autoSyncImages\<close>
  (the second one only logs a warning).
\<close>

record delete_env =
  del_force :: "int option"
  del_ClusterAddress :: "string + string"
  del_LeaderAddress :: "string + string"
  del_GetNodeByAddress :: "string \<Rightarrow> db_error + NodeInfo"
  del_GetRaftNodes :: "string + RaftNode list"
  del_Connect :: "string \<Rightarrow> string option"
  del_DeleteClusterMember :: "string \<Rightarrow> bool \<Rightarrow> string option"
  del_WaitLeadership :: "string option"
  del_changeMemberRole :: "string \<Rightarrow> RaftNode list \<Rightarrow> string option"
  del_autoSyncImages :: "string option"
  del_Leave :: "string \<Rightarrow> bool \<Rightarrow> string + string"
  del_DeleteNetwork :: "string \<Rightarrow> string \<Rightarrow> string option"
  del_GetStoragePoolNames :: "db_error + string list"
  del_DeleteStoragePool :: "string \<Rightarrow> string \<Rightarrow> string option"
  del_Purge :: "string \<Rightarrow> string option"
  del_rebalanceMemberRoles :: "string option"
  del_clusterPutDisable :: "(api_error, unit) response"
  del_UpdateCluster :: "string \<Rightarrow> string option"

text \<open>\<^verbatim>\<open>(c *Cluster) GetNetworks\<close>: the names of all the networks.\<close>

definition GetNetworks :: "cluster_db \<Rightarrow> db_error + string list" where
  "GetNetworks db = Inr (map nw_name (networks db))"

text \<open>
  The two loops of the graceful path, \<^verbatim>\<open>for _, name := range networks\<close> and
  \<^verbatim>\<open>for _, name := range pools\<close>: each name is deleted on the leaving member, and the first
  failure ends the request. \<open>rpc\<close> is the client call, \<open>ev\<close> the call recorded.
\<close>

fun delete_each ::
  "(string \<Rightarrow> string option) \<Rightarrow> (string \<Rightarrow> call) \<Rightarrow> string list \<Rightarrow> string option \<times> call list" where
  "delete_each rpc ev [] = (None, [])"
| "delete_each rpc ev (name # names) =
     (case rpc name of
        Some err \<Rightarrow> (Some err, [ev name])
      | None \<Rightarrow> (case delete_each rpc ev names of (r, calls) \<Rightarrow> (r, ev name # calls)))"

text \<open>
  The block under \<^verbatim>\<open>if force != 1\<close> after \<^verbatim>\<open>cluster.Leave\<close>: "Try to gracefully delete all
  networks and storage pools on it."
\<close>

definition delete_member_resources ::
  "delete_env \<Rightarrow> cluster_db \<Rightarrow> string \<Rightarrow> api_error option \<times> call list" where
  "delete_member_resources env db address =
     (case del_Connect env address of
        Some err \<Rightarrow> (Some (ExtError err), [Call_Connect address])
      | None \<Rightarrow>
     (case GetNetworks db of
        Inl err \<Rightarrow> (Some (DbError err), [Call_Connect address])
      | Inr names \<Rightarrow>
     (case delete_each (del_DeleteNetwork env address) (Call_DeleteNetwork address) names of
        (Some err, calls1) \<Rightarrow> (Some (ExtError err), Call_Connect address # calls1)
      | (None, calls1) \<Rightarrow>
     (case (case del_GetStoragePoolNames env of
              Inl err \<Rightarrow> if err \<noteq> ErrNoSuchObject then Inl err else Inr []
            | Inr pools \<Rightarrow> Inr pools) of
        Inl err \<Rightarrow> (Some (DbError err), Call_Connect address # calls1)
      | Inr pools \<Rightarrow>
     (case delete_each (del_DeleteStoragePool env address) (Call_DeleteStoragePool address) pools of
        (Some err, calls2) \<Rightarrow> (Some (ExtError err), Call_Connect address # calls1 @ calls2)
      | (None, calls2) \<Rightarrow> (None, Call_Connect address # calls1 @ calls2))))))"

text \<open>
  The block under \<^verbatim>\<open>else if force != 1\<close> at the end: "Try to gracefully reset the database
  on the node."
\<close>

definition reset_member :: "delete_env \<Rightarrow> string \<Rightarrow> api_error option \<times> call list" where
  "reset_member env address =
     (case del_Connect env address of
        Some err \<Rightarrow> (Some (ExtError err), [Call_Connect address])
      | None \<Rightarrow>
          (case del_UpdateCluster env address of
             Some err \<Rightarrow> (Some (FailedToCleanupMember err), [Call_Connect address, Call_UpdateCluster address])
           | None \<Rightarrow> (None, [Call_Connect address, Call_UpdateCluster address])))"

text \<open>
  The promotion of the other member when the leader of a two-member cluster is
  removed: the first node that is not the leader and is a stand-by becomes a voter.
\<close>

definition promote_remaining ::
  "delete_env \<Rightarrow> string \<Rightarrow> RaftNode list \<Rightarrow> api_error option \<times> call list" where
  "promote_remaining env leader raftNodes =
     (case find (\<lambda>i. raft_Address (raftNodes ! i) \<noteq> leader \<and> raft_Role (raftNodes ! i) = RaftStandBy)
             [0..<length raftNodes] of
        None \<Rightarrow> (None, [])
      | Some i \<Rightarrow>
          (let raftNodes' = raftNodes[i := (raftNodes ! i)\<lparr>raft_Role := RaftVoter\<rparr>];
               address = raft_Address (raftNodes' ! i)
           in case del_changeMemberRole env address raftNodes' of
                Some err \<Rightarrow> (Some (UnableToPromoteRemainingMember err), [Call_changeMemberRole address])
              | None \<Rightarrow> (None, [Call_changeMemberRole address])))"

text \<open>
  The handler on the leader, from \<^verbatim>\<open>d.clusterMembershipMutex.Lock()\<close> to its end. \<open>force\<close> is
  the integer parsed from the request.
\<close>

definition clusterNodeDelete_leader ::
  "delete_env \<Rightarrow> cluster_db \<Rightarrow> string \<Rightarrow> int \<Rightarrow> string \<Rightarrow> string \<Rightarrow> NodeInfo \<Rightarrow> RaftNode list
    \<Rightarrow> (api_error, unit) response \<times> call list" where
  "clusterNodeDelete_leader env db name force localAddress leader leaderInfo raftNodes =
     (case (if name = node_Name leaderInfo \<and> length raftNodes = 2
            then promote_remaining env leader raftNodes else (None, [])) of
        (Some err, calls0) \<Rightarrow> (SmartError err, calls0)
      | (None, calls0) \<Rightarrow>
     (case (case del_autoSyncImages env of
              Some err \<Rightarrow>
                if force = 0
                then Inl (SmartError (FailedToSyncImages err), calls0 @ [Call_autoSyncImages])
                else Inr (calls0 @ [Call_autoSyncImages])
            | None \<Rightarrow> Inr (calls0 @ [Call_autoSyncImages])) of
        Inl failed \<Rightarrow> failed
      | Inr calls1 \<Rightarrow>
     (case del_Leave env name (force = 1) of
        Inl err \<Rightarrow> (SmartError (ExtError err), calls1 @ [Call_Leave name (force = 1)])
      | Inr address \<Rightarrow>
     (case (if force \<noteq> 1 then delete_member_resources env db address else (None, [])) of
        (Some err, calls2) \<Rightarrow> (SmartError err, calls1 @ [Call_Leave name (force = 1)] @ calls2)
      | (None, calls2) \<Rightarrow>
     (let calls3 = calls1 @ [Call_Leave name (force = 1)] @ calls2 @ [Call_Purge name] in
      case del_Purge env name of
        Some err \<Rightarrow> (SmartError (FailedToRemoveMemberFromDatabase err), calls3)
      | None \<Rightarrow>
          if address = localAddress
          then (del_clusterPutDisable env,
                calls3 @ [Call_rebalanceMemberRoles, Call_clusterPutDisable])
          else
            (case (if force \<noteq> 1 then reset_member env address else (None, [])) of
               (Some err, calls4) \<Rightarrow> (SmartError err, calls3 @ [Call_rebalanceMemberRoles] @ calls4)
             | (None, calls4) \<Rightarrow>
                 (EmptySyncResponse,
                  calls3 @ [Call_rebalanceMemberRoles] @ calls4
                    @ [Call_updateCertificateCache, Call_autoSyncImages])))))))"




subsection \<open>Certificate rotation: \<^verbatim>\<open>clusterCertificatePut\<close>\<close>

text \<open>
  The cluster certificate of every member, by member address: the pair of certificate
  and key in the files \<^verbatim>\<open>cluster.crt\<close> and \<^verbatim>\<open>cluster.key\<close>, and the pair the network endpoint
  and the gateway serve (what \<^verbatim>\<open>NetworkUpdateCert\<close> installs).
\<close>

type_synonym certificate = "string \<times> string"

record cert_world =
  cw_file :: "string \<Rightarrow> certificate"
  cw_active :: "string \<Rightarrow> certificate"

text \<open>
  What the handler takes from outside the sources: whether \<^verbatim>\<open>pem.Decode\<close> finds a block,
  the servers of \<^verbatim>\<open>d.gateway.NodeStore().Get\<close>, \<^verbatim>\<open>node.ClusterAddress\<close>, and for each member
  address whether \<^verbatim>\<open>cluster.Connect\<close> to it, \<^verbatim>\<open>util.WriteCert\<close> on it and
  \<^verbatim>\<open>util.LoadClusterCert\<close> on it fail. \<^verbatim>\<open>util.WriteCert\<close> either replaces both files or
  fails with the files as they were (the spec: "write files atomically").
\<close>

record cert_env =
  ce_pem_Decode :: "string \<Rightarrow> bool"
  ce_NodeStoreGet :: "string + string list"
  ce_ClusterAddress :: "string + string"
  ce_Connect :: "string \<Rightarrow> string option"
  ce_WriteCert :: "string \<Rightarrow> string option"
  ce_LoadClusterCert :: "string \<Rightarrow> string option"

text \<open>The two \<^verbatim>\<open>pem.Decode\<close> checks on the request.\<close>

definition check_pem :: "cert_env \<Rightarrow> certificate \<Rightarrow> api_error option" where
  "check_pem env req =
     (if \<not> ce_pem_Decode env (fst req) then Some CertificateMustBePEM
      else if \<not> ce_pem_Decode env (snd req) then Some PrivateKeyMustBePEM
      else None)"

text \<open>
  The end of the handler, from \<^verbatim>\<open>util.WriteCert\<close> on: the files of the member \<open>self\<close> are
  replaced, the certificate is loaded and installed on the endpoint and the gateway.
\<close>

definition install_certificate ::
  "cert_env \<Rightarrow> cert_world \<Rightarrow> string \<Rightarrow> certificate \<Rightarrow> (api_error, unit) response \<times> cert_world" where
  "install_certificate env w self req =
     (case ce_WriteCert env self of
        Some err \<Rightarrow> (SmartError (ExtError err), w)
      | None \<Rightarrow>
          (let w1 = w\<lparr>cw_file := (cw_file w)(self := req)\<rparr> in
           case ce_LoadClusterCert env self of
             Some err \<Rightarrow> (SmartError (ExtError err), w1)
           | None \<Rightarrow> (EmptySyncResponse, w1\<lparr>cw_active := (cw_active w1)(self := req)\<rparr>)))"

text \<open>
  The handler on a request that is a cluster notification: the forwarding block is
  skipped.
\<close>

definition clusterCertificatePut_notified ::
  "cert_env \<Rightarrow> cert_world \<Rightarrow> string \<Rightarrow> string + certificate
    \<Rightarrow> (api_error, unit) response \<times> cert_world" where
  "clusterCertificatePut_notified env w self body =
     (case body of
        Inl err \<Rightarrow> (BadRequest (ExtError err), w)
      | Inr req \<Rightarrow>
          (case check_pem env req of
             Some err \<Rightarrow> (BadRequest err, w)
           | None \<Rightarrow> install_certificate env w self req))"

text \<open>The error a client call returns for an error response.\<close>

fun response_error :: "('e, 'a) response \<Rightarrow> 'e option" where
  "response_error (BadRequest err) = Some err"
| "response_error (InternalError err) = Some err"
| "response_error (SmartError err) = Some err"
| "response_error (PreconditionFailed err) = Some err"
| "response_error r = None"

text \<open>
  \<^verbatim>\<open>client.UpdateClusterCertificate(req, "")\<close> on the client of a peer: the peer runs the
  handler on the notification.
\<close>

definition UpdateClusterCertificate ::
  "cert_env \<Rightarrow> cert_world \<Rightarrow> string \<Rightarrow> certificate \<Rightarrow> api_error option \<times> cert_world" where
  "UpdateClusterCertificate env w peer req =
     (case clusterCertificatePut_notified env w peer (Inr req) of
        (resp, w') \<Rightarrow> (response_error resp, w'))"

text \<open>
  The loop \<^verbatim>\<open>for _, server := range servers\<close>: every server but the local one is sent the
  request, one after the other, and the first failure ends the handler.
\<close>

fun forward_certificate ::
  "cert_env \<Rightarrow> cert_world \<Rightarrow> string \<Rightarrow> certificate \<Rightarrow> string list
    \<Rightarrow> api_error option \<times> cert_world" where
  "forward_certificate env w localAddress req [] = (None, w)"
| "forward_certificate env w localAddress req (server # servers) =
     (if server = localAddress then forward_certificate env w localAddress req servers
      else (case ce_Connect env server of
              Some err \<Rightarrow> (Some (ExtError err), w)
            | None \<Rightarrow>
                (case UpdateClusterCertificate env w server req of
                   (Some err, w') \<Rightarrow> (Some err, w')
                 | (None, w') \<Rightarrow> forward_certificate env w' localAddress req servers)))"

text \<open>
  \<^verbatim>\<open>clusterCertificatePut\<close> on the member \<open>self\<close>: \<open>isClusterNotification\<close> is
  \<^verbatim>\<open>isClusterNotification(r)\<close>, \<open>body\<close> the result of decoding the request.
\<close>

definition clusterCertificatePut ::
  "cert_env \<Rightarrow> cert_world \<Rightarrow> string \<Rightarrow> bool \<Rightarrow> string + certificate
    \<Rightarrow> (api_error, unit) response \<times> cert_world" where
  "clusterCertificatePut env w self isClusterNotification body =
     (case body of
        Inl err \<Rightarrow> (BadRequest (ExtError err), w)
      | Inr req \<Rightarrow>
     (case check_pem env req of
        Some err \<Rightarrow> (BadRequest err, w)
      | None \<Rightarrow>
          if \<not> isClusterNotification
          then
            (case ce_NodeStoreGet env of
               Inl err \<Rightarrow> (SmartError (ExtError err), w)
             | Inr servers \<Rightarrow>
            (case ce_ClusterAddress env of
               Inl err \<Rightarrow> (SmartError (ExtError err), w)
             | Inr localAddress \<Rightarrow>
            (case forward_certificate env w localAddress req servers of
               (Some err, w1) \<Rightarrow> (SmartError err, w1)
             | (None, w1) \<Rightarrow> install_certificate env w1 self req)))
          else install_certificate env w self req))"

subsection \<open>Join: \<^verbatim>\<open>internalClusterPostAccept\<close> and its checks\<close>

text \<open>\<^verbatim>\<open>api.StoragePool\<close>: the fields the check reads.\<close>

record StoragePool =
  pool_Name :: string
  pool_Driver :: string
  pool_Config :: config

text \<open>
  Modelled from the spec: \<^verbatim>\<open>util.CompareConfigs\<close> is not among the sources. Two configs
  match ("matching non-node-specific (global) config keys") when they have the same
  value, or both none, at every key outside \<open>exclude\<close>; the error names the keys at which
  they differ.
\<close>

definition CompareConfigs :: "config \<Rightarrow> config \<Rightarrow> string list \<Rightarrow> string list option" where
  "CompareConfigs config1 config2 exclude =
     (let delta = filter (\<lambda>key. \<not> StringInSlice key exclude
                                  \<and> map_of config1 key \<noteq> map_of config2 key)
                    (remdups (map fst config1 @ map fst config2))
      in if delta = [] then None else Some delta)"

text \<open>
  What the storage pool check takes from outside the sources: the results of
  \<^verbatim>\<open>GetCreatedStoragePoolNames\<close> and \<^verbatim>\<open>GetStoragePoolInAnyState\<close>, and the list
  \<^verbatim>\<open>db.StoragePoolNodeConfigKeys\<close>.
\<close>

record pools_env =
  pe_GetCreatedStoragePoolNames :: "db_error + string list"
  pe_GetStoragePoolInAnyState :: "string \<Rightarrow> db_error + StoragePool"
  pe_StoragePoolNodeConfigKeys :: "string list"

text \<open>
  The body of the outer loop of \<^verbatim>\<open>clusterCheckStoragePoolsMatch\<close> for one pool name: the
  inner loop stops at the first requested pool with the name.
\<close>

definition check_storage_pool :: "pools_env \<Rightarrow> StoragePool list \<Rightarrow> string \<Rightarrow> api_error option" where
  "check_storage_pool env reqPools name =
     (case find (\<lambda>reqPool. pool_Name reqPool = name) reqPools of
        None \<Rightarrow> Some (MissingStoragePool name)
      | Some reqPool \<Rightarrow>
          (case pe_GetStoragePoolInAnyState env name of
             Inl err \<Rightarrow> Some (DbError err)
           | Inr pool \<Rightarrow>
               if pool_Driver pool \<noteq> pool_Driver reqPool
               then Some (MismatchingDriverForStoragePool name)
               else (case CompareConfigs (pool_Config pool) (pool_Config reqPool)
                            (pe_StoragePoolNodeConfigKeys env) of
                       Some keys \<Rightarrow> Some (MismatchingConfigForStoragePool name keys)
                     | None \<Rightarrow> None)))"

text \<open>The outer loops: the first name whose check fails ends the function.\<close>

fun check_each :: "(string \<Rightarrow> api_error option) \<Rightarrow> string list \<Rightarrow> api_error option" where
  "check_each check [] = None"
| "check_each check (name # names) =
     (case check name of
        Some err \<Rightarrow> Some err
      | None \<Rightarrow> check_each check names)"

definition clusterCheckStoragePoolsMatch :: "pools_env \<Rightarrow> StoragePool list \<Rightarrow> api_error option" where
  "clusterCheckStoragePoolsMatch env reqPools =
     (case pe_GetCreatedStoragePoolNames env of
        Inl err \<Rightarrow> if err \<noteq> ErrNoSuchObject then Some (DbError err) else None
      | Inr poolNames \<Rightarrow> check_each (check_storage_pool env reqPools) poolNames)"

text \<open>The same for \<^verbatim>\<open>clusterCheckNetworksMatch\<close>, which compares the configs only.\<close>

definition check_network :: "cluster_db \<Rightarrow> Network list \<Rightarrow> string \<Rightarrow> api_error option" where
  "check_network db reqNetworks name =
     (case find (\<lambda>reqNetwork. net_Name reqNetwork = name) reqNetworks of
        None \<Rightarrow> Some (MissingNetwork name)
      | Some reqNetwork \<Rightarrow>
          (case GetNetworkInAnyState db name of
             Inl err \<Rightarrow> Some (DbError err)
           | Inr (networkID, network, members) \<Rightarrow>
               (case CompareConfigs (net_Config network) (net_Config reqNetwork)
                       NodeSpecificNetworkConfig of
                  Some keys \<Rightarrow> Some (MismatchingConfigForNetwork name keys)
                | None \<Rightarrow> None)))"

definition clusterCheckNetworksMatch :: "cluster_db \<Rightarrow> Network list \<Rightarrow> api_error option" where
  "clusterCheckNetworksMatch db reqNetworks =
     (case GetCreatedNetworks db of
        Inl err \<Rightarrow> if err \<noteq> ErrNoSuchObject then Some (DbError err) else None
      | Inr networkNames \<Rightarrow> check_each (check_network db reqNetworks) networkNames)"

text \<open>\<^verbatim>\<open>internalClusterPostAcceptRequest\<close>: the fields the handler reads.\<close>

record accept_request =
  acc_Name :: string
  acc_Address :: string
  acc_StoragePools :: "StoragePool list"
  acc_Networks :: "Network list"

text \<open>
  What \<^verbatim>\<open>internalClusterPostAccept\<close> takes from outside the sources: the decoded body,
  \<^verbatim>\<open>node.ClusterAddress\<close>, \<^verbatim>\<open>d.gateway.LeaderAddress()\<close> and \<^verbatim>\<open>cluster.Accept\<close>.
\<close>

record accept_env =
  ae_body :: "string + accept_request"
  ae_ClusterAddress :: "string + string"
  ae_LeaderAddress :: "string + string"
  ae_Accept :: "string \<Rightarrow> string \<Rightarrow> string + RaftNode list"

text \<open>
  \<^verbatim>\<open>internalClusterPostAccept\<close>: the response (a successful one carries the raft nodes) and
  the calls made, of which the model records \<^verbatim>\<open>cluster.Accept\<close>.
\<close>

definition internalClusterPostAccept ::
  "accept_env \<Rightarrow> pools_env \<Rightarrow> cluster_db \<Rightarrow> (api_error, RaftNode list) response \<times> call list" where
  "internalClusterPostAccept env penv db =
     (case ae_body env of
        Inl err \<Rightarrow> (BadRequest (ExtError err), [])
      | Inr req \<Rightarrow>
          if acc_Name req = [] then (BadRequest NoNameProvided, [])
          else
     (case ae_ClusterAddress env of
        Inl err \<Rightarrow> (SmartError (ExtError err), [])
      | Inr address \<Rightarrow>
     (case ae_LeaderAddress env of
        Inl err \<Rightarrow> (InternalError (ExtError err), [])
      | Inr leader \<Rightarrow>
          if address \<noteq> leader
          then (if leader = [] then (SmartError UnableToFindLeaderAddress, [])
                else (SyncResponseRedirect (''https://'' @ leader @ ''/internal/cluster/accept''), []))
          else
     (case clusterCheckStoragePoolsMatch penv (acc_StoragePools req) of
        Some err \<Rightarrow> (SmartError err, [])
      | None \<Rightarrow>
     (case clusterCheckNetworksMatch db (acc_Networks req) of
        Some err \<Rightarrow> (SmartError err, [])
      | None \<Rightarrow>
     (case ae_Accept env (acc_Name req) (acc_Address req) of
        Inl err \<Rightarrow> (BadRequest (ExtError err), [Call_Accept (acc_Name req) (acc_Address req)])
      | Inr raftNodes \<Rightarrow>
          (SyncResponse raftNodes, [Call_Accept (acc_Name req) (acc_Address req)])))))))"

section \<open>Verified properties\<close>

subsection \<open>Notifier\<close>

lemma scan_errs_char:
  "scan_errs isC policy (zip peers (map f peers)) warned = (w, r) \<Longrightarrow>
   r = (case find (\<lambda>p. case f p of Some e \<Rightarrow> \<not> (isC e \<and> policy = NotifyAlive) | None \<Rightarrow> False) peers of
          None \<Rightarrow> None | Some p \<Rightarrow> f p)"
proof (induction peers arbitrary: warned)
  case Nil
  then show ?case by simp
next
  case (Cons p ps)
  show ?case
  proof (cases "f p")
    case None
    with Cons show ?thesis by simp
  next
    case (Some e)
    with Cons show ?thesis by (auto split: if_splits)
  qed
qed

lemma scan_errs_all_ignored:
  "\<forall>p\<in>set peers. \<forall>e. f p = Some e \<longrightarrow> isC e \<and> policy = NotifyAlive \<Longrightarrow>
   scan_errs isC policy (zip peers (map f peers)) warned =
     (warned @ filter (\<lambda>p. f p \<noteq> None) peers, None)"
proof (induction peers arbitrary: warned)
  case Nil
  then show ?case by simp
next
  case (Cons p ps)
  show ?case
  proof (cases "f p")
    case None
    with Cons show ?thesis by simp
  next
    case (Some e)
    with Cons show ?thesis by simp
  qed
qed

lemma scan_errs_no_warning:
  "policy \<noteq> NotifyAlive \<Longrightarrow> scan_errs isC policy xs warned = (w, r) \<Longrightarrow> w = warned"
  by (induction isC policy xs warned rule: scan_errs.induct) (auto split: if_splits)

lemma find_fatal_Some:
  "find P peers = Some p \<Longrightarrow> p \<in> set peers \<and> P p"
  by (induction peers) (auto split: if_splits)

lemma find_fatal_None:
  "find P peers = None \<Longrightarrow> p \<in> set peers \<Longrightarrow> \<not> P p"
  by (induction peers) (auto split: if_splits)

lemma scan_errs_split:
  "scan_errs isC policy (zip peers (map f peers)) warned = (w, r) \<Longrightarrow>
     (r = None \<and> (\<forall>p\<in>set peers. \<forall>e. f p = Some e \<longrightarrow> policy = NotifyAlive \<and> isC e)
        \<and> w = warned @ filter (\<lambda>p. f p \<noteq> None) peers)
   \<or> (\<exists>ps p qs e. peers = ps @ p # qs \<and> f p = Some e \<and> \<not> (policy = NotifyAlive \<and> isC e)
        \<and> (\<forall>q\<in>set ps. \<forall>e'. f q = Some e' \<longrightarrow> policy = NotifyAlive \<and> isC e')
        \<and> r = Some e \<and> w = warned @ filter (\<lambda>q. f q \<noteq> None) ps)"
proof (induction peers arbitrary: warned)
  case Nil
  then show ?case by simp
next
  case (Cons p peers)
  show ?case
  proof (cases "f p")
    case None
    with Cons.prems have "scan_errs isC policy (zip peers (map f peers)) warned = (w, r)" by simp
    from Cons.IH [OF this] show ?thesis
    proof
      assume "r = None \<and> (\<forall>p\<in>set peers. \<forall>e. f p = Some e \<longrightarrow> policy = NotifyAlive \<and> isC e)
        \<and> w = warned @ filter (\<lambda>p. f p \<noteq> None) peers"
      with None show ?thesis by simp
    next
      assume "\<exists>ps q qs e. peers = ps @ q # qs \<and> f q = Some e \<and> \<not> (policy = NotifyAlive \<and> isC e)
        \<and> (\<forall>q\<in>set ps. \<forall>e'. f q = Some e' \<longrightarrow> policy = NotifyAlive \<and> isC e')
        \<and> r = Some e \<and> w = warned @ filter (\<lambda>q. f q \<noteq> None) ps"
      then obtain ps q qs e where h: "peers = ps @ q # qs" "f q = Some e"
        "\<not> (policy = NotifyAlive \<and> isC e)"
        "\<forall>q\<in>set ps. \<forall>e'. f q = Some e' \<longrightarrow> policy = NotifyAlive \<and> isC e'"
        "r = Some e" "w = warned @ filter (\<lambda>q. f q \<noteq> None) ps" by blast
      from h None have "p # peers = (p # ps) @ q # qs \<and> f q = Some e
        \<and> \<not> (policy = NotifyAlive \<and> isC e)
        \<and> (\<forall>q\<in>set (p # ps). \<forall>e'. f q = Some e' \<longrightarrow> policy = NotifyAlive \<and> isC e')
        \<and> r = Some e \<and> w = warned @ filter (\<lambda>q. f q \<noteq> None) (p # ps)" by simp
      then show ?thesis by blast
    qed
  next
    case (Some e0)
    show ?thesis
    proof (cases "isC e0 \<and> policy = NotifyAlive")
      case False
      with Cons.prems Some have "r = Some e0" "w = warned" by simp_all
      with Some False have "p # peers = [] @ p # peers \<and> f p = Some e0
        \<and> \<not> (policy = NotifyAlive \<and> isC e0)
        \<and> (\<forall>q\<in>set []. \<forall>e'. f q = Some e' \<longrightarrow> policy = NotifyAlive \<and> isC e')
        \<and> r = Some e0 \<and> w = warned @ filter (\<lambda>q. f q \<noteq> None) []" by auto
      then show ?thesis by blast
    next
      case True
      with Cons.prems Some
      have "scan_errs isC policy (zip peers (map f peers)) (warned @ [p]) = (w, r)" by simp
      from Cons.IH [OF this] show ?thesis
      proof
        assume "r = None \<and> (\<forall>p\<in>set peers. \<forall>e. f p = Some e \<longrightarrow> policy = NotifyAlive \<and> isC e)
          \<and> w = (warned @ [p]) @ filter (\<lambda>p. f p \<noteq> None) peers"
        with Some True show ?thesis by simp
      next
        assume "\<exists>ps q qs e. peers = ps @ q # qs \<and> f q = Some e \<and> \<not> (policy = NotifyAlive \<and> isC e)
          \<and> (\<forall>q\<in>set ps. \<forall>e'. f q = Some e' \<longrightarrow> policy = NotifyAlive \<and> isC e')
          \<and> r = Some e \<and> w = (warned @ [p]) @ filter (\<lambda>q. f q \<noteq> None) ps"
        then obtain ps q qs e where h: "peers = ps @ q # qs" "f q = Some e"
          "\<not> (policy = NotifyAlive \<and> isC e)"
          "\<forall>q\<in>set ps. \<forall>e'. f q = Some e' \<longrightarrow> policy = NotifyAlive \<and> isC e'"
          "r = Some e" "w = (warned @ [p]) @ filter (\<lambda>q. f q \<noteq> None) ps" by blast
        from h Some True have "p # peers = (p # ps) @ q # qs \<and> f q = Some e
          \<and> \<not> (policy = NotifyAlive \<and> isC e)
          \<and> (\<forall>q\<in>set (p # ps). \<forall>e'. f q = Some e' \<longrightarrow> policy = NotifyAlive \<and> isC e')
          \<and> r = Some e \<and> w = warned @ filter (\<lambda>q. f q \<noteq> None) (p # ps)" by simp
        then show ?thesis by blast
      qed
    qed
  qed
qed

text \<open>
  Claim C5, as amended. A failure of a peer is ignored only when the policy is
  \<^verbatim>\<open>NotifyAlive\<close> and the error is a connection error; every other failure is fatal. When
  no selected peer fails fatally the notifier returns no error and warns about exactly
  the failed peers. When some peer fails fatally the notifier returns the error of the
  first such peer in the order of \<^verbatim>\<open>peers\<close>, and it has warned about exactly the failed
  peers before that one: a peer after it is not warned about, also when it failed with a
  connection error under \<^verbatim>\<open>NotifyAlive\<close>. No warning is logged under \<^verbatim>\<open>NotifyAll\<close> and
  \<^verbatim>\<open>NotifyTryAll\<close>.
\<close>

theorem notifier_failed_peer_by_policy:
  assumes run: "notifier isC policy peers Connect hook = (warned, result)"
  shows "((\<forall>p\<in>set peers. \<forall>e. notify_peer Connect hook p = Some e \<longrightarrow> policy = NotifyAlive \<and> isC e)
          \<longrightarrow> result = None \<and> warned = filter (\<lambda>p. notify_peer Connect hook p \<noteq> None) peers)
   \<and> ((\<exists>p\<in>set peers. \<exists>e. notify_peer Connect hook p = Some e \<and> \<not> (policy = NotifyAlive \<and> isC e))
        \<longrightarrow> (\<exists>ps p qs e. peers = ps @ p # qs
               \<and> notify_peer Connect hook p = Some e \<and> \<not> (policy = NotifyAlive \<and> isC e)
               \<and> (\<forall>q\<in>set ps. \<forall>e'. notify_peer Connect hook q = Some e' \<longrightarrow>
                      policy = NotifyAlive \<and> isC e')
               \<and> result = Some e
               \<and> warned = filter (\<lambda>q. notify_peer Connect hook q \<noteq> None) ps))
   \<and> (policy \<noteq> NotifyAlive \<longrightarrow> warned = [])"
proof -
  let ?f = "notify_peer Connect hook"
  from run have scan: "scan_errs isC policy (zip peers (map ?f peers)) [] = (warned, result)"
    by (simp add: notifier_def)
  note split = scan_errs_split [OF scan]
  have c1: "(\<forall>p\<in>set peers. \<forall>e. ?f p = Some e \<longrightarrow> policy = NotifyAlive \<and> isC e)
          \<longrightarrow> result = None \<and> warned = filter (\<lambda>p. ?f p \<noteq> None) peers"
  proof
    assume ok: "\<forall>p\<in>set peers. \<forall>e. ?f p = Some e \<longrightarrow> policy = NotifyAlive \<and> isC e"
    from split show "result = None \<and> warned = filter (\<lambda>p. ?f p \<noteq> None) peers"
    proof
      assume "result = None \<and> (\<forall>p\<in>set peers. \<forall>e. ?f p = Some e \<longrightarrow> policy = NotifyAlive \<and> isC e)
        \<and> warned = [] @ filter (\<lambda>p. ?f p \<noteq> None) peers"
      then show ?thesis by simp
    next
      assume "\<exists>ps p qs e. peers = ps @ p # qs \<and> ?f p = Some e \<and> \<not> (policy = NotifyAlive \<and> isC e)
        \<and> (\<forall>q\<in>set ps. \<forall>e'. ?f q = Some e' \<longrightarrow> policy = NotifyAlive \<and> isC e')
        \<and> result = Some e \<and> warned = [] @ filter (\<lambda>q. ?f q \<noteq> None) ps"
      then obtain ps p qs e where "peers = ps @ p # qs" "?f p = Some e"
        "\<not> (policy = NotifyAlive \<and> isC e)" by blast
      with ok have False by auto
      then show ?thesis ..
    qed
  qed
  have c2: "(\<exists>p\<in>set peers. \<exists>e. ?f p = Some e \<and> \<not> (policy = NotifyAlive \<and> isC e))
        \<longrightarrow> (\<exists>ps p qs e. peers = ps @ p # qs
               \<and> ?f p = Some e \<and> \<not> (policy = NotifyAlive \<and> isC e)
               \<and> (\<forall>q\<in>set ps. \<forall>e'. ?f q = Some e' \<longrightarrow> policy = NotifyAlive \<and> isC e')
               \<and> result = Some e
               \<and> warned = filter (\<lambda>q. ?f q \<noteq> None) ps)"
  proof
    assume bad: "\<exists>p\<in>set peers. \<exists>e. ?f p = Some e \<and> \<not> (policy = NotifyAlive \<and> isC e)"
    from split show "\<exists>ps p qs e. peers = ps @ p # qs
               \<and> ?f p = Some e \<and> \<not> (policy = NotifyAlive \<and> isC e)
               \<and> (\<forall>q\<in>set ps. \<forall>e'. ?f q = Some e' \<longrightarrow> policy = NotifyAlive \<and> isC e')
               \<and> result = Some e
               \<and> warned = filter (\<lambda>q. ?f q \<noteq> None) ps"
    proof
      assume "result = None \<and> (\<forall>p\<in>set peers. \<forall>e. ?f p = Some e \<longrightarrow> policy = NotifyAlive \<and> isC e)
        \<and> warned = [] @ filter (\<lambda>p. ?f p \<noteq> None) peers"
      with bad have False by blast
      then show ?thesis ..
    next
      assume "\<exists>ps p qs e. peers = ps @ p # qs \<and> ?f p = Some e \<and> \<not> (policy = NotifyAlive \<and> isC e)
        \<and> (\<forall>q\<in>set ps. \<forall>e'. ?f q = Some e' \<longrightarrow> policy = NotifyAlive \<and> isC e')
        \<and> result = Some e \<and> warned = [] @ filter (\<lambda>q. ?f q \<noteq> None) ps"
      then show ?thesis by simp
    qed
  qed
  have c3: "policy \<noteq> NotifyAlive \<longrightarrow> warned = []"
    using scan_errs_no_warning [OF _ scan] by blast
  from c1 c2 c3 show ?thesis by (intro conjI)
qed

text \<open>
  Claim C5 as stated fails: under \<^verbatim>\<open>NotifyTryAll\<close> a peer whose hook fails makes the
  notifier return that error, and nothing is logged as a warning.
\<close>

theorem notifier_tryall_counterexample:
  "notifier (\<lambda>e. True) NotifyTryAll [''10.0.0.2:8443''] (\<lambda>a. Inr a) (\<lambda>c. Some ''refused'')
     = ([], Some (FailedNotify ''10.0.0.2:8443'' ''refused''))"
  by (simp add: notifier_def notify_peer_def)

text \<open>
  The theorem of claim C5 at a concrete run: three peers under \<^verbatim>\<open>NotifyAlive\<close>. The first
  is unreachable, the hook fails on the second, the third is unreachable too. The error
  is that of the second peer, and only the first peer is warned about.
\<close>

theorem notifier_failed_peer_by_policy_witness:
  "notifier (\<lambda>e. case e of FailedConnect a x \<Rightarrow> True | _ \<Rightarrow> False) NotifyAlive
      [''10.0.0.2:8443'', ''10.0.0.3:8443'', ''10.0.0.4:8443'']
      (\<lambda>a. if a = ''10.0.0.3:8443'' then Inr a else Inl ''unreachable'') (\<lambda>c. Some ''refused'')
     = ([''10.0.0.2:8443''], Some (FailedNotify ''10.0.0.3:8443'' ''refused''))
   \<and> (\<exists>ps p qs. [''10.0.0.2:8443'', ''10.0.0.3:8443'', ''10.0.0.4:8443''] = ps @ p # qs
         \<and> notify_peer (\<lambda>a. if a = ''10.0.0.3:8443'' then Inr a else Inl ''unreachable'')
              (\<lambda>c. Some ''refused'') p = Some (FailedNotify ''10.0.0.3:8443'' ''refused'')
         \<and> [''10.0.0.2:8443'']
             = filter (\<lambda>q. notify_peer (\<lambda>a. if a = ''10.0.0.3:8443'' then Inr a else Inl ''unreachable'')
                        (\<lambda>c. Some ''refused'') q \<noteq> None) ps)"
proof -
  let ?isC = "\<lambda>e. case e of FailedConnect a x \<Rightarrow> True | _ \<Rightarrow> False"
  let ?peers = "[''10.0.0.2:8443'', ''10.0.0.3:8443'', ''10.0.0.4:8443'']"
  let ?Connect = "\<lambda>a. if a = ''10.0.0.3:8443'' then Inr a else (Inl ''unreachable'' :: string + string)"
  let ?hook = "\<lambda>c :: string. Some ''refused''"
  have run: "notifier ?isC NotifyAlive ?peers ?Connect ?hook
      = ([''10.0.0.2:8443''], Some (FailedNotify ''10.0.0.3:8443'' ''refused''))"
    by (simp add: notifier_def notify_peer_def)
  have fatal: "\<exists>p\<in>set ?peers. \<exists>e. notify_peer ?Connect ?hook p = Some e
      \<and> \<not> (NotifyAlive = NotifyAlive \<and> ?isC e)"
    by (simp add: notify_peer_def)
  from notifier_failed_peer_by_policy [OF run] fatal
  have "\<exists>ps p qs e. ?peers = ps @ p # qs
               \<and> notify_peer ?Connect ?hook p = Some e
               \<and> Some (FailedNotify ''10.0.0.3:8443'' ''refused'') = Some e
               \<and> [''10.0.0.2:8443''] = filter (\<lambda>q. notify_peer ?Connect ?hook q \<noteq> None) ps"
    by blast
  then have "\<exists>ps p qs. ?peers = ps @ p # qs
         \<and> notify_peer ?Connect ?hook p = Some (FailedNotify ''10.0.0.3:8443'' ''refused'')
         \<and> [''10.0.0.2:8443''] = filter (\<lambda>q. notify_peer ?Connect ?hook q \<noteq> None) ps"
    by auto
  with run show ?thesis by (intro conjI)
qed

subsection \<open>Raft nodes\<close>

lemma upsert_first_rows:
  "UpsertObject_raft_nodes rows (Some 1) address name = Inr (rowid, rows') \<Longrightarrow>
     rowid = 1
   \<and> filter (\<lambda>r. raft_ID r = 1) rows'
        = [\<lparr>raft_ID = 1, raft_Address = address, raft_Role = RaftVoter, raft_Name = name\<rparr>]
   \<and> filter (\<lambda>r. raft_ID r \<noteq> 1) rows'
        = filter (\<lambda>r. raft_ID r \<noteq> 1 \<and> raft_Address r \<noteq> address) rows"
  by (auto simp: UpsertObject_raft_nodes_def Let_def filter_empty_conv intro: filter_cong)

text \<open>
  Claim C9. \<^verbatim>\<open>CreateFirstRaftNode\<close> over the upsert of the raft-node table succeeds, and
  the table it leaves has exactly one row with id 1, holding the given address and name;
  the other rows are the old rows with another id and another address (the row that had
  id 1 is replaced). Over any upsert: when the upsert returns an id other than 1 the
  function returns the error "could not set raft node ID to 1", when the upsert fails it
  returns that error, and it succeeds only when the upsert returned id 1.
\<close>

theorem create_first_raft_node_forces_id_1:
  "(\<exists>rows'. CreateFirstRaftNode UpsertObject_raft_nodes rows address name = Inr rows'
       \<and> filter (\<lambda>r. raft_ID r = 1) rows'
            = [\<lparr>raft_ID = 1, raft_Address = address, raft_Role = RaftVoter, raft_Name = name\<rparr>]
       \<and> filter (\<lambda>r. raft_ID r \<noteq> 1) rows'
            = filter (\<lambda>r. raft_ID r \<noteq> 1 \<and> raft_Address r \<noteq> address) rows)
   \<and> (\<forall>rowid tx'. upsert tx (Some 1) address name = Inr (rowid, tx') \<and> rowid \<noteq> 1
         \<longrightarrow> CreateFirstRaftNode upsert tx address name = Inl CouldNotSetRaftNodeID)
   \<and> (\<forall>err. upsert tx (Some 1) address name = Inl err
         \<longrightarrow> CreateFirstRaftNode upsert tx address name = Inl err)
   \<and> (\<forall>tx'. CreateFirstRaftNode upsert tx address name = Inr tx'
         \<longrightarrow> upsert tx (Some 1) address name = Inr (1, tx'))"
proof (intro conjI allI impI)
  obtain rows' where u: "UpsertObject_raft_nodes rows (Some 1) address name = Inr (1, rows')"
    by (simp add: UpsertObject_raft_nodes_def Let_def)
  then have c: "CreateFirstRaftNode UpsertObject_raft_nodes rows address name = Inr rows'"
    by (simp add: CreateFirstRaftNode_def)
  from upsert_first_rows [OF u] c
  show "\<exists>rows'. CreateFirstRaftNode UpsertObject_raft_nodes rows address name = Inr rows'
       \<and> filter (\<lambda>r. raft_ID r = 1) rows'
            = [\<lparr>raft_ID = 1, raft_Address = address, raft_Role = RaftVoter, raft_Name = name\<rparr>]
       \<and> filter (\<lambda>r. raft_ID r \<noteq> 1) rows'
            = filter (\<lambda>r. raft_ID r \<noteq> 1 \<and> raft_Address r \<noteq> address) rows"
    by blast
next
  fix rowid tx'
  assume "upsert tx (Some 1) address name = Inr (rowid, tx') \<and> rowid \<noteq> 1"
  then show "CreateFirstRaftNode upsert tx address name = Inl CouldNotSetRaftNodeID"
    by (simp add: CreateFirstRaftNode_def)
next
  fix err
  assume "upsert tx (Some 1) address name = Inl err"
  then show "CreateFirstRaftNode upsert tx address name = Inl err"
    by (simp add: CreateFirstRaftNode_def)
next
  fix tx'
  assume "CreateFirstRaftNode upsert tx address name = Inr tx'"
  then show "upsert tx (Some 1) address name = Inr (1, tx')"
    by (auto simp: CreateFirstRaftNode_def split: sum.splits if_splits)
qed

text \<open>
  The theorem of claim C9 on a table whose row 1 belongs to another address, and on an
  upsert that returns id 7.
\<close>

theorem create_first_raft_node_forces_id_1_witness:
  "CreateFirstRaftNode UpsertObject_raft_nodes
      [\<lparr>raft_ID = 1, raft_Address = ''10.0.0.9:8443'', raft_Role = RaftSpare, raft_Name = ''old''\<rparr>,
       \<lparr>raft_ID = 2, raft_Address = ''10.0.0.2:8443'', raft_Role = RaftStandBy, raft_Name = ''b''\<rparr>]
      ''10.0.0.1:8443'' ''a''
    = Inr [\<lparr>raft_ID = 2, raft_Address = ''10.0.0.2:8443'', raft_Role = RaftStandBy, raft_Name = ''b''\<rparr>,
           \<lparr>raft_ID = 1, raft_Address = ''10.0.0.1:8443'', raft_Role = RaftVoter, raft_Name = ''a''\<rparr>]
   \<and> CreateFirstRaftNode (\<lambda>tx rowid address name. Inr (7, tx)) ([] :: RaftNode list)
         ''10.0.0.1:8443'' ''a''
       = Inl CouldNotSetRaftNodeID"
  using create_first_raft_node_forces_id_1 [of
      "[\<lparr>raft_ID = 1, raft_Address = ''10.0.0.9:8443'', raft_Role = RaftSpare, raft_Name = ''old''\<rparr>,
        \<lparr>raft_ID = 2, raft_Address = ''10.0.0.2:8443'', raft_Role = RaftStandBy, raft_Name = ''b''\<rparr>]"
      "''10.0.0.1:8443''" "''a''" "\<lambda>tx rowid address name. Inr (7, tx)" "[] :: RaftNode list"]
  by (simp add: CreateFirstRaftNode_def UpsertObject_raft_nodes_def)

subsection \<open>Pending networks\<close>

text \<open>
  Claim C10. For a network type other than \<^verbatim>\<open>NetworkTypeBridge\<close>,
  \<^verbatim>\<open>CreatePendingNetwork\<close> returns the error "Unsupported network type" with the
  transaction as it found it: nothing has been written. Hence a call that returns no
  error, and a call that has written anything, is a call for a bridge.
\<close>

theorem create_pending_network_bridge_only:
  "(netType \<noteq> NetworkTypeBridge \<longrightarrow>
      CreatePendingNetwork tx node name netType conf = (Some (UnsupportedNetworkType netType), tx))
   \<and> (fst (CreatePendingNetwork tx node name netType conf) = None \<longrightarrow> netType = NetworkTypeBridge)
   \<and> (snd (CreatePendingNetwork tx node name netType conf) \<noteq> tx \<longrightarrow> netType = NetworkTypeBridge)"
  by (simp add: CreatePendingNetwork_def)

text \<open>The theorem of claim C10 at network type 1, on a cluster of one member.\<close>

theorem create_pending_network_bridge_only_witness:
  "CreatePendingNetwork
      \<lparr>networks = [], networks_nodes = [], networks_config = [],
        nodes = [\<lparr>node_ID = 1, node_Name = ''n1'', node_Address = ''10.0.0.1:8443'',
                  node_Description = [], node_Roles = [], node_IsOffline = False\<rparr>],
        nodeID = 1, networks_seq = 0\<rparr>
      ''n1'' ''net0'' 1 [(''parent'', ''eth0'')]
    = (Some (UnsupportedNetworkType 1),
       \<lparr>networks = [], networks_nodes = [], networks_config = [],
        nodes = [\<lparr>node_ID = 1, node_Name = ''n1'', node_Address = ''10.0.0.1:8443'',
                  node_Description = [], node_Roles = [], node_IsOffline = False\<rparr>],
        nodeID = 1, networks_seq = 0\<rparr>)"
  using create_pending_network_bridge_only [of 1
      "\<lparr>networks = [], networks_nodes = [], networks_config = [],
        nodes = [\<lparr>node_ID = 1, node_Name = ''n1'', node_Address = ''10.0.0.1:8443'',
                  node_Description = [], node_Roles = [], node_IsOffline = False\<rparr>],
        nodeID = 1, networks_seq = 0\<rparr>" "''n1''" "''net0''" "[(''parent'', ''eth0'')]"]
  by (simp add: NetworkTypeBridge_def)

subsection \<open>Member update\<close>

lemma Transaction_error_keeps_db:
  "Transaction db f = (Some err, db') \<Longrightarrow> db' = db"
  by (auto simp: Transaction_def split: prod.splits option.splits)

text \<open>
  Claim C8, as amended. Take a PUT (or PATCH, which is the same handler) on an
  existing member whose API form is available (the leader address is known and
  \<^verbatim>\<open>ToAPI\<close> succeeds) and whose body decodes. If the request's roles contain \<^verbatim>\<open>database\<close> and
  the member's do not, or the reverse, then the cluster database is left as it was
  (neither description nor roles are written) and the response is an error:
  \<^verbatim>\<open>PreconditionFailed\<close> when the ETag precondition of the request fails, which is checked
  before the body is read, and otherwise \<^verbatim>\<open>BadRequest\<close> with "The 'database' role cannot
  be dropped at this time" or "... cannot be added at this time".
\<close>

theorem cluster_node_put_database_role:
  assumes node: "GetNodeByName db name = Inr node"
    and leader: "put_LeaderAddress env = Inr leader"
    and member: "put_ToAPI env node leader = Inr member"
    and body: "put_body env = Inr req"
    and change: "StringInSlice ClusterRoleDatabase (put_Roles member)
                   \<noteq> StringInSlice ClusterRoleDatabase (put_Roles req)"
  shows "snd (clusterNodePut env db name) = db
     \<and> fst (clusterNodePut env db name)
         = (case put_EtagCheck env (ClusterMemberPut.truncate member) of
              Some err \<Rightarrow> PreconditionFailed (ExtError err)
            | None \<Rightarrow>
                BadRequest (if StringInSlice ClusterRoleDatabase (put_Roles member)
                            then RoleCannotBeDropped ClusterRoleDatabase
                            else RoleCannotBeAdded ClusterRoleDatabase))
     \<and> clusterNodePatch env db name = clusterNodePut env db name"
  using assms
  by (auto simp: clusterNodePut_def clusterNodePatch_def split: option.splits)

text \<open>
  The theorem of claim C8 on a member holding \<^verbatim>\<open>database\<close> and a request with no roles.
\<close>

theorem cluster_node_put_database_role_witness:
  "clusterNodePut
     \<lparr>put_LeaderAddress = Inr ''10.0.0.1:8443'',
      put_ToAPI = (\<lambda>n leader. Inr \<lparr>put_Description = node_Description n, put_Roles = node_Roles n,
                                  member_ServerName = node_Name n, member_Database = True\<rparr>),
      put_EtagCheck = (\<lambda>m. None),
      put_body = Inr \<lparr>put_Description = ''rack 2'', put_Roles = []\<rparr>,
      put_SetDescription = (\<lambda>tx i d. (None, tx\<lparr>nodes :=
          map (\<lambda>n. if node_ID n = i then n\<lparr>node_Description := d\<rparr> else n) (nodes tx)\<rparr>)),
      put_UpdateNodeRoles = (\<lambda>tx i rs. (None, tx\<lparr>nodes :=
          map (\<lambda>n. if node_ID n = i then n\<lparr>node_Roles := rs\<rparr> else n) (nodes tx)\<rparr>))\<rparr>
     \<lparr>networks = [], networks_nodes = [], networks_config = [],
      nodes = [\<lparr>node_ID = 1, node_Name = ''n1'', node_Address = ''10.0.0.1:8443'',
                node_Description = [], node_Roles = [''database''], node_IsOffline = False\<rparr>],
      nodeID = 1, networks_seq = 0\<rparr>
     ''n1''
   = (BadRequest (RoleCannotBeDropped ''database''),
      \<lparr>networks = [], networks_nodes = [], networks_config = [],
       nodes = [\<lparr>node_ID = 1, node_Name = ''n1'', node_Address = ''10.0.0.1:8443'',
                 node_Description = [], node_Roles = [''database''], node_IsOffline = False\<rparr>],
       nodeID = 1, networks_seq = 0\<rparr>)"
  using cluster_node_put_database_role [of
     "\<lparr>networks = [], networks_nodes = [], networks_config = [],
      nodes = [\<lparr>node_ID = 1, node_Name = ''n1'', node_Address = ''10.0.0.1:8443'',
                node_Description = [], node_Roles = [''database''], node_IsOffline = False\<rparr>],
      nodeID = 1, networks_seq = 0\<rparr>"
     "''n1''"
     "\<lparr>node_ID = 1, node_Name = ''n1'', node_Address = ''10.0.0.1:8443'',
                node_Description = [], node_Roles = [''database''], node_IsOffline = False\<rparr>"
     "\<lparr>put_LeaderAddress = Inr ''10.0.0.1:8443'',
      put_ToAPI = (\<lambda>n leader. Inr \<lparr>put_Description = node_Description n, put_Roles = node_Roles n,
                                  member_ServerName = node_Name n, member_Database = True\<rparr>),
      put_EtagCheck = (\<lambda>m. None),
      put_body = Inr \<lparr>put_Description = ''rack 2'', put_Roles = []\<rparr>,
      put_SetDescription = (\<lambda>tx i d. (None, tx\<lparr>nodes :=
          map (\<lambda>n. if node_ID n = i then n\<lparr>node_Description := d\<rparr> else n) (nodes tx)\<rparr>)),
      put_UpdateNodeRoles = (\<lambda>tx i rs. (None, tx\<lparr>nodes :=
          map (\<lambda>n. if node_ID n = i then n\<lparr>node_Roles := rs\<rparr> else n) (nodes tx)\<rparr>))\<rparr>"
     "''10.0.0.1:8443''"
     "\<lparr>put_Description = [], put_Roles = [''database''],
       member_ServerName = ''n1'', member_Database = True\<rparr>"
     "\<lparr>put_Description = ''rack 2'', put_Roles = []\<rparr>"]
  by (simp add: GetNodeByName_def StringInSlice_def ClusterRoleDatabase_def prod_eq_iff)

text \<open>
  Claim C8, counterexample to the claim as stated: the member \<^verbatim>\<open>n1\<close> holds \<^verbatim>\<open>database\<close> and
  the request drops it, and the response is not \<^verbatim>\<open>BadRequest\<close>. In the first run the ETag
  of the request is stale and the response is \<^verbatim>\<open>PreconditionFailed\<close>; in the second the
  leader address is not available and the response is \<^verbatim>\<open>InternalError\<close>.
\<close>

theorem cluster_node_put_not_bad_request_counterexample:
  "clusterNodePut
     \<lparr>put_LeaderAddress = Inr ''10.0.0.1:8443'',
      put_ToAPI = (\<lambda>n leader. Inr \<lparr>put_Description = node_Description n, put_Roles = node_Roles n,
                                  member_ServerName = node_Name n, member_Database = True\<rparr>),
      put_EtagCheck = (\<lambda>m. Some ''ETag doesn't match''),
      put_body = Inr \<lparr>put_Description = ''rack 2'', put_Roles = []\<rparr>,
      put_SetDescription = (\<lambda>tx i d. (None, tx)),
      put_UpdateNodeRoles = (\<lambda>tx i rs. (None, tx))\<rparr>
     \<lparr>networks = [], networks_nodes = [], networks_config = [],
      nodes = [\<lparr>node_ID = 1, node_Name = ''n1'', node_Address = ''10.0.0.1:8443'',
                node_Description = [], node_Roles = [''database''], node_IsOffline = False\<rparr>],
      nodeID = 1, networks_seq = 0\<rparr>
     ''n1''
   = (PreconditionFailed (ExtError ''ETag doesn't match''),
      \<lparr>networks = [], networks_nodes = [], networks_config = [],
       nodes = [\<lparr>node_ID = 1, node_Name = ''n1'', node_Address = ''10.0.0.1:8443'',
                 node_Description = [], node_Roles = [''database''], node_IsOffline = False\<rparr>],
       nodeID = 1, networks_seq = 0\<rparr>)
   \<and> clusterNodePut
     \<lparr>put_LeaderAddress = Inl ''No leader'',
      put_ToAPI = (\<lambda>n leader. Inr \<lparr>put_Description = node_Description n, put_Roles = node_Roles n,
                                  member_ServerName = node_Name n, member_Database = True\<rparr>),
      put_EtagCheck = (\<lambda>m. None),
      put_body = Inr \<lparr>put_Description = ''rack 2'', put_Roles = []\<rparr>,
      put_SetDescription = (\<lambda>tx i d. (None, tx)),
      put_UpdateNodeRoles = (\<lambda>tx i rs. (None, tx))\<rparr>
     \<lparr>networks = [], networks_nodes = [], networks_config = [],
      nodes = [\<lparr>node_ID = 1, node_Name = ''n1'', node_Address = ''10.0.0.1:8443'',
                node_Description = [], node_Roles = [''database''], node_IsOffline = False\<rparr>],
      nodeID = 1, networks_seq = 0\<rparr>
     ''n1''
   = (InternalError (ExtError ''No leader''),
      \<lparr>networks = [], networks_nodes = [], networks_config = [],
       nodes = [\<lparr>node_ID = 1, node_Name = ''n1'', node_Address = ''10.0.0.1:8443'',
                 node_Description = [], node_Roles = [''database''], node_IsOffline = False\<rparr>],
       nodeID = 1, networks_seq = 0\<rparr>)"
  by (simp add: clusterNodePut_def GetNodeByName_def)

subsection \<open>Join tokens\<close>


lemma active_cancelled [simp]:
  "\<not> active_join_token n (x\<lparr>op_StatusCode := Cancelled\<rparr>)"
  by (simp add: active_join_token_def)












subsection \<open>Member removal\<close>

lemma delete_each_done:
  "delete_each rpc ev names = (None, calls) \<Longrightarrow>
     calls = map ev names \<and> (\<forall>n\<in>set names. rpc n = None)"
proof (induction names arbitrary: calls)
  case Nil
  then show ?case by simp
next
  case (Cons n names)
  from Cons.prems have n: "rpc n = None" by (cases "rpc n") simp_all
  obtain r' calls' where d: "delete_each rpc ev names = (r', calls')"
    by (cases "delete_each rpc ev names")
  with n Cons.prems have "r' = None" "calls = ev n # calls'" by simp_all
  with Cons.IH [of calls'] d n show ?case by simp
qed


lemma delete_member_resources_cases:
  assumes run: "delete_member_resources env db address = (r, calls)"
  shows "(r \<noteq> None \<and> calls = [Call_Connect address])
     \<or> (\<exists>r1 calls1. delete_each (del_DeleteNetwork env address) (Call_DeleteNetwork address)
               (map nw_name (networks db)) = (r1, calls1)
          \<and> ((r1 \<noteq> None \<and> r \<noteq> None \<and> calls = Call_Connect address # calls1)
             \<or> (r1 = None \<and> r \<noteq> None \<and> calls = Call_Connect address # calls1)
             \<or> (r1 = None \<and> (\<exists>pools r2 calls2.
                    (\<forall>ps. del_GetStoragePoolNames env = Inr ps \<longrightarrow> ps = pools)
                  \<and> delete_each (del_DeleteStoragePool env address) (Call_DeleteStoragePool address)
                       pools = (r2, calls2)
                  \<and> (r = None \<longleftrightarrow> r2 = None)
                  \<and> calls = Call_Connect address # calls1 @ calls2))))"
proof (cases "del_Connect env address")
  case (Some e)
  with run have "r \<noteq> None \<and> calls = [Call_Connect address]"
    by (auto simp: delete_member_resources_def)
  then show ?thesis by blast
next
  case conn: None
  obtain r1 calls1 where d1: "delete_each (del_DeleteNetwork env address) (Call_DeleteNetwork address)
      (map nw_name (networks db)) = (r1, calls1)"
    by (cases "delete_each (del_DeleteNetwork env address) (Call_DeleteNetwork address) (map nw_name (networks db))")
  show ?thesis
  proof (cases r1)
    case (Some e)
    with run conn d1 have "r1 \<noteq> None \<and> r \<noteq> None \<and> calls = Call_Connect address # calls1"
      by (auto simp: delete_member_resources_def GetNetworks_def)
    with d1 show ?thesis by blast
  next
    case r1: None
    show ?thesis
    proof (cases "case del_GetStoragePoolNames env of
              Inl err \<Rightarrow> if err \<noteq> ErrNoSuchObject then Inl err else Inr []
            | Inr pools \<Rightarrow> Inr pools")
      case (Inl e)
      with run conn d1 r1 have "r \<noteq> None \<and> calls = Call_Connect address # calls1"
        by (auto simp: delete_member_resources_def GetNetworks_def)
      with d1 r1 show ?thesis by blast
    next
      case (Inr pools)
      obtain r2 calls2 where d2: "delete_each (del_DeleteStoragePool env address)
          (Call_DeleteStoragePool address) pools = (r2, calls2)"
        by (cases "delete_each (del_DeleteStoragePool env address) (Call_DeleteStoragePool address) pools")
      from Inr have ps: "\<forall>ps. del_GetStoragePoolNames env = Inr ps \<longrightarrow> ps = pools" by auto
      have "(r = None \<longleftrightarrow> r2 = None) \<and> calls = Call_Connect address # calls1 @ calls2"
      proof (cases r2)
        case None
        with run conn d1 r1 Inr d2 show ?thesis by (auto simp: delete_member_resources_def GetNetworks_def)
      next
        case (Some e)
        with run conn d1 r1 Inr d2 show ?thesis by (auto simp: delete_member_resources_def GetNetworks_def)
      qed
      with d1 r1 ps d2 show ?thesis by blast
    qed
  qed
qed


lemma delete_member_resources_done:
  assumes "delete_member_resources env db address = (None, calls)"
  shows "(\<forall>n\<in>set (map nw_name (networks db)).
            Call_DeleteNetwork address n \<in> set calls \<and> del_DeleteNetwork env address n = None)
       \<and> (\<forall>pools. del_GetStoragePoolNames env = Inr pools \<longrightarrow>
            (\<forall>p\<in>set pools. Call_DeleteStoragePool address p \<in> set calls
                \<and> del_DeleteStoragePool env address p = None))"
proof -
  from delete_member_resources_cases [OF assms]
  obtain calls1 pools calls2 where
    d1: "delete_each (del_DeleteNetwork env address) (Call_DeleteNetwork address)
               (map nw_name (networks db)) = (None, calls1)"
    and ps: "\<forall>ps. del_GetStoragePoolNames env = Inr ps \<longrightarrow> ps = pools"
    and d2: "delete_each (del_DeleteStoragePool env address) (Call_DeleteStoragePool address)
                       pools = (None, calls2)"
    and calls: "calls = Call_Connect address # calls1 @ calls2"
    by blast
  from delete_each_done [OF d1] have c1: "calls1 = map (Call_DeleteNetwork address) (map nw_name (networks db))"
    "\<forall>n\<in>set (map nw_name (networks db)). del_DeleteNetwork env address n = None" by blast+
  from delete_each_done [OF d2] have c2: "calls2 = map (Call_DeleteStoragePool address) pools"
    "\<forall>n\<in>set pools. del_DeleteStoragePool env address n = None" by blast+
  have n: "\<forall>n\<in>set (map nw_name (networks db)).
            Call_DeleteNetwork address n \<in> set calls \<and> del_DeleteNetwork env address n = None"
    using calls c1 by simp
  have p: "\<forall>p\<in>set pools. Call_DeleteStoragePool address p \<in> set calls
                \<and> del_DeleteStoragePool env address p = None"
    using calls c2 by simp
  from n p ps show ?thesis by blast
qed


lemma reset_member_done:
  "reset_member env address = (None, calls) \<Longrightarrow>
     Call_UpdateCluster address \<in> set calls \<and> del_UpdateCluster env address = None"
  by (auto simp: reset_member_def split: option.splits)









lemma leader_done:
  assumes "clusterNodeDelete_leader env db name force localAddress leader leaderInfo raftNodes
             = (EmptySyncResponse, calls)"
    and "force \<noteq> 1" and "del_Leave env name False = Inr address" and "address \<noteq> localAddress"
  shows "(\<forall>n\<in>set (map nw_name (networks db)).
            Call_DeleteNetwork address n \<in> set calls \<and> del_DeleteNetwork env address n = None)
       \<and> (\<forall>pools. del_GetStoragePoolNames env = Inr pools \<longrightarrow>
            (\<forall>p\<in>set pools. Call_DeleteStoragePool address p \<in> set calls
                \<and> del_DeleteStoragePool env address p = None))
       \<and> Call_UpdateCluster address \<in> set calls \<and> del_UpdateCluster env address = None"
proof -
  from assms have "\<exists>calls2 calls4. delete_member_resources env db address = (None, calls2)
       \<and> reset_member env address = (None, calls4)
       \<and> set calls2 \<subseteq> set calls \<and> set calls4 \<subseteq> set calls"
    by (auto simp: clusterNodeDelete_leader_def Let_def
      split: option.splits sum.splits prod.splits if_splits)
  then obtain calls2 calls4 where
    r: "delete_member_resources env db address = (None, calls2)"
       "reset_member env address = (None, calls4)"
       "set calls2 \<subseteq> set calls" "set calls4 \<subseteq> set calls"
    by blast
  from delete_member_resources_done [OF r(1)] reset_member_done [OF r(2)] r(3,4)
  show ?thesis by blast
qed












subsection \<open>Certificate rotation\<close>

lemma clusterCertificatePut_notification:
  "clusterCertificatePut env w self True body = clusterCertificatePut_notified env w self body"
  by (simp add: clusterCertificatePut_def clusterCertificatePut_notified_def split: sum.splits option.splits)
















subsection \<open>Join checks\<close>

lemma CompareConfigs_None_iff:
  "CompareConfigs config1 config2 exclude = None
     \<longleftrightarrow> (\<forall>key. key \<notin> set exclude \<longrightarrow> map_of config1 key = map_of config2 key)"
proof
  assume n: "CompareConfigs config1 config2 exclude = None"
  show "\<forall>key. key \<notin> set exclude \<longrightarrow> map_of config1 key = map_of config2 key"
  proof (intro allI impI)
    fix key assume k: "key \<notin> set exclude"
    show "map_of config1 key = map_of config2 key"
    proof (cases "key \<in> set (map fst config1 @ map fst config2)")
      case True
      with n k show ?thesis
        by (auto simp: CompareConfigs_def Let_def StringInSlice_def filter_empty_conv split: if_splits)
    next
      case False
      then have "map_of config1 key = None" "map_of config2 key = None"
        by (auto simp: map_of_eq_None_iff)
      then show ?thesis by simp
    qed
  qed
next
  assume "\<forall>key. key \<notin> set exclude \<longrightarrow> map_of config1 key = map_of config2 key"
  then show "CompareConfigs config1 config2 exclude = None"
    by (auto simp: CompareConfigs_def Let_def StringInSlice_def filter_empty_conv)
qed

lemma check_each_None_iff:
  "check_each check names = None \<longleftrightarrow> (\<forall>n\<in>set names. check n = None)"
  by (induction names) (auto split: option.splits)

lemma check_each_Some:
  "check_each check names = Some e \<Longrightarrow> \<exists>n\<in>set names. check n = Some e"
  by (induction names) (auto split: option.splits)

lemma find_first_in_set:
  "find P xs = Some x \<Longrightarrow> x \<in> set xs \<and> P x"
  by (induction xs) (auto split: if_splits)

lemma find_first_none:
  "find P xs = None \<Longrightarrow> x \<in> set xs \<Longrightarrow> \<not> P x"
  by (induction xs) (auto split: if_splits)

lemma check_storage_pool_None:
  assumes "check_storage_pool env reqPools name = None"
  shows "\<exists>reqPool pool. reqPool \<in> set reqPools \<and> pool_Name reqPool = name
      \<and> pe_GetStoragePoolInAnyState env name = Inr pool
      \<and> pool_Driver reqPool = pool_Driver pool
      \<and> (\<forall>key. key \<notin> set (pe_StoragePoolNodeConfigKeys env) \<longrightarrow>
            map_of (pool_Config reqPool) key = map_of (pool_Config pool) key)"
proof -
  from assms obtain reqPool where f: "find (\<lambda>reqPool. pool_Name reqPool = name) reqPools = Some reqPool"
    by (cases "find (\<lambda>reqPool. pool_Name reqPool = name) reqPools") (simp_all add: check_storage_pool_def)
  with assms obtain pool where p: "pe_GetStoragePoolInAnyState env name = Inr pool"
    by (cases "pe_GetStoragePoolInAnyState env name") (simp_all add: check_storage_pool_def)
  from assms f p have d: "pool_Driver pool = pool_Driver reqPool"
    and c: "CompareConfigs (pool_Config pool) (pool_Config reqPool) (pe_StoragePoolNodeConfigKeys env) = None"
    by (auto simp: check_storage_pool_def split: if_splits option.splits)
  from c have "\<forall>key. key \<notin> set (pe_StoragePoolNodeConfigKeys env) \<longrightarrow>
            map_of (pool_Config reqPool) key = map_of (pool_Config pool) key"
    by (simp add: CompareConfigs_None_iff)
  with find_first_in_set [OF f] p d show ?thesis by auto
qed

lemma check_storage_pool_Some:
  "check_storage_pool env reqPools name = Some e \<Longrightarrow>
     (\<exists>err. e = DbError err) \<or> e = MissingStoragePool name
     \<or> e = MismatchingDriverForStoragePool name \<or> (\<exists>keys. e = MismatchingConfigForStoragePool name keys)"
  by (auto simp: check_storage_pool_def split: option.splits sum.splits if_splits)

lemma check_network_None:
  assumes "check_network db reqNetworks name = None"
  shows "\<exists>reqNetwork networkID network members. reqNetwork \<in> set reqNetworks
      \<and> net_Name reqNetwork = name
      \<and> GetNetworkInAnyState db name = Inr (networkID, network, members)
      \<and> (\<forall>key. key \<notin> set NodeSpecificNetworkConfig \<longrightarrow>
            map_of (net_Config reqNetwork) key = map_of (net_Config network) key)"
proof -
  from assms obtain reqNetwork where
    f: "find (\<lambda>reqNetwork. net_Name reqNetwork = name) reqNetworks = Some reqNetwork"
    by (cases "find (\<lambda>reqNetwork. net_Name reqNetwork = name) reqNetworks")
      (simp_all add: check_network_def)
  with assms obtain networkID network members where
    p: "GetNetworkInAnyState db name = Inr (networkID, network, members)"
    by (cases "GetNetworkInAnyState db name") (auto simp: check_network_def)
  from assms f p have
    c: "CompareConfigs (net_Config network) (net_Config reqNetwork) NodeSpecificNetworkConfig = None"
    by (auto simp: check_network_def split: if_splits option.splits)
  from c have "\<forall>key. key \<notin> set NodeSpecificNetworkConfig \<longrightarrow>
            map_of (net_Config reqNetwork) key = map_of (net_Config network) key"
    by (simp add: CompareConfigs_None_iff)
  with find_first_in_set [OF f] p show ?thesis by auto
qed

lemma check_network_Some:
  "check_network db reqNetworks name = Some e \<Longrightarrow>
     (\<exists>err. e = DbError err) \<or> e = MissingNetwork name
     \<or> (\<exists>keys. e = MismatchingConfigForNetwork name keys)"
  by (auto simp: check_network_def split: option.splits sum.splits if_splits prod.splits)

lemma check_storage_pool_unmatched:
  assumes "\<not> (\<exists>reqPool\<in>set reqPools. pool_Name reqPool = name
      \<and> pool_Driver reqPool = pool_Driver pool
      \<and> (\<forall>key. key \<notin> set (pe_StoragePoolNodeConfigKeys env) \<longrightarrow>
            map_of (pool_Config reqPool) key = map_of (pool_Config pool) key))"
    and "pe_GetStoragePoolInAnyState env name = Inr pool"
  shows "check_storage_pool env reqPools name \<noteq> None"
  using check_storage_pool_None [of env reqPools name] assms by auto

lemma check_network_unmatched:
  assumes "\<not> (\<exists>reqNetwork\<in>set reqNetworks. net_Name reqNetwork = name
      \<and> (\<forall>key. key \<notin> set NodeSpecificNetworkConfig \<longrightarrow>
            map_of (net_Config reqNetwork) key = map_of (net_Config network) key))"
    and "GetNetworkInAnyState db name = Inr (networkID, network, members)"
  shows "check_network db reqNetworks name \<noteq> None"
  using check_network_None [of db reqNetworks name] assms by auto


lemma check_each_Some_first:
  "check_each check names = Some e \<Longrightarrow>
     \<exists>ps n qs. names = ps @ n # qs \<and> (\<forall>m\<in>set ps. check m = None) \<and> check n = Some e"
proof (induction names)
  case Nil
  then show ?case by simp
next
  case (Cons n names)
  show ?case
  proof (cases "check n")
    case (Some e')
    with Cons.prems have "n # names = [] @ n # names \<and> (\<forall>m\<in>set []. check m = None)
        \<and> check n = Some e" by simp
    then show ?thesis by blast
  next
    case None
    with Cons.prems have "check_each check names = Some e" by simp
    from Cons.IH [OF this] obtain ps m qs where
      h: "names = ps @ m # qs" "\<forall>k\<in>set ps. check k = None" "check m = Some e" by blast
    with None have "n # names = (n # ps) @ m # qs \<and> (\<forall>k\<in>set (n # ps). check k = None)
        \<and> check m = Some e" by simp
    then show ?thesis by blast
  qed
qed

lemma CompareConfigs_Some:
  "CompareConfigs config1 config2 exclude = Some keys \<Longrightarrow>
     keys \<noteq> [] \<and> (\<forall>k\<in>set keys. k \<notin> set exclude \<and> map_of config1 k \<noteq> map_of config2 k)"
  by (auto simp: CompareConfigs_def Let_def StringInSlice_def split: if_splits)

lemma find_none_all: "find P xs = None \<Longrightarrow> \<forall>x\<in>set xs. \<not> P x"
  by (induction xs) (auto split: if_splits)

lemma check_storage_pool_Some_exact:
  assumes "check_storage_pool env reqPools name = Some e"
  shows "(e = MissingStoragePool name \<and> (\<forall>rp\<in>set reqPools. pool_Name rp \<noteq> name))
       \<or> (\<exists>rp. find (\<lambda>rp. pool_Name rp = name) reqPools = Some rp
             \<and> ((\<exists>err. pe_GetStoragePoolInAnyState env name = Inl err \<and> e = DbError err)
                \<or> (\<exists>pool. pe_GetStoragePoolInAnyState env name = Inr pool
                      \<and> ((pool_Driver pool \<noteq> pool_Driver rp
                           \<and> e = MismatchingDriverForStoragePool name)
                         \<or> (pool_Driver pool = pool_Driver rp
                            \<and> (\<exists>keys. e = MismatchingConfigForStoragePool name keys
                                  \<and> keys \<noteq> []
                                  \<and> (\<forall>k\<in>set keys.
                                        k \<notin> set (pe_StoragePoolNodeConfigKeys env)
                                        \<and> map_of (pool_Config pool) k
                                            \<noteq> map_of (pool_Config rp) k)))))))"
proof (cases "find (\<lambda>rp. pool_Name rp = name) reqPools")
  case None
  with assms have "e = MissingStoragePool name" by (simp add: check_storage_pool_def)
  with find_none_all [OF None] show ?thesis by blast
next
  case (Some rp)
  show ?thesis
  proof (cases "pe_GetStoragePoolInAnyState env name")
    case (Inl err)
    with assms Some have "e = DbError err" by (simp add: check_storage_pool_def)
    with Some Inl show ?thesis by blast
  next
    case (Inr pool)
    show ?thesis
    proof (cases "pool_Driver pool \<noteq> pool_Driver rp")
      case True
      with assms Some Inr have "e = MismatchingDriverForStoragePool name"
        by (simp add: check_storage_pool_def)
      with Some Inr True show ?thesis by blast
    next
      case False
      with assms Some Inr obtain keys where
        k: "CompareConfigs (pool_Config pool) (pool_Config rp) (pe_StoragePoolNodeConfigKeys env)
              = Some keys" and e: "e = MismatchingConfigForStoragePool name keys"
        by (auto simp: check_storage_pool_def split: option.splits)
      from CompareConfigs_Some [OF k] e False Some Inr show ?thesis by blast
    qed
  qed
qed

lemma check_network_Some_exact:
  assumes "check_network db reqNetworks name = Some e"
  shows "(e = MissingNetwork name \<and> (\<forall>rn\<in>set reqNetworks. net_Name rn \<noteq> name))
       \<or> (\<exists>rn. find (\<lambda>rn. net_Name rn = name) reqNetworks = Some rn
             \<and> ((\<exists>err. GetNetworkInAnyState db name = Inl err \<and> e = DbError err)
                \<or> (\<exists>networkID network members.
                      GetNetworkInAnyState db name = Inr (networkID, network, members)
                      \<and> (\<exists>keys. e = MismatchingConfigForNetwork name keys
                            \<and> keys \<noteq> []
                            \<and> (\<forall>k\<in>set keys.
                                  k \<notin> set NodeSpecificNetworkConfig
                                  \<and> map_of (net_Config network) k
                                      \<noteq> map_of (net_Config rn) k)))))"
proof (cases "find (\<lambda>rn. net_Name rn = name) reqNetworks")
  case None
  with assms have "e = MissingNetwork name" by (simp add: check_network_def)
  with find_none_all [OF None] show ?thesis by blast
next
  case (Some rn)
  show ?thesis
  proof (cases "GetNetworkInAnyState db name")
    case (Inl err)
    with assms Some have "e = DbError err" by (simp add: check_network_def)
    with Some Inl show ?thesis by blast
  next
    case (Inr found)
    obtain networkID network members where f: "found = (networkID, network, members)"
      by (cases found) auto
    with assms Some Inr obtain keys where
      k: "CompareConfigs (net_Config network) (net_Config rn) NodeSpecificNetworkConfig = Some keys"
      and e: "e = MismatchingConfigForNetwork name keys"
      by (auto simp: check_network_def split: option.splits)
    from CompareConfigs_Some [OF k] e Some Inr f show ?thesis by blast
  qed
qed

text \<open>
  Claim C2, as amended. Take a join request whose body decodes. If the handler reaches
  \<^verbatim>\<open>cluster.Accept\<close>, then every storage pool of the cluster in the state created has an
  entry in the request's storage pools with its name, the same driver and the same value
  at every config key that is not node-specific, and every network in the state created
  has an entry in the request's networks with its name and the same value at every
  config key that is not node-specific; the type of a network is not compared, and a
  pool or network that is pending or errored is not checked. On the leader, for a
  request with a name, when \<^verbatim>\<open>cluster.Accept\<close> is not reached the response is the error of
  the first resource that fails its check, the created pools in their order before the
  created networks in theirs, and the error names that resource and what failed: no
  entry has its name, the first entry with its name has another driver, or that entry's
  config differs at the keys named, none of them node-specific (or the database could
  not be read).
\<close>

theorem accept_checks_pools_and_networks:
  assumes run: "internalClusterPostAccept env penv db = (resp, calls)"
    and body: "ae_body env = Inr req"
  shows "(calls \<noteq> [] \<longrightarrow>
           (\<forall>names. pe_GetCreatedStoragePoolNames penv = Inr names \<longrightarrow>
              (\<forall>name\<in>set names. \<exists>reqPool\<in>set (acc_StoragePools req). \<exists>pool.
                  pool_Name reqPool = name
                  \<and> pe_GetStoragePoolInAnyState penv name = Inr pool
                  \<and> pool_Driver reqPool = pool_Driver pool
                  \<and> (\<forall>key. key \<notin> set (pe_StoragePoolNodeConfigKeys penv) \<longrightarrow>
                        map_of (pool_Config reqPool) key = map_of (pool_Config pool) key)))
         \<and> (\<forall>r\<in>set (networks db). nw_state r = networkCreated \<longrightarrow>
              (\<exists>reqNetwork\<in>set (acc_Networks req). \<exists>networkID network members.
                  net_Name reqNetwork = nw_name r
                  \<and> GetNetworkInAnyState db (nw_name r) = Inr (networkID, network, members)
                  \<and> (\<forall>key. key \<notin> set NodeSpecificNetworkConfig \<longrightarrow>
                        map_of (net_Config reqNetwork) key = map_of (net_Config network) key))))
     \<and> (acc_Name req \<noteq> []
          \<and> (\<exists>address. ae_ClusterAddress env = Inr address \<and> ae_LeaderAddress env = Inr address)
          \<and> calls = []
        \<longrightarrow> (\<exists>e. resp = SmartError e
              \<and> ((\<exists>err. pe_GetCreatedStoragePoolNames penv = Inl err \<and> err \<noteq> ErrNoSuchObject
                      \<and> e = DbError err)
                 \<or> (\<exists>ps name qs. pe_GetCreatedStoragePoolNames penv = Inr (ps @ name # qs)
                       \<and> (\<forall>m\<in>set ps. check_storage_pool penv (acc_StoragePools req) m = None)
                       \<and> ((e = MissingStoragePool name \<and> (\<forall>rp\<in>set (acc_StoragePools req). pool_Name rp \<noteq> name))
                    \<or> (\<exists>rp. find (\<lambda>rp. pool_Name rp = name) (acc_StoragePools req) = Some rp
                          \<and> ((\<exists>err. pe_GetStoragePoolInAnyState penv name = Inl err \<and> e = DbError err)
                             \<or> (\<exists>pool. pe_GetStoragePoolInAnyState penv name = Inr pool
                                   \<and> ((pool_Driver pool \<noteq> pool_Driver rp
                                        \<and> e = MismatchingDriverForStoragePool name)
                                      \<or> (pool_Driver pool = pool_Driver rp
                                         \<and> (\<exists>keys. e = MismatchingConfigForStoragePool name keys
                                               \<and> keys \<noteq> []
                                               \<and> (\<forall>k\<in>set keys.
                                                     k \<notin> set (pe_StoragePoolNodeConfigKeys penv)
                                                     \<and> map_of (pool_Config pool) k
                                                         \<noteq> map_of (pool_Config rp) k)))))))))
                 \<or> (clusterCheckStoragePoolsMatch penv (acc_StoragePools req) = None
                    \<and> (\<exists>ps name qs.
                          map nw_name (filter (\<lambda>r. nw_state r = networkCreated) (networks db))
                            = ps @ name # qs
                          \<and> (\<forall>m\<in>set ps. check_network db (acc_Networks req) m = None)
                          \<and> ((e = MissingNetwork name \<and> (\<forall>rn\<in>set (acc_Networks req). net_Name rn \<noteq> name))
                    \<or> (\<exists>rn. find (\<lambda>rn. net_Name rn = name) (acc_Networks req) = Some rn
                          \<and> ((\<exists>err. GetNetworkInAnyState db name = Inl err \<and> e = DbError err)
                             \<or> (\<exists>networkID network members.
                                   GetNetworkInAnyState db name = Inr (networkID, network, members)
                                   \<and> (\<exists>keys. e = MismatchingConfigForNetwork name keys
                                         \<and> keys \<noteq> []
                                         \<and> (\<forall>k\<in>set keys.
                                               k \<notin> set NodeSpecificNetworkConfig
                                               \<and> map_of (net_Config network) k
                                                   \<noteq> map_of (net_Config rn) k)))))))))))"
proof (intro conjI impI)
  assume c: "calls \<noteq> []"
  with run body have p: "clusterCheckStoragePoolsMatch penv (acc_StoragePools req) = None"
    and n: "clusterCheckNetworksMatch db (acc_Networks req) = None"
    by (auto simp: internalClusterPostAccept_def split: sum.splits option.splits if_splits)
  show "\<forall>names. pe_GetCreatedStoragePoolNames penv = Inr names \<longrightarrow>
              (\<forall>name\<in>set names. \<exists>reqPool\<in>set (acc_StoragePools req). \<exists>pool.
                  pool_Name reqPool = name
                  \<and> pe_GetStoragePoolInAnyState penv name = Inr pool
                  \<and> pool_Driver reqPool = pool_Driver pool
                  \<and> (\<forall>key. key \<notin> set (pe_StoragePoolNodeConfigKeys penv) \<longrightarrow>
                        map_of (pool_Config reqPool) key = map_of (pool_Config pool) key))"
  proof (intro allI impI ballI)
    fix names name
    assume g: "pe_GetCreatedStoragePoolNames penv = Inr names" and m: "name \<in> set names"
    with p have "check_storage_pool penv (acc_StoragePools req) name = None"
      by (simp add: clusterCheckStoragePoolsMatch_def check_each_None_iff)
    from check_storage_pool_None [OF this]
    show "\<exists>reqPool\<in>set (acc_StoragePools req). \<exists>pool.
                  pool_Name reqPool = name
                  \<and> pe_GetStoragePoolInAnyState penv name = Inr pool
                  \<and> pool_Driver reqPool = pool_Driver pool
                  \<and> (\<forall>key. key \<notin> set (pe_StoragePoolNodeConfigKeys penv) \<longrightarrow>
                        map_of (pool_Config reqPool) key = map_of (pool_Config pool) key)"
      by blast
  qed
  show "\<forall>r\<in>set (networks db). nw_state r = networkCreated \<longrightarrow>
              (\<exists>reqNetwork\<in>set (acc_Networks req). \<exists>networkID network members.
                  net_Name reqNetwork = nw_name r
                  \<and> GetNetworkInAnyState db (nw_name r) = Inr (networkID, network, members)
                  \<and> (\<forall>key. key \<notin> set NodeSpecificNetworkConfig \<longrightarrow>
                        map_of (net_Config reqNetwork) key = map_of (net_Config network) key))"
  proof (intro ballI impI)
    fix r assume r: "r \<in> set (networks db)" "nw_state r = networkCreated"
    with n have "check_network db (acc_Networks req) (nw_name r) = None"
      by (simp add: clusterCheckNetworksMatch_def GetCreatedNetworks_def check_each_None_iff)
    from check_network_None [OF this]
    show "\<exists>reqNetwork\<in>set (acc_Networks req). \<exists>networkID network members.
                  net_Name reqNetwork = nw_name r
                  \<and> GetNetworkInAnyState db (nw_name r) = Inr (networkID, network, members)
                  \<and> (\<forall>key. key \<notin> set NodeSpecificNetworkConfig \<longrightarrow>
                        map_of (net_Config reqNetwork) key = map_of (net_Config network) key)"
      by blast
  qed
next
  assume h: "acc_Name req \<noteq> []
          \<and> (\<exists>address. ae_ClusterAddress env = Inr address \<and> ae_LeaderAddress env = Inr address)
          \<and> calls = []"
  then obtain address where a: "ae_ClusterAddress env = Inr address" "ae_LeaderAddress env = Inr address"
    by blast
  show "(\<exists>e. resp = SmartError e
              \<and> ((\<exists>err. pe_GetCreatedStoragePoolNames penv = Inl err \<and> err \<noteq> ErrNoSuchObject
                      \<and> e = DbError err)
                 \<or> (\<exists>ps name qs. pe_GetCreatedStoragePoolNames penv = Inr (ps @ name # qs)
                       \<and> (\<forall>m\<in>set ps. check_storage_pool penv (acc_StoragePools req) m = None)
                       \<and> ((e = MissingStoragePool name \<and> (\<forall>rp\<in>set (acc_StoragePools req). pool_Name rp \<noteq> name))
                    \<or> (\<exists>rp. find (\<lambda>rp. pool_Name rp = name) (acc_StoragePools req) = Some rp
                          \<and> ((\<exists>err. pe_GetStoragePoolInAnyState penv name = Inl err \<and> e = DbError err)
                             \<or> (\<exists>pool. pe_GetStoragePoolInAnyState penv name = Inr pool
                                   \<and> ((pool_Driver pool \<noteq> pool_Driver rp
                                        \<and> e = MismatchingDriverForStoragePool name)
                                      \<or> (pool_Driver pool = pool_Driver rp
                                         \<and> (\<exists>keys. e = MismatchingConfigForStoragePool name keys
                                               \<and> keys \<noteq> []
                                               \<and> (\<forall>k\<in>set keys.
                                                     k \<notin> set (pe_StoragePoolNodeConfigKeys penv)
                                                     \<and> map_of (pool_Config pool) k
                                                         \<noteq> map_of (pool_Config rp) k)))))))))
                 \<or> (clusterCheckStoragePoolsMatch penv (acc_StoragePools req) = None
                    \<and> (\<exists>ps name qs.
                          map nw_name (filter (\<lambda>r. nw_state r = networkCreated) (networks db))
                            = ps @ name # qs
                          \<and> (\<forall>m\<in>set ps. check_network db (acc_Networks req) m = None)
                          \<and> ((e = MissingNetwork name \<and> (\<forall>rn\<in>set (acc_Networks req). net_Name rn \<noteq> name))
                    \<or> (\<exists>rn. find (\<lambda>rn. net_Name rn = name) (acc_Networks req) = Some rn
                          \<and> ((\<exists>err. GetNetworkInAnyState db name = Inl err \<and> e = DbError err)
                             \<or> (\<exists>networkID network members.
                                   GetNetworkInAnyState db name = Inr (networkID, network, members)
                                   \<and> (\<exists>keys. e = MismatchingConfigForNetwork name keys
                                         \<and> keys \<noteq> []
                                         \<and> (\<forall>k\<in>set keys.
                                               k \<notin> set NodeSpecificNetworkConfig
                                               \<and> map_of (net_Config network) k
                                                   \<noteq> map_of (net_Config rn) k))))))))))"
  proof (cases "clusterCheckStoragePoolsMatch penv (acc_StoragePools req)")
    case (Some e)
    with run body h a have resp: "resp = SmartError e"
      by (simp add: internalClusterPostAccept_def)
    show ?thesis
    proof (cases "pe_GetCreatedStoragePoolNames penv")
      case (Inl err)
      with Some have "err \<noteq> ErrNoSuchObject \<and> e = DbError err"
        by (auto simp: clusterCheckStoragePoolsMatch_def split: if_splits)
      with Inl have A: "\<exists>err. pe_GetCreatedStoragePoolNames penv = Inl err \<and> err \<noteq> ErrNoSuchObject
                      \<and> e = DbError err" by simp
      show ?thesis
        by (rule exI [of _ e], rule conjI, rule resp, rule disjI1, rule A)
    next
      case (Inr names)
      with Some have "check_each (check_storage_pool penv (acc_StoragePools req)) names = Some e"
        by (simp add: clusterCheckStoragePoolsMatch_def)
      from check_each_Some_first [OF this] obtain ps name qs where
        sp: "names = ps @ name # qs"
          "\<forall>m\<in>set ps. check_storage_pool penv (acc_StoragePools req) m = None"
          "check_storage_pool penv (acc_StoragePools req) name = Some e" by blast
      from sp(1) Inr have g: "pe_GetCreatedStoragePoolNames penv = Inr (ps @ name # qs)" by simp
      note f = check_storage_pool_Some_exact [OF sp(3)]
      have B: "\<exists>ps name qs. pe_GetCreatedStoragePoolNames penv = Inr (ps @ name # qs)
                       \<and> (\<forall>m\<in>set ps. check_storage_pool penv (acc_StoragePools req) m = None)
                       \<and> ((e = MissingStoragePool name \<and> (\<forall>rp\<in>set (acc_StoragePools req). pool_Name rp \<noteq> name))
                    \<or> (\<exists>rp. find (\<lambda>rp. pool_Name rp = name) (acc_StoragePools req) = Some rp
                          \<and> ((\<exists>err. pe_GetStoragePoolInAnyState penv name = Inl err \<and> e = DbError err)
                             \<or> (\<exists>pool. pe_GetStoragePoolInAnyState penv name = Inr pool
                                   \<and> ((pool_Driver pool \<noteq> pool_Driver rp
                                        \<and> e = MismatchingDriverForStoragePool name)
                                      \<or> (pool_Driver pool = pool_Driver rp
                                         \<and> (\<exists>keys. e = MismatchingConfigForStoragePool name keys
                                               \<and> keys \<noteq> []
                                               \<and> (\<forall>k\<in>set keys.
                                                     k \<notin> set (pe_StoragePoolNodeConfigKeys penv)
                                                     \<and> map_of (pool_Config pool) k
                                                         \<noteq> map_of (pool_Config rp) k))))))))"
        by (rule exI [of _ ps], rule exI [of _ name], rule exI [of _ qs]) (intro conjI g sp(2) f)
      show ?thesis
        by (rule exI [of _ e], rule conjI, rule resp, rule disjI2, rule disjI1, rule B)
    qed
  next
    case pools: None
    show ?thesis
    proof (cases "clusterCheckNetworksMatch db (acc_Networks req)")
      case None
      with run body h a pools have "calls \<noteq> []"
        by (auto simp: internalClusterPostAccept_def split: sum.splits)
      with h show ?thesis by simp
    next
      case (Some e)
      with run body h a pools have resp: "resp = SmartError e"
        by (simp add: internalClusterPostAccept_def)
      from Some have "check_each (check_network db (acc_Networks req))
          (map nw_name (filter (\<lambda>r. nw_state r = networkCreated) (networks db))) = Some e"
        by (simp add: clusterCheckNetworksMatch_def GetCreatedNetworks_def)
      from check_each_Some_first [OF this] obtain ps name qs where
        sp: "map nw_name (filter (\<lambda>r. nw_state r = networkCreated) (networks db)) = ps @ name # qs"
          "\<forall>m\<in>set ps. check_network db (acc_Networks req) m = None"
          "check_network db (acc_Networks req) name = Some e" by blast
      note f = check_network_Some_exact [OF sp(3)]
      have C: "\<exists>ps name qs.
                          map nw_name (filter (\<lambda>r. nw_state r = networkCreated) (networks db))
                            = ps @ name # qs
                          \<and> (\<forall>m\<in>set ps. check_network db (acc_Networks req) m = None)
                          \<and> ((e = MissingNetwork name \<and> (\<forall>rn\<in>set (acc_Networks req). net_Name rn \<noteq> name))
                    \<or> (\<exists>rn. find (\<lambda>rn. net_Name rn = name) (acc_Networks req) = Some rn
                          \<and> ((\<exists>err. GetNetworkInAnyState db name = Inl err \<and> e = DbError err)
                             \<or> (\<exists>networkID network members.
                                   GetNetworkInAnyState db name = Inr (networkID, network, members)
                                   \<and> (\<exists>keys. e = MismatchingConfigForNetwork name keys
                                         \<and> keys \<noteq> []
                                         \<and> (\<forall>k\<in>set keys.
                                               k \<notin> set NodeSpecificNetworkConfig
                                               \<and> map_of (net_Config network) k
                                                   \<noteq> map_of (net_Config rn) k))))))"
        by (rule exI [of _ ps], rule exI [of _ name], rule exI [of _ qs]) (intro conjI sp(1) sp(2) f)
      show ?thesis
        by (rule exI [of _ e], rule conjI, rule resp, rule disjI2, rule disjI2, rule conjI,
            rule pools, rule C)
    qed
  qed
qed

text \<open>
  Claim C2 as stated fails in two ways. First run, the driver of a network: the
  cluster's network \<^verbatim>\<open>lxdbr0\<close> is a bridge, the joiner submits \<^verbatim>\<open>lxdbr0\<close> with the type
  \<^verbatim>\<open>macvlan\<close> and the same config, and the join is accepted. Second run, a network that is
  defined but not created: the cluster's network \<^verbatim>\<open>lxdbr1\<close> is pending and has a global
  key, the joiner submits no network at all, and the join is accepted.
\<close>

theorem accept_network_type_counterexample:
  "internalClusterPostAccept
      \<lparr>ae_body = Inr \<lparr>acc_Name = ''b'', acc_Address = ''10.0.0.2:8443'',
                       acc_StoragePools = [],
                       acc_Networks = [\<lparr>net_Name = ''lxdbr0'', net_Description = [], net_Type = ''macvlan'', net_Managed = True,
        net_Status = ''Created'', net_Config = [(''ipv4.address'', ''10.1.1.1/24'')],
        net_Locations = []\<rparr>]\<rparr>,
      ae_ClusterAddress = Inr ''10.0.0.1:8443'', ae_LeaderAddress = Inr ''10.0.0.1:8443'',
      ae_Accept = (\<lambda>n a. Inr [])\<rparr>
      \<lparr>pe_GetCreatedStoragePoolNames = Inl ErrNoSuchObject,
      pe_GetStoragePoolInAnyState = (\<lambda>n. Inl ErrNoSuchObject),
      pe_StoragePoolNodeConfigKeys = [''source'']\<rparr>
      \<lparr>networks = [\<lparr>nw_id = 1, nw_name = ''lxdbr0'', nw_description = [], nw_state = networkCreated\<rparr>],
      networks_nodes = [(1, 1)],
      networks_config = [\<lparr>nc_network_id = 1, nc_node_id = None, nc_key = ''ipv4.address'',
                           nc_value = ''10.1.1.1/24''\<rparr>],
      nodes = [\<lparr>node_ID = 1, node_Name = ''a'', node_Address = ''10.0.0.1:8443'',
                node_Description = [], node_Roles = [], node_IsOffline = False\<rparr>],
      nodeID = 1, networks_seq = 1\<rparr>
     = (SyncResponse [], [Call_Accept ''b'' ''10.0.0.2:8443''])
   \<and> map_sum id (\<lambda>(networkID, network, members). net_Type network)
        (GetNetworkInAnyState
      \<lparr>networks = [\<lparr>nw_id = 1, nw_name = ''lxdbr0'', nw_description = [], nw_state = networkCreated\<rparr>],
      networks_nodes = [(1, 1)],
      networks_config = [\<lparr>nc_network_id = 1, nc_node_id = None, nc_key = ''ipv4.address'',
                           nc_value = ''10.1.1.1/24''\<rparr>],
      nodes = [\<lparr>node_ID = 1, node_Name = ''a'', node_Address = ''10.0.0.1:8443'',
                node_Description = [], node_Roles = [], node_IsOffline = False\<rparr>],
      nodeID = 1, networks_seq = 1\<rparr> ''lxdbr0'') = Inr ''bridge''
   \<and> internalClusterPostAccept
      \<lparr>ae_body = Inr \<lparr>acc_Name = ''b'', acc_Address = ''10.0.0.2:8443'',
                       acc_StoragePools = [], acc_Networks = []\<rparr>,
      ae_ClusterAddress = Inr ''10.0.0.1:8443'', ae_LeaderAddress = Inr ''10.0.0.1:8443'',
      ae_Accept = (\<lambda>n a. Inr [])\<rparr>
      \<lparr>pe_GetCreatedStoragePoolNames = Inl ErrNoSuchObject,
      pe_GetStoragePoolInAnyState = (\<lambda>n. Inl ErrNoSuchObject),
      pe_StoragePoolNodeConfigKeys = [''source'']\<rparr>
      \<lparr>networks = [\<lparr>nw_id = 1, nw_name = ''lxdbr1'', nw_description = [], nw_state = networkPending\<rparr>],
      networks_nodes = [(1, 1)],
      networks_config = [\<lparr>nc_network_id = 1, nc_node_id = None, nc_key = ''ipv4.address'',
                           nc_value = ''10.1.2.1/24''\<rparr>],
      nodes = [\<lparr>node_ID = 1, node_Name = ''a'', node_Address = ''10.0.0.1:8443'',
                node_Description = [], node_Roles = [], node_IsOffline = False\<rparr>],
      nodeID = 1, networks_seq = 1\<rparr>
     = (SyncResponse [], [Call_Accept ''b'' ''10.0.0.2:8443''])"
  by (simp add: internalClusterPostAccept_def clusterCheckStoragePoolsMatch_def
      clusterCheckNetworksMatch_def GetCreatedNetworks_def check_network_def
      GetNetworkInAnyState_def getNetworkByName_def getPartialNetworkByName_def
      networkPopulatePeerInfo_def getNetworkConfig_def NetworkNodes_def CompareConfigs_def
      StringInSlice_def NodeSpecificNetworkConfig_def networkFillType_def NetworkTypeBridge_def)

text \<open>
  The theorem of claim C2 on a joiner whose pool \<^verbatim>\<open>local\<close> has the driver \<^verbatim>\<open>dir\<close> where the
  cluster's has \<^verbatim>\<open>zfs\<close>.
\<close>

theorem accept_checks_pools_and_networks_witness:
  "internalClusterPostAccept
      \<lparr>ae_body = Inr \<lparr>acc_Name = ''b'', acc_Address = ''10.0.0.2:8443'',
                       acc_StoragePools = [\<lparr>pool_Name = ''local'', pool_Driver = ''dir'',
                                              pool_Config = [(''source'', ''/srv/b'')]\<rparr>],
                       acc_Networks = [\<lparr>net_Name = ''lxdbr0'', net_Description = [], net_Type = ''macvlan'', net_Managed = True,
        net_Status = ''Created'', net_Config = [(''ipv4.address'', ''10.1.1.1/24'')],
        net_Locations = []\<rparr>]\<rparr>,
      ae_ClusterAddress = Inr ''10.0.0.1:8443'', ae_LeaderAddress = Inr ''10.0.0.1:8443'',
      ae_Accept = (\<lambda>n a. Inr [])\<rparr>
      \<lparr>pe_GetCreatedStoragePoolNames = Inr [''local''],
      pe_GetStoragePoolInAnyState = (\<lambda>n. Inr \<lparr>pool_Name = n, pool_Driver = ''zfs'',
                                                pool_Config = [(''source'', ''/srv/a'')]\<rparr>),
      pe_StoragePoolNodeConfigKeys = [''source'']\<rparr>
      \<lparr>networks = [\<lparr>nw_id = 1, nw_name = ''lxdbr0'', nw_description = [], nw_state = networkCreated\<rparr>],
      networks_nodes = [(1, 1)],
      networks_config = [\<lparr>nc_network_id = 1, nc_node_id = None, nc_key = ''ipv4.address'',
                           nc_value = ''10.1.1.1/24''\<rparr>],
      nodes = [\<lparr>node_ID = 1, node_Name = ''a'', node_Address = ''10.0.0.1:8443'',
                node_Description = [], node_Roles = [], node_IsOffline = False\<rparr>],
      nodeID = 1, networks_seq = 1\<rparr>
    = (SmartError (MismatchingDriverForStoragePool ''local''), [])"
proof -
  let ?env = "\<lparr>ae_body = Inr \<lparr>acc_Name = ''b'', acc_Address = ''10.0.0.2:8443'',
                       acc_StoragePools = [\<lparr>pool_Name = ''local'', pool_Driver = ''dir'',
                                              pool_Config = [(''source'', ''/srv/b'')]\<rparr>],
                       acc_Networks = [\<lparr>net_Name = ''lxdbr0'', net_Description = [], net_Type = ''macvlan'', net_Managed = True,
        net_Status = ''Created'', net_Config = [(''ipv4.address'', ''10.1.1.1/24'')],
        net_Locations = []\<rparr>]\<rparr>,
      ae_ClusterAddress = Inr ''10.0.0.1:8443'', ae_LeaderAddress = Inr ''10.0.0.1:8443'',
      ae_Accept = (\<lambda>n a. Inr [])\<rparr>"
  let ?penv = "\<lparr>pe_GetCreatedStoragePoolNames = Inr [''local''],
      pe_GetStoragePoolInAnyState = (\<lambda>n. Inr \<lparr>pool_Name = n, pool_Driver = ''zfs'',
                                                pool_Config = [(''source'', ''/srv/a'')]\<rparr>),
      pe_StoragePoolNodeConfigKeys = [''source'']\<rparr>"
  let ?db = "\<lparr>networks = [\<lparr>nw_id = 1, nw_name = ''lxdbr0'', nw_description = [], nw_state = networkCreated\<rparr>],
      networks_nodes = [(1, 1)],
      networks_config = [\<lparr>nc_network_id = 1, nc_node_id = None, nc_key = ''ipv4.address'',
                           nc_value = ''10.1.1.1/24''\<rparr>],
      nodes = [\<lparr>node_ID = 1, node_Name = ''a'', node_Address = ''10.0.0.1:8443'',
                node_Description = [], node_Roles = [], node_IsOffline = False\<rparr>],
      nodeID = 1, networks_seq = 1\<rparr>"
  obtain resp calls where run: "internalClusterPostAccept ?env ?penv ?db = (resp, calls)"
    by (cases "internalClusterPostAccept ?env ?penv ?db")
  have body: "ae_body ?env = Inr \<lparr>acc_Name = ''b'', acc_Address = ''10.0.0.2:8443'',
                       acc_StoragePools = [\<lparr>pool_Name = ''local'', pool_Driver = ''dir'',
                                              pool_Config = [(''source'', ''/srv/b'')]\<rparr>],
                       acc_Networks = [\<lparr>net_Name = ''lxdbr0'', net_Description = [], net_Type = ''macvlan'', net_Managed = True,
        net_Status = ''Created'', net_Config = [(''ipv4.address'', ''10.1.1.1/24'')],
        net_Locations = []\<rparr>]\<rparr>"
    by simp
  have nc: "calls = []"
  proof (rule ccontr)
    assume "calls \<noteq> []"
    with accept_checks_pools_and_networks [OF run body] show False by simp
  qed
  from accept_checks_pools_and_networks [OF run body] nc
  have "\<exists>e. resp = SmartError e" by auto
  with run nc show ?thesis
    by (auto simp: internalClusterPostAccept_def clusterCheckStoragePoolsMatch_def
        check_storage_pool_def)
qed

subsection \<open>Network creation in a cluster\<close>

lemma Transaction_cases:
  "Transaction db f = (r, db') \<Longrightarrow>
     (r \<noteq> None \<and> db' = db) \<or> (r = None \<and> f db = (None, db'))"
  by (auto simp: Transaction_def split: prod.splits option.splits)

lemma networkState_None:
  "networkState tx name st = (None, tx') \<Longrightarrow>
     length (filter (\<lambda>r. nw_name r = name) (networks tx)) = 1
     \<and> tx' = tx\<lparr>networks :=
                  map (\<lambda>r. if nw_name r = name then r\<lparr>nw_state := st\<rparr> else r) (networks tx)\<rparr>"
  unfolding networkState_def Let_def
  by (cases "length (filter (\<lambda>r. nw_name r = name) (networks tx)) = 1") simp_all

lemma set_state_names:
  "map nw_name (map (\<lambda>r. if P r then r\<lparr>nw_state := st\<rparr> else r) rows) = map nw_name rows"
  by (induction rows) auto

lemma set_state_ids:
  "map nw_id (map (\<lambda>r. if P r then r\<lparr>nw_state := st\<rparr> else r) rows) = map nw_id rows"
  by (induction rows) auto

lemma set_state_named:
  assumes "x \<in> set (map (\<lambda>r. if nw_name r = name then r\<lparr>nw_state := st\<rparr> else r) rows)"
    and "nw_name x = name"
  shows "nw_state x = st"
proof -
  from assms(1) have "x \<in> (\<lambda>r. if nw_name r = name then r\<lparr>nw_state := st\<rparr> else r) ` set rows"
    by (simp only: set_map)
  then obtain a where a: "x = (if nw_name a = name then a\<lparr>nw_state := st\<rparr> else a)"
    by (rule imageE)
  show ?thesis
  proof (cases "nw_name a = name")
    case True
    with a show ?thesis by simp
  next
    case False
    with a assms(2) show ?thesis by simp
  qed
qed

lemma networkState_committed:
  assumes "networkState tx name st = (None, tx')"
  shows "(\<exists>r\<in>set (networks tx'). nw_name r = name)
       \<and> (\<forall>r\<in>set (networks tx'). nw_name r = name \<longrightarrow> nw_state r = st)
       \<and> map nw_name (networks tx') = map nw_name (networks tx)
       \<and> map nw_id (networks tx') = map nw_id (networks tx)
       \<and> nodes tx' = nodes tx"
proof -
  let ?rows = "map (\<lambda>r. if nw_name r = name then r\<lparr>nw_state := st\<rparr> else r) (networks tx)"
  from networkState_None [OF assms]
  have n: "length (filter (\<lambda>r. nw_name r = name) (networks tx)) = 1"
    and tx': "networks tx' = ?rows" and nd: "nodes tx' = nodes tx" by simp_all
  from n have "filter (\<lambda>r. nw_name r = name) (networks tx) \<noteq> []"
    by (metis length_0_conv zero_neq_one)
  then obtain y where y: "y \<in> set (networks tx)" "nw_name y = name"
    by (meson filter_empty_conv)
  then have "name \<in> set (map nw_name (networks tx))" by (metis image_eqI set_map)
  then have "name \<in> set (map nw_name (networks tx'))"
    by (simp only: tx' set_state_names)
  then have a: "\<exists>r\<in>set (networks tx'). nw_name r = name" by (metis imageE set_map)
  have b: "\<forall>r\<in>set (networks tx'). nw_name r = name \<longrightarrow> nw_state r = st"
    using set_state_named [of _ name st "networks tx"] by (simp only: tx') blast
  have c: "map nw_name (networks tx') = map nw_name (networks tx)"
    by (simp only: tx' set_state_names)
  have d: "map nw_id (networks tx') = map nw_id (networks tx)"
    by (simp only: tx' set_state_ids)
  from a b c d nd show ?thesis by blast
qed

lemma networkConfigAdd_networks [simp]:
  "networks (networkConfigAdd tx networkID n conf) = networks tx"
  by (induction tx networkID n conf rule: networkConfigAdd.induct) auto

lemma networkConfigAdd_nodes [simp]:
  "nodes (networkConfigAdd tx networkID n conf) = nodes tx"
  by (induction tx networkID n conf rule: networkConfigAdd.induct) auto

lemma global_committed:
  assumes "fst (networksPostCluster_global env netInfo req tx) = (None, tx')"
    and "\<not> (netInfo \<noteq> None \<and> networkPartiallyCreated (the netInfo))"
  shows "(\<exists>r\<in>set (networks tx'). nw_name r = nsp_Name req)
       \<and> (\<forall>r\<in>set (networks tx'). nw_name r = nsp_Name req \<longrightarrow> nw_state r = networkErrored)
       \<and> nodes tx' = nodes tx"
proof -
  from assms obtain networkID nodeConfigs conf where
    e: "NetworkErrored (CreateNetworkConfig tx networkID 0 conf) (nsp_Name req) = (None, tx')"
    by (auto simp: networksPostCluster_global_def split: sum.splits prod.splits option.splits if_splits)
  then have s: "networkState (CreateNetworkConfig tx networkID 0 conf) (nsp_Name req) networkErrored
      = (None, tx')" by (simp add: NetworkErrored_def)
  from networkState_committed [OF s] show ?thesis
    by (simp add: CreateNetworkConfig_def)
qed

lemma global_skipped:
  assumes "fst (networksPostCluster_global env netInfo req tx) = (None, tx')"
    and "netInfo \<noteq> None \<and> networkPartiallyCreated (the netInfo)"
  shows "tx' = tx"
  using assms by (auto simp: networksPostCluster_global_def split: if_splits)

lemma scan_errs_all_fatal:
  "scan_errs isC NotifyAll (zip peers (map f peers)) warned = (w, None) \<Longrightarrow>
     \<forall>p\<in>set peers. f p = None"
proof (induction peers arbitrary: warned)
  case Nil
  then show ?case by simp
next
  case (Cons p ps)
  show ?case
  proof (cases "f p")
    case None
    with Cons show ?thesis by simp
  next
    case (Some e)
    with Cons.prems show ?thesis by simp
  qed
qed

lemma notifier_all_none:
  "snd (notifier isC NotifyAll peers Connect hook) = None \<Longrightarrow>
     \<forall>p\<in>set peers. notify_peer Connect hook p = None"
  using scan_errs_all_fatal [of isC peers "notify_peer Connect hook" "[]"]
  by (cases "notifier isC NotifyAll peers Connect hook") (auto simp: notifier_def)

lemma select_peers_all:
  "select_peers NotifyAll address conn members acc = (Inr peers :: string notify_error + string list) \<Longrightarrow>
     peers = acc @ map fst (filter (\<lambda>(a, off). a \<noteq> address \<and> a \<noteq> ''0.0.0.0'') members)
     \<and> (\<forall>(a, off)\<in>set members. a \<noteq> address \<and> a \<noteq> ''0.0.0.0'' \<longrightarrow> \<not> off \<or> conn a)"
proof (induction members arbitrary: acc)
  case Nil
  then show ?case by simp
next
  case (Cons m members)
  obtain a off where m: "m = (a, off)" by (cases m)
  show ?case
  proof (cases "a = address \<or> a = ''0.0.0.0''")
    case True
    with Cons.prems m have "select_peers NotifyAll address conn members acc
        = (Inr peers :: string notify_error + string list)" by auto
    from Cons.IH [OF this] True m show ?thesis by auto
  next
    case False
    show ?thesis
    proof (cases "off \<and> \<not> conn a")
      case True
      with False Cons.prems m show ?thesis by simp
    next
      case ok: False
      with False Cons.prems m have "select_peers NotifyAll address conn members (acc @ [a])
          = (Inr peers :: string notify_error + string list)"
        by auto
      from Cons.IH [OF this] False ok m show ?thesis by auto
    qed
  qed
qed


lemma notify_peer_None:
  "notify_peer Connect hook p = None \<Longrightarrow> \<exists>client. Connect p = Inr client \<and> hook client = None"
  by (auto simp: notify_peer_def split: sum.splits option.splits)

lemma NewNotifier_all:
  assumes "NewNotifier (Inr address) (Inr members) conn NotifyAll
             = (Inr peers :: string notify_error + string list)"
    and "address \<noteq> []"
  shows "peers = map fst (filter (\<lambda>(a, off). a \<noteq> address \<and> a \<noteq> ''0.0.0.0'') members)"
  using assms select_peers_all [of address conn members "[]" peers]
  by (simp add: NewNotifier_def)

lemma networksPostCluster_steps:
  assumes run: "networksPostCluster env db netInfo req clientType = (err, db')"
  shows "(err \<noteq> None \<and> db' = db
          \<and> (\<not> (networksPostCluster_checks netInfo req)
             \<or> (\<exists>e tx. fst (networksPostCluster_global env netInfo req db) = (Some e, tx))))
     \<or> (networksPostCluster_checks netInfo req
          \<and> (\<exists>db1. fst (networksPostCluster_global env netInfo req db) = (None, db1)
          \<and> ((err \<noteq> None \<and> db' = db1)
             \<or> (\<exists>peers n.
                   NewNotifier (ne_ClusterAddress env)
                     (Inr (map (\<lambda>m. (node_Address m, node_IsOffline m)) (GetNodes db1)))
                     (ne_HasConnectivity env) NotifyAll = Inr peers
                 \<and> ne_LoadByName env db1 (nsp_Name req) = Inr n
                 \<and> doNetworksCreate env n clientType = None
                 \<and> snd (notifier (ne_IsConnectionError env) NotifyAll peers (ne_Connect env)
                      (create_on_peer env n
                         (fst (snd (networksPostCluster_global env netInfo req db))))) = None
                 \<and> ((err \<noteq> None \<and> db' = db1)
                    \<or> (err = None \<and> NetworkCreated db1 (nsp_Name req) = (None, db')))))))"
proof (cases "find (\<lambda>key. StringInSlice key NodeSpecificNetworkConfig) (map fst (nsp_Config req)) = None
    \<and> \<not> (netInfo \<noteq> None \<and> net_Status (the netInfo) = NetworkStatusCreated)
    \<and> \<not> (netInfo \<noteq> None \<and> nsp_Type req \<noteq> net_Type (the netInfo))")
  case False
  with run have "err \<noteq> None \<and> db' = db"
    by (auto simp: networksPostCluster_def split: option.splits if_splits)
  with False show ?thesis by (simp add: networksPostCluster_checks_def)
next
  case pre: True
  then have checks: "networksPostCluster_checks netInfo req"
    by (simp add: networksPostCluster_checks_def)
  obtain e1 db1 where t1: "Transaction db (\<lambda>tx. fst (networksPostCluster_global env netInfo req tx))
      = (e1, db1)"
    by (cases "Transaction db (\<lambda>tx. fst (networksPostCluster_global env netInfo req tx))")
  show ?thesis
  proof (cases e1)
    case (Some e)
    with Transaction_cases [OF t1] have "db1 = db" by simp
    with run pre t1 Some have "err \<noteq> None \<and> db' = db"
      by (auto simp: networksPostCluster_def split: if_splits)
    moreover from t1 Some
    have "\<exists>e tx. fst (networksPostCluster_global env netInfo req db) = (Some e, tx)"
      by (auto simp: Transaction_def split: prod.splits option.splits)
    ultimately show ?thesis by blast
  next
    case e1: None
    with Transaction_cases [OF t1]
    have g: "fst (networksPostCluster_global env netInfo req db) = (None, db1)" by simp
    let ?nn = "NewNotifier (ne_ClusterAddress env)
                     (Inr (map (\<lambda>m. (node_Address m, node_IsOffline m)) (GetNodes db1)))
                     (ne_HasConnectivity env) NotifyAll :: string notify_error + string list"
    have rest: "(err \<noteq> None \<and> db' = db1)
             \<or> (\<exists>peers n.
                   ?nn = Inr peers
                 \<and> ne_LoadByName env db1 (nsp_Name req) = Inr n
                 \<and> doNetworksCreate env n clientType = None
                 \<and> snd (notifier (ne_IsConnectionError env) NotifyAll peers (ne_Connect env)
                      (create_on_peer env n
                         (fst (snd (networksPostCluster_global env netInfo req db))))) = None
                 \<and> ((err \<noteq> None \<and> db' = db1)
                    \<or> (err = None \<and> NetworkCreated db1 (nsp_Name req) = (None, db'))))"
    proof (cases ?nn)
      case (Inl e)
      with run pre t1 e1 have "err \<noteq> None \<and> db' = db1"
        by (auto simp: networksPostCluster_def Let_def)
      then show ?thesis by blast
    next
      case peers: (Inr peers)
      show ?thesis
      proof (cases "ne_LoadByName env db1 (nsp_Name req)")
        case (Inl e)
        with run pre t1 e1 peers have "err \<noteq> None \<and> db' = db1"
          by (auto simp: networksPostCluster_def Let_def)
        then show ?thesis by blast
      next
        case n: (Inr n)
        show ?thesis
        proof (cases "doNetworksCreate env n clientType")
          case (Some e)
          with run pre t1 e1 peers n have "err \<noteq> None \<and> db' = db1"
            by (auto simp: networksPostCluster_def Let_def)
          then show ?thesis by blast
        next
          case local: None
          show ?thesis
          proof (cases "snd (notifier (ne_IsConnectionError env) NotifyAll peers (ne_Connect env)
                      (create_on_peer env n
                         (fst (snd (networksPostCluster_global env netInfo req db)))))")
            case (Some e)
            with run pre t1 e1 peers n local have "err \<noteq> None \<and> db' = db1"
              by (auto simp: networksPostCluster_def Let_def)
            then show ?thesis by blast
          next
            case notified: None
            obtain e2 db2 where t2: "Transaction db1 (\<lambda>tx. NetworkCreated tx (nsp_Name req)) = (e2, db2)"
              by (cases "Transaction db1 (\<lambda>tx. NetworkCreated tx (nsp_Name req))")
            have "(err \<noteq> None \<and> db' = db1)
                    \<or> (err = None \<and> NetworkCreated db1 (nsp_Name req) = (None, db'))"
            proof (cases e2)
              case (Some e)
              with Transaction_cases [OF t2] have "db2 = db1" by simp
              with run pre t1 e1 peers n local notified t2 Some show ?thesis
                by (auto simp: networksPostCluster_def Let_def)
            next
              case None
              with Transaction_cases [OF t2] have "NetworkCreated db1 (nsp_Name req) = (None, db2)"
                by simp
              with run pre t1 e1 peers n local notified t2 None show ?thesis
                by (auto simp: networksPostCluster_def Let_def)
            qed
            with peers n local notified show ?thesis by blast
          qed
        qed
      qed
    qed
    with g checks show ?thesis by blast
  qed
qed

text \<open>
  Claim C1, as amended. Unless the existing record is already partially created (the
  first transaction then writes nothing), \<^verbatim>\<open>networksPostCluster\<close> marks the network errored
  in the transaction that inserts its global config, and it sets the network to created
  only after \<^verbatim>\<open>doNetworksCreate\<close> has succeeded on the local member and the hook has
  returned no error on every peer, the peers being all the other members (policy
  \<^verbatim>\<open>NotifyAll\<close>). When a step fails the function returns an error and has not set the
  state to created: the network is errored when this call has inserted the global
  config (the checks passed, the record was not partially created and the first
  transaction went through), and in every other case the database is as it was before
  the call, so that the network keeps the state it had.
\<close>

theorem networks_post_cluster_created_after_all:
  assumes run: "networksPostCluster env db netInfo req clientType = (err, db')"
  shows "(err = None \<longrightarrow>
           (\<exists>db1 peers n nodeConfigs.
               NewNotifier (ne_ClusterAddress env)
                 (Inr (map (\<lambda>m. (node_Address m, node_IsOffline m)) (GetNodes db1)))
                 (ne_HasConnectivity env) NotifyAll = Inr peers
             \<and> (\<forall>address. ne_ClusterAddress env = Inr address \<and> address \<noteq> [] \<longrightarrow>
                   peers = map node_Address
                             (filter (\<lambda>m. node_Address m \<noteq> address \<and> node_Address m \<noteq> ''0.0.0.0'')
                                (GetNodes db1)))
             \<and> ne_LoadByName env db1 (nsp_Name req) = Inr n
             \<and> doNetworksCreate env n clientType = None
             \<and> (\<forall>p\<in>set peers. \<exists>client. ne_Connect env p = Inr client
                    \<and> create_on_peer env n nodeConfigs client = None)
             \<and> NetworkCreated db1 (nsp_Name req) = (None, db'))
         \<and> (\<exists>r\<in>set (networks db'). nw_name r = nsp_Name req)
         \<and> (\<forall>r\<in>set (networks db'). nw_name r = nsp_Name req \<longrightarrow> nw_state r = networkCreated))
     \<and> (err \<noteq> None \<longrightarrow>
           (networksPostCluster_checks netInfo req
              \<and> \<not> (netInfo \<noteq> None \<and> networkPartiallyCreated (the netInfo))
              \<and> (\<exists>db1. fst (networksPostCluster_global env netInfo req db) = (None, db1))
            \<longrightarrow> fst (networksPostCluster_global env netInfo req db) = (None, db')
               \<and> (\<exists>r\<in>set (networks db'). nw_name r = nsp_Name req)
               \<and> (\<forall>r\<in>set (networks db'). nw_name r = nsp_Name req \<longrightarrow>
                     nw_state r = networkErrored))
         \<and> (\<not> (networksPostCluster_checks netInfo req
                 \<and> \<not> (netInfo \<noteq> None \<and> networkPartiallyCreated (the netInfo))
                 \<and> (\<exists>db1. fst (networksPostCluster_global env netInfo req db) = (None, db1)))
            \<longrightarrow> db' = db))
     \<and> (\<forall>tx'. fst (networksPostCluster_global env netInfo req db) = (None, tx')
            \<and> \<not> (netInfo \<noteq> None \<and> networkPartiallyCreated (the netInfo))
          \<longrightarrow> (\<exists>r\<in>set (networks tx'). nw_name r = nsp_Name req)
             \<and> (\<forall>r\<in>set (networks tx'). nw_name r = nsp_Name req \<longrightarrow> nw_state r = networkErrored))"
proof (intro conjI impI allI)
  assume ok: "err = None"
  let ?nc = "fst (snd (networksPostCluster_global env netInfo req db))"
  from networksPostCluster_steps [OF run] ok obtain db1 peers n where
    nn: "NewNotifier (ne_ClusterAddress env)
                     (Inr (map (\<lambda>m. (node_Address m, node_IsOffline m)) (GetNodes db1)))
                     (ne_HasConnectivity env) NotifyAll = Inr peers"
    and ld: "ne_LoadByName env db1 (nsp_Name req) = Inr n"
    and lc: "doNetworksCreate env n clientType = None"
    and nt: "snd (notifier (ne_IsConnectionError env) NotifyAll peers (ne_Connect env)
                      (create_on_peer env n ?nc)) = None"
    and cr: "NetworkCreated db1 (nsp_Name req) = (None, db')"
    by blast
  have all: "\<forall>address. ne_ClusterAddress env = Inr address \<and> address \<noteq> [] \<longrightarrow>
                   peers = map node_Address
                             (filter (\<lambda>m. node_Address m \<noteq> address \<and> node_Address m \<noteq> ''0.0.0.0'')
                                (GetNodes db1))"
  proof (intro allI impI)
    fix address assume a: "ne_ClusterAddress env = Inr address \<and> address \<noteq> []"
    with nn have "NewNotifier (Inr address :: string + string)
                     (Inr (map (\<lambda>m. (node_Address m, node_IsOffline m)) (GetNodes db1)))
                     (ne_HasConnectivity env) NotifyAll = Inr peers" by simp
    from NewNotifier_all [OF this] a
    show "peers = map node_Address
                             (filter (\<lambda>m. node_Address m \<noteq> address \<and> node_Address m \<noteq> ''0.0.0.0'')
                                (GetNodes db1))"
      by (simp add: filter_map comp_def)
  qed
  have hooks: "\<forall>p\<in>set peers. \<exists>client. ne_Connect env p = Inr client
                    \<and> create_on_peer env n ?nc client = None"
    using notifier_all_none [OF nt] notify_peer_None by blast
  from nn all ld lc hooks cr
  show "\<exists>db1 peers n nodeConfigs.
               NewNotifier (ne_ClusterAddress env)
                 (Inr (map (\<lambda>m. (node_Address m, node_IsOffline m)) (GetNodes db1)))
                 (ne_HasConnectivity env) NotifyAll = Inr peers
             \<and> (\<forall>address. ne_ClusterAddress env = Inr address \<and> address \<noteq> [] \<longrightarrow>
                   peers = map node_Address
                             (filter (\<lambda>m. node_Address m \<noteq> address \<and> node_Address m \<noteq> ''0.0.0.0'')
                                (GetNodes db1)))
             \<and> ne_LoadByName env db1 (nsp_Name req) = Inr n
             \<and> doNetworksCreate env n clientType = None
             \<and> (\<forall>p\<in>set peers. \<exists>client. ne_Connect env p = Inr client
                    \<and> create_on_peer env n nodeConfigs client = None)
             \<and> NetworkCreated db1 (nsp_Name req) = (None, db')"
    by blast
  from cr have st: "networkState db1 (nsp_Name req) networkCreated = (None, db')"
    by (simp add: NetworkCreated_def)
  from networkState_committed [OF st]
  show "\<exists>r\<in>set (networks db'). nw_name r = nsp_Name req"
    and "\<forall>r\<in>set (networks db'). nw_name r = nsp_Name req \<longrightarrow> nw_state r = networkCreated"
    by blast+
next
  assume bad: "err \<noteq> None"
    and ins: "networksPostCluster_checks netInfo req
              \<and> \<not> (netInfo \<noteq> None \<and> networkPartiallyCreated (the netInfo))
              \<and> (\<exists>db1. fst (networksPostCluster_global env netInfo req db) = (None, db1))"
  from networksPostCluster_steps [OF run] bad ins
  have g: "fst (networksPostCluster_global env netInfo req db) = (None, db')"
    by auto
  from ins have ns: "\<not> (netInfo \<noteq> None \<and> networkPartiallyCreated (the netInfo))" by blast
  from g show "fst (networksPostCluster_global env netInfo req db) = (None, db')" .
  from global_committed [OF g ns]
  show "\<exists>r\<in>set (networks db'). nw_name r = nsp_Name req"
    and "\<forall>r\<in>set (networks db'). nw_name r = nsp_Name req \<longrightarrow> nw_state r = networkErrored"
    by blast+
next
  assume bad: "err \<noteq> None"
    and no: "\<not> (networksPostCluster_checks netInfo req
                 \<and> \<not> (netInfo \<noteq> None \<and> networkPartiallyCreated (the netInfo))
                 \<and> (\<exists>db1. fst (networksPostCluster_global env netInfo req db) = (None, db1)))"
  from networksPostCluster_steps [OF run] bad
  have "db' = db
      \<or> (networksPostCluster_checks netInfo req
         \<and> fst (networksPostCluster_global env netInfo req db) = (None, db'))"
    by auto
  then show "db' = db"
  proof
    assume "db' = db" then show ?thesis .
  next
    assume c: "networksPostCluster_checks netInfo req
         \<and> fst (networksPostCluster_global env netInfo req db) = (None, db')"
    with no have skip: "netInfo \<noteq> None \<and> networkPartiallyCreated (the netInfo)" by blast
    from c have g: "fst (networksPostCluster_global env netInfo req db) = (None, db')" by blast
    from global_skipped [OF g skip] show ?thesis .
  qed
next
  fix tx'
  assume "fst (networksPostCluster_global env netInfo req db) = (None, tx')
            \<and> \<not> (netInfo \<noteq> None \<and> networkPartiallyCreated (the netInfo))"
  then have g: "fst (networksPostCluster_global env netInfo req db) = (None, tx')"
    and ns: "\<not> (netInfo \<noteq> None \<and> networkPartiallyCreated (the netInfo))" by blast+
  from global_committed [OF g ns]
  show "\<exists>r\<in>set (networks tx'). nw_name r = nsp_Name req"
    and "\<forall>r\<in>set (networks tx'). nw_name r = nsp_Name req \<longrightarrow> nw_state r = networkErrored"
    by blast+
qed

text \<open>
  Claim C1, witness: a cluster of two members with the network \<^verbatim>\<open>lxdbr0\<close> pending on both.
  When the peer's \<^verbatim>\<open>CreateNetwork\<close> fails the function returns the notifier's error and
  leaves the network errored; when every step succeeds it leaves the network created.
\<close>

theorem networks_post_cluster_created_after_all_witness:
  "networksPostCluster
      \<lparr>ne_LoadByType = (\<lambda>t. None), ne_ValidateName = (\<lambda>n. None),
      ne_NodeSpecificConfig = (\<lambda>t. True), ne_DBType = (\<lambda>t. 0),
      ne_FillConfig = (\<lambda>c. Inr c),
      ne_LoadByName = (\<lambda>db name. Inr \<lparr>net_Name = name, net_Description = [],
          net_Type = ''bridge'', net_Managed = True, net_Status = ''Pending'', net_Config = [],
          net_Locations = []\<rparr>),
      ne_Validate = (\<lambda>n. None), ne_LocalStatus = (\<lambda>n. ''Pending''),
      ne_Create = (\<lambda>n c. None), ne_Start = (\<lambda>n. None), ne_Count = Inr 2,
      ne_ClusterAddress = Inr ''10.0.0.1:8443'', ne_HasConnectivity = (\<lambda>a. True),
      ne_IsConnectionError = (\<lambda>e. False), ne_Connect = (\<lambda>a. Inr a),
      ne_GetServer = (\<lambda>c. Inr ''b''),
      ne_CreateNetwork = (\<lambda>c r. Some ''Failed to create bridge'')\<rparr>
      \<lparr>networks = [\<lparr>nw_id = 1, nw_name = ''lxdbr0'', nw_description = [], nw_state = networkPending\<rparr>],
      networks_nodes = [(1, 1), (1, 2)],
      networks_config = [],
      nodes = [\<lparr>node_ID = 1, node_Name = ''a'', node_Address = ''10.0.0.1:8443'',
                node_Description = [], node_Roles = [], node_IsOffline = False\<rparr>,
               \<lparr>node_ID = 2, node_Name = ''b'', node_Address = ''10.0.0.2:8443'',
                node_Description = [], node_Roles = [], node_IsOffline = False\<rparr>],
      nodeID = 1, networks_seq = 1\<rparr>
      None
      \<lparr>nsp_Name = ''lxdbr0'', nsp_Description = [], nsp_Type = ''bridge'',
        nsp_Config = [(''ipv4.address'', ''auto'')]\<rparr>
      ClientTypeNormal
   = (Some (NetNotify (FailedNotify ''10.0.0.2:8443'' ''Failed to create bridge'')),
      \<lparr>networks = [\<lparr>nw_id = 1, nw_name = ''lxdbr0'', nw_description = [], nw_state = networkErrored\<rparr>],
      networks_nodes = [(1, 1), (1, 2)],
      networks_config = [\<lparr>nc_network_id = 1, nc_node_id = None, nc_key = ''ipv4.address'', nc_value = ''auto''\<rparr>],
      nodes = [\<lparr>node_ID = 1, node_Name = ''a'', node_Address = ''10.0.0.1:8443'',
                node_Description = [], node_Roles = [], node_IsOffline = False\<rparr>,
               \<lparr>node_ID = 2, node_Name = ''b'', node_Address = ''10.0.0.2:8443'',
                node_Description = [], node_Roles = [], node_IsOffline = False\<rparr>],
      nodeID = 1, networks_seq = 1\<rparr>)
   \<and> networksPostCluster
      \<lparr>ne_LoadByType = (\<lambda>t. None), ne_ValidateName = (\<lambda>n. None),
      ne_NodeSpecificConfig = (\<lambda>t. True), ne_DBType = (\<lambda>t. 0),
      ne_FillConfig = (\<lambda>c. Inr c),
      ne_LoadByName = (\<lambda>db name. Inr \<lparr>net_Name = name, net_Description = [],
          net_Type = ''bridge'', net_Managed = True, net_Status = ''Pending'', net_Config = [],
          net_Locations = []\<rparr>),
      ne_Validate = (\<lambda>n. None), ne_LocalStatus = (\<lambda>n. ''Pending''),
      ne_Create = (\<lambda>n c. None), ne_Start = (\<lambda>n. None), ne_Count = Inr 2,
      ne_ClusterAddress = Inr ''10.0.0.1:8443'', ne_HasConnectivity = (\<lambda>a. True),
      ne_IsConnectionError = (\<lambda>e. False), ne_Connect = (\<lambda>a. Inr a),
      ne_GetServer = (\<lambda>c. Inr ''b''),
      ne_CreateNetwork = (\<lambda>c r. None)\<rparr>
      \<lparr>networks = [\<lparr>nw_id = 1, nw_name = ''lxdbr0'', nw_description = [], nw_state = networkPending\<rparr>],
      networks_nodes = [(1, 1), (1, 2)],
      networks_config = [],
      nodes = [\<lparr>node_ID = 1, node_Name = ''a'', node_Address = ''10.0.0.1:8443'',
                node_Description = [], node_Roles = [], node_IsOffline = False\<rparr>,
               \<lparr>node_ID = 2, node_Name = ''b'', node_Address = ''10.0.0.2:8443'',
                node_Description = [], node_Roles = [], node_IsOffline = False\<rparr>],
      nodeID = 1, networks_seq = 1\<rparr>
      None
      \<lparr>nsp_Name = ''lxdbr0'', nsp_Description = [], nsp_Type = ''bridge'',
        nsp_Config = [(''ipv4.address'', ''auto'')]\<rparr>
      ClientTypeNormal
   = (None,
      \<lparr>networks = [\<lparr>nw_id = 1, nw_name = ''lxdbr0'', nw_description = [], nw_state = networkCreated\<rparr>],
      networks_nodes = [(1, 1), (1, 2)],
      networks_config = [\<lparr>nc_network_id = 1, nc_node_id = None, nc_key = ''ipv4.address'', nc_value = ''auto''\<rparr>],
      nodes = [\<lparr>node_ID = 1, node_Name = ''a'', node_Address = ''10.0.0.1:8443'',
                node_Description = [], node_Roles = [], node_IsOffline = False\<rparr>,
               \<lparr>node_ID = 2, node_Name = ''b'', node_Address = ''10.0.0.2:8443'',
                node_Description = [], node_Roles = [], node_IsOffline = False\<rparr>],
      nodeID = 1, networks_seq = 1\<rparr>)"
proof -
  let ?failing = "\<lparr>ne_LoadByType = (\<lambda>t. None), ne_ValidateName = (\<lambda>n. None),
      ne_NodeSpecificConfig = (\<lambda>t. True), ne_DBType = (\<lambda>t. 0),
      ne_FillConfig = (\<lambda>c. Inr c),
      ne_LoadByName = (\<lambda>db name. Inr \<lparr>net_Name = name, net_Description = [],
          net_Type = ''bridge'', net_Managed = True, net_Status = ''Pending'', net_Config = [],
          net_Locations = []\<rparr>),
      ne_Validate = (\<lambda>n. None), ne_LocalStatus = (\<lambda>n. ''Pending''),
      ne_Create = (\<lambda>n c. None), ne_Start = (\<lambda>n. None), ne_Count = Inr 2,
      ne_ClusterAddress = Inr ''10.0.0.1:8443'', ne_HasConnectivity = (\<lambda>a. True),
      ne_IsConnectionError = (\<lambda>e. False), ne_Connect = (\<lambda>a. Inr a),
      ne_GetServer = (\<lambda>c. Inr ''b''),
      ne_CreateNetwork = (\<lambda>c r. Some ''Failed to create bridge'')\<rparr>"
  let ?working = "\<lparr>ne_LoadByType = (\<lambda>t. None), ne_ValidateName = (\<lambda>n. None),
      ne_NodeSpecificConfig = (\<lambda>t. True), ne_DBType = (\<lambda>t. 0),
      ne_FillConfig = (\<lambda>c. Inr c),
      ne_LoadByName = (\<lambda>db name. Inr \<lparr>net_Name = name, net_Description = [],
          net_Type = ''bridge'', net_Managed = True, net_Status = ''Pending'', net_Config = [],
          net_Locations = []\<rparr>),
      ne_Validate = (\<lambda>n. None), ne_LocalStatus = (\<lambda>n. ''Pending''),
      ne_Create = (\<lambda>n c. None), ne_Start = (\<lambda>n. None), ne_Count = Inr 2,
      ne_ClusterAddress = Inr ''10.0.0.1:8443'', ne_HasConnectivity = (\<lambda>a. True),
      ne_IsConnectionError = (\<lambda>e. False), ne_Connect = (\<lambda>a. Inr a),
      ne_GetServer = (\<lambda>c. Inr ''b''),
      ne_CreateNetwork = (\<lambda>c r. None)\<rparr>"
  let ?db = "\<lparr>networks = [\<lparr>nw_id = 1, nw_name = ''lxdbr0'', nw_description = [], nw_state = networkPending\<rparr>],
      networks_nodes = [(1, 1), (1, 2)],
      networks_config = [],
      nodes = [\<lparr>node_ID = 1, node_Name = ''a'', node_Address = ''10.0.0.1:8443'',
                node_Description = [], node_Roles = [], node_IsOffline = False\<rparr>,
               \<lparr>node_ID = 2, node_Name = ''b'', node_Address = ''10.0.0.2:8443'',
                node_Description = [], node_Roles = [], node_IsOffline = False\<rparr>],
      nodeID = 1, networks_seq = 1\<rparr>"
  let ?req = "\<lparr>nsp_Name = ''lxdbr0'', nsp_Description = [], nsp_Type = ''bridge'',
        nsp_Config = [(''ipv4.address'', ''auto'')]\<rparr>"
  let ?errored = "\<lparr>networks = [\<lparr>nw_id = 1, nw_name = ''lxdbr0'', nw_description = [], nw_state = networkErrored\<rparr>],
      networks_nodes = [(1, 1), (1, 2)],
      networks_config = [\<lparr>nc_network_id = 1, nc_node_id = None, nc_key = ''ipv4.address'', nc_value = ''auto''\<rparr>],
      nodes = [\<lparr>node_ID = 1, node_Name = ''a'', node_Address = ''10.0.0.1:8443'',
                node_Description = [], node_Roles = [], node_IsOffline = False\<rparr>,
               \<lparr>node_ID = 2, node_Name = ''b'', node_Address = ''10.0.0.2:8443'',
                node_Description = [], node_Roles = [], node_IsOffline = False\<rparr>],
      nodeID = 1, networks_seq = 1\<rparr>"
  let ?created = "\<lparr>networks = [\<lparr>nw_id = 1, nw_name = ''lxdbr0'', nw_description = [], nw_state = networkCreated\<rparr>],
      networks_nodes = [(1, 1), (1, 2)],
      networks_config = [\<lparr>nc_network_id = 1, nc_node_id = None, nc_key = ''ipv4.address'', nc_value = ''auto''\<rparr>],
      nodes = [\<lparr>node_ID = 1, node_Name = ''a'', node_Address = ''10.0.0.1:8443'',
                node_Description = [], node_Roles = [], node_IsOffline = False\<rparr>,
               \<lparr>node_ID = 2, node_Name = ''b'', node_Address = ''10.0.0.2:8443'',
                node_Description = [], node_Roles = [], node_IsOffline = False\<rparr>],
      nodeID = 1, networks_seq = 1\<rparr>"
  have f: "networksPostCluster ?failing ?db None ?req ClientTypeNormal
      = (Some (NetNotify (FailedNotify ''10.0.0.2:8443'' ''Failed to create bridge'')), ?errored)"
    by (simp add: networksPostCluster_def networksPostCluster_global_def Transaction_def
        GetNetworkID_def NetworkNodeConfigs_def GetNodes_def StringInSlice_def
        NodeSpecificNetworkConfig_def CreateNetworkConfig_def NetworkErrored_def networkState_def
        NewNotifier_def doNetworksCreate_def notifier_def notify_peer_def create_on_peer_def
        map_delete_def NetworkCreated_def NetworkStatusCreated_def Let_def)
  have g: "networksPostCluster ?working ?db None ?req ClientTypeNormal = (None, ?created)"
    by (simp add: networksPostCluster_def networksPostCluster_global_def Transaction_def
        GetNetworkID_def NetworkNodeConfigs_def GetNodes_def StringInSlice_def
        NodeSpecificNetworkConfig_def CreateNetworkConfig_def NetworkErrored_def networkState_def
        NewNotifier_def doNetworksCreate_def notifier_def notify_peer_def create_on_peer_def
        map_delete_def NetworkCreated_def NetworkStatusCreated_def Let_def)
  have c: "networksPostCluster_checks None ?req"
    by (simp add: networksPostCluster_checks_def StringInSlice_def NodeSpecificNetworkConfig_def)
  have gl: "fst (networksPostCluster_global ?failing None ?req ?db) = (None, ?errored)"
    by (simp add: networksPostCluster_global_def GetNetworkID_def NetworkNodeConfigs_def
        GetNodes_def StringInSlice_def NodeSpecificNetworkConfig_def CreateNetworkConfig_def
        NetworkErrored_def networkState_def Let_def)
  from networks_post_cluster_created_after_all [OF f] c gl
  have "\<forall>r\<in>set (networks ?errored). nw_name r = ''lxdbr0'' \<longrightarrow> nw_state r = networkErrored"
    by auto
  moreover from networks_post_cluster_created_after_all [OF g]
  have "\<forall>r\<in>set (networks ?created). nw_name r = ''lxdbr0'' \<longrightarrow> nw_state r = networkCreated"
    by simp
  ultimately show ?thesis using f g by simp
qed

text \<open>
  Claim C1, counterexample to the claim as stated: a step fails, the function returns
  an error, and the network is not errored. In the first run the network \<^verbatim>\<open>lxdbr0\<close> is
  pending on both members and the request carries a node-specific key: the function
  returns before its first transaction and the network stays pending. In the second run
  the record is partially created (it is pending and has a global key), the first
  transaction writes nothing, \<^verbatim>\<open>Create\<close> of the driver fails on the local member, and the
  network stays pending.
\<close>

theorem networks_post_cluster_not_errored_counterexample:
  "networksPostCluster
      \<lparr>ne_LoadByType = (\<lambda>t. None), ne_ValidateName = (\<lambda>n. None),
      ne_NodeSpecificConfig = (\<lambda>t. True), ne_DBType = (\<lambda>t. 0),
      ne_FillConfig = (\<lambda>c. Inr c),
      ne_LoadByName = (\<lambda>db name. Inr \<lparr>net_Name = name, net_Description = [],
          net_Type = ''bridge'', net_Managed = True, net_Status = ''Pending'', net_Config = [],
          net_Locations = []\<rparr>),
      ne_Validate = (\<lambda>n. None), ne_LocalStatus = (\<lambda>n. ''Pending''),
      ne_Create = (\<lambda>n c. None), ne_Start = (\<lambda>n. None), ne_Count = Inr 2,
      ne_ClusterAddress = Inr ''10.0.0.1:8443'', ne_HasConnectivity = (\<lambda>a. True),
      ne_IsConnectionError = (\<lambda>e. False), ne_Connect = (\<lambda>a. Inr a),
      ne_GetServer = (\<lambda>c. Inr ''b''),
      ne_CreateNetwork = (\<lambda>c r. None)\<rparr>
      \<lparr>networks = [\<lparr>nw_id = 1, nw_name = ''lxdbr0'', nw_description = [], nw_state = networkPending\<rparr>],
      networks_nodes = [(1, 1), (1, 2)],
      networks_config = [],
      nodes = [\<lparr>node_ID = 1, node_Name = ''a'', node_Address = ''10.0.0.1:8443'',
                node_Description = [], node_Roles = [], node_IsOffline = False\<rparr>,
               \<lparr>node_ID = 2, node_Name = ''b'', node_Address = ''10.0.0.2:8443'',
                node_Description = [], node_Roles = [], node_IsOffline = False\<rparr>],
      nodeID = 1, networks_seq = 1\<rparr>
      None
      \<lparr>nsp_Name = ''lxdbr0'', nsp_Description = [], nsp_Type = ''bridge'',
        nsp_Config = [(''bridge.external_interfaces'', ''eth1'')]\<rparr>
      ClientTypeNormal
   = (Some (ConfigKeyIsNodeSpecific ''bridge.external_interfaces''),
      \<lparr>networks = [\<lparr>nw_id = 1, nw_name = ''lxdbr0'', nw_description = [], nw_state = networkPending\<rparr>],
      networks_nodes = [(1, 1), (1, 2)],
      networks_config = [],
      nodes = [\<lparr>node_ID = 1, node_Name = ''a'', node_Address = ''10.0.0.1:8443'',
                node_Description = [], node_Roles = [], node_IsOffline = False\<rparr>,
               \<lparr>node_ID = 2, node_Name = ''b'', node_Address = ''10.0.0.2:8443'',
                node_Description = [], node_Roles = [], node_IsOffline = False\<rparr>],
      nodeID = 1, networks_seq = 1\<rparr>)
   \<and> networksPostCluster
      \<lparr>ne_LoadByType = (\<lambda>t. None), ne_ValidateName = (\<lambda>n. None),
      ne_NodeSpecificConfig = (\<lambda>t. True), ne_DBType = (\<lambda>t. 0),
      ne_FillConfig = (\<lambda>c. Inr c),
      ne_LoadByName = (\<lambda>db name. Inr \<lparr>net_Name = name, net_Description = [],
          net_Type = ''bridge'', net_Managed = True, net_Status = ''Pending'',
          net_Config = [(''ipv4.address'', ''auto'')], net_Locations = []\<rparr>),
      ne_Validate = (\<lambda>n. None), ne_LocalStatus = (\<lambda>n. ''Pending''),
      ne_Create = (\<lambda>n c. Some ''Failed to create bridge''), ne_Start = (\<lambda>n. None),
      ne_Count = Inr 2,
      ne_ClusterAddress = Inr ''10.0.0.1:8443'', ne_HasConnectivity = (\<lambda>a. True),
      ne_IsConnectionError = (\<lambda>e. False), ne_Connect = (\<lambda>a. Inr a),
      ne_GetServer = (\<lambda>c. Inr ''b''),
      ne_CreateNetwork = (\<lambda>c r. None)\<rparr>
      \<lparr>networks = [\<lparr>nw_id = 1, nw_name = ''lxdbr0'', nw_description = [], nw_state = networkPending\<rparr>],
      networks_nodes = [(1, 1), (1, 2)],
      networks_config = [\<lparr>nc_network_id = 1, nc_node_id = None, nc_key = ''ipv4.address'', nc_value = ''auto''\<rparr>],
      nodes = [\<lparr>node_ID = 1, node_Name = ''a'', node_Address = ''10.0.0.1:8443'',
                node_Description = [], node_Roles = [], node_IsOffline = False\<rparr>,
               \<lparr>node_ID = 2, node_Name = ''b'', node_Address = ''10.0.0.2:8443'',
                node_Description = [], node_Roles = [], node_IsOffline = False\<rparr>],
      nodeID = 1, networks_seq = 1\<rparr>
      (Some \<lparr>net_Name = ''lxdbr0'', net_Description = [],
          net_Type = ''bridge'', net_Managed = True, net_Status = ''Pending'',
          net_Config = [(''ipv4.address'', ''auto'')], net_Locations = [''a'', ''b'']\<rparr>)
      \<lparr>nsp_Name = ''lxdbr0'', nsp_Description = [], nsp_Type = ''bridge'', nsp_Config = []\<rparr>
      ClientTypeNormal
   = (Some (NetExt ''Failed to create bridge''),
      \<lparr>networks = [\<lparr>nw_id = 1, nw_name = ''lxdbr0'', nw_description = [], nw_state = networkPending\<rparr>],
      networks_nodes = [(1, 1), (1, 2)],
      networks_config = [\<lparr>nc_network_id = 1, nc_node_id = None, nc_key = ''ipv4.address'', nc_value = ''auto''\<rparr>],
      nodes = [\<lparr>node_ID = 1, node_Name = ''a'', node_Address = ''10.0.0.1:8443'',
                node_Description = [], node_Roles = [], node_IsOffline = False\<rparr>,
               \<lparr>node_ID = 2, node_Name = ''b'', node_Address = ''10.0.0.2:8443'',
                node_Description = [], node_Roles = [], node_IsOffline = False\<rparr>],
      nodeID = 1, networks_seq = 1\<rparr>)
   \<and> networkPending \<noteq> networkErrored"
  by (simp add: networksPostCluster_def networksPostCluster_global_def Transaction_def
      networkPartiallyCreated_def NetworkStatusErrored_def NetworkStatusCreated_def
      StringInSlice_def NodeSpecificNetworkConfig_def GetNodes_def
      NewNotifier_def doNetworksCreate_def Let_def)

end
